theory Spec2Isabelle
  imports Main "HOL-Library.Word" "HOL-Library.Signed_Division"
begin

unbundle bit_operations_syntax

section \<open>The YuS stream cipher: a shallow embedding of the C++ sources\<close>

text \<open>
  An \<^verbatim>\<open>mpz_class\<close> is an \<^typ>\<open>int\<close>, a \<^verbatim>\<open>std::vector\<close> a list, \<^verbatim>\<open>uint8_t\<close> and
  \<^verbatim>\<open>uint32_t\<close> are \<^typ>\<open>8 word\<close> and \<^typ>\<open>32 word\<close>; a loop counter that stays below a
  constant or below a \<^verbatim>\<open>uint32_t\<close> bound cannot wrap and is a \<^typ>\<open>nat\<close>, a \<^verbatim>\<open>for\<close> loop runs
  over the list of its indices. A member \<^verbatim>\<open>x_\<close> of a class is the field of a record, named
  after the class. A C++ exception is the \<open>Inl\<close> of a sum, with its class and its message
  (in ASCII: the congruence and the less-or-equal signs of two messages are written \<open>=\<close> and
  \<open><=\<close>, and the row number in the message of the \<^verbatim>\<open>LinearLayer\<close> constructor is left out).
  GMP's \<^verbatim>\<open>%\<close> on \<^verbatim>\<open>mpz_class\<close> truncates towards zero (\<^verbatim>\<open>mpz_tdiv_r\<close>), which is
  \<open>smod\<close>; for a zero modulus GMP divides by zero and the process is aborted, so the model
  speaks about moduli \<open>p > 0\<close>, which the constructors of \<^verbatim>\<open>SBox\<close> and \<^verbatim>\<open>YuSCipher\<close> establish
  for every object they return.
\<close>

datatype error = invalid_argument string | runtime_error string

subsection \<open>utils.cpp\<close>

definition is_p_2mod3 :: "int \<Rightarrow> bool" where
  "is_p_2mod3 p = (p smod 3 = 2)"

text \<open>\<^verbatim>\<open>mod(a, p)\<close>: the truncating remainder, moved up by \<open>p\<close> when it is negative.\<close>

definition yus_mod :: "int \<Rightarrow> int \<Rightarrow> int" where
  "yus_mod a p = (let res = a smod p in if res < 0 then res + p else res)"

text \<open>\<^verbatim>\<open>mpz_import(num, n, 1, 1, 0, 0, data)\<close>: words of one byte, most significant first.\<close>

definition bytes_to_mpz :: "8 word list \<Rightarrow> int" where
  "bytes_to_mpz bytes = foldl (\<lambda>num b. num * 256 + uint b) 0 bytes"

subsection \<open>sbox.cpp\<close>

record SBox =
  SBox_p :: int

definition SBox_new :: "int \<Rightarrow> error + SBox" where
  "SBox_new p =
     (if \<not> is_p_2mod3 p then Inl (invalid_argument ''Prime p must satisfy p = 2 mod 3'')
      else Inr \<lparr>SBox_p = p\<rparr>)"

definition SBox_apply :: "SBox \<Rightarrow> int list \<Rightarrow> error + int list" where
  "SBox_apply sb input =
     (if length input \<noteq> 3 then Inl (invalid_argument ''SBox input must be 3 elements (F_p^3)'')
      else
        let x0 = input ! 0; x1 = input ! 1; x2 = input ! 2;
            y0 = yus_mod x0 (SBox_p sb);
            y1 = yus_mod ((x0 * x2) + x1) (SBox_p sb);
            y2 = yus_mod ((- x0 * x1) + (x0 * x2) + x2) (SBox_p sb)
        in Inr [y0, y1, y2])"

text \<open>
  The exhaustive branch of \<^verbatim>\<open>is_permutation\<close>: the three nested loops visit the triples in
  lexicographic order; \<open>None\<close> is the early \<^verbatim>\<open>return false\<close>, an exception of \<^verbatim>\<open>apply\<close>
  leaves the loop.
\<close>

fun perm_scan :: "SBox \<Rightarrow> int list list \<Rightarrow> int list set \<Rightarrow> error + (int list set) option" where
  "perm_scan sb [] outputs = Inr (Some outputs)"
| "perm_scan sb (x # xs) outputs =
     (case SBox_apply sb x of
        Inl e \<Rightarrow> Inl e
      | Inr output \<Rightarrow>
          if output \<in> outputs then Inr None
          else perm_scan sb xs (insert output outputs))"

definition all_triples :: "int \<Rightarrow> int list list" where
  "all_triples p =
     concat (map (\<lambda>x0. concat (map (\<lambda>x1. map (\<lambda>x2. [x0, x1, x2]) [0..p - 1]) [0..p - 1])) [0..p - 1])"

definition is_permutation :: "SBox \<Rightarrow> error + bool" where
  "is_permutation sb =
     (if SBox_p sb > 1000 then
        let det = yus_mod (1 + SBox_p sb + (SBox_p sb * SBox_p sb)) (SBox_p sb)
        in Inr (det \<noteq> 0)
      else
        case perm_scan sb (all_triples (SBox_p sb)) {} of
          Inl e \<Rightarrow> Inl e
        | Inr None \<Rightarrow> Inr False
        | Inr (Some outputs) \<Rightarrow>
            Inr (int (card outputs) = SBox_p sb * SBox_p sb * SBox_p sb))"

definition differential_uniformity :: "SBox \<Rightarrow> int" where
  "differential_uniformity sb = SBox_p sb * SBox_p sb"

subsection \<open>linear_layer.cpp\<close>

record LinearLayer =
  LL_matrix :: "8 word list list"
  LL_four_russians_table :: "int list list"

definition matrix_binary :: "string list" where
  "matrix_binary =
     [''110111111001001111011110110001110111'',
      ''111110101010110101101111111010011110'',
      ''010011011110101011111101011111111101'',
      ''111110111111001001111011110110001110'',
      ''110111110101010110101101111111010011'',
      ''101010011011110101011111101011111111'',
      ''110111110111111001001111011110110001'',
      ''011110111110101010110101101111111010'',
      ''111101010011011110101011111101011111'',
      ''001110111110111111001001111011110110'',
      ''010011110111110101010110101101111111'',
      ''111111101010011011110101011111101011'',
      ''110001110111110111111001001111011110'',
      ''111010011110111110101010110101101111'',
      ''011111111101010011011110101011111101'',
      ''110110001110111110111111001001111011'',
      ''111111010011110111110101010110101101'',
      ''101011111111101010011011110101011111'',
      ''011110110001110111110111111001001111'',
      ''101111111010011110111110101010110101'',
      ''111101011111111101010011011110101011'',
      ''111011110110001110111110111111001001'',
      ''101101111111010011110111110101010110'',
      ''011111101011111111101010011011110101'',
      ''001111011110110001110111110111111001'',
      ''110101101111111010011110111110101010'',
      ''101011111101011111111101010011011110'',
      ''001001111011110110001110111110111111'',
      ''010110101101111111010011110111110101'',
      ''110101011111101011111111101010011011'',
      ''111001001111011110110001110111110111'',
      ''101010110101101111111010011110111110'',
      ''011110101011111101011111111101010011'',
      ''111111001001111011110110001110111110'',
      ''110101010110101101111111010011110111'',
      ''011011110101011111101011111111101010'']"

text \<open>The constructor's loop over the rows: each row string is checked, then copied bit by bit.\<close>

fun fill_rows :: "nat list \<Rightarrow> 8 word list list \<Rightarrow> error + 8 word list list" where
  "fill_rows [] matrix = Inr matrix"
| "fill_rows (i # is) matrix =
     (if length (matrix_binary ! i) \<noteq> 36 then Inl (runtime_error ''Row i must be 36 bits long'')
      else fill_rows is
        (matrix[i := foldl (\<lambda>row j. row[j := (if matrix_binary ! i ! j = CHR ''1'' then 1 else 0)])
                       (matrix ! i) [0..<36]]))"

text \<open>The column vector of \<^verbatim>\<open>precompute_four_russians\<close>: bit \<open>row\<close> is set when the matrix has a one there.\<close>

definition col_vec :: "8 word list list \<Rightarrow> nat \<Rightarrow> int" where
  "col_vec matrix col =
     foldl (\<lambda>cv row. if matrix ! row ! col = 1 then set_bit row cv else cv) 0 [0..<36]"

definition precompute_four_russians :: "8 word list list \<Rightarrow> int list list" where
  "precompute_four_russians matrix =
     map (\<lambda>group.
        let col_start = group * 4 in
        map (\<lambda>mask.
           foldl (\<lambda>sum bit.
              if (mask :: nat) AND (push_bit bit 1) \<noteq> 0
              then sum XOR col_vec matrix (col_start + bit) else sum) 0 [0..<4])
          [0..<16])
       [0..<9]"

definition LinearLayer_new :: "error + LinearLayer" where
  "LinearLayer_new =
     (if length matrix_binary \<noteq> 36 then Inl (runtime_error ''36x36 matrix must have exactly 36 rows'')
      else case fill_rows [0..<36] (replicate 36 (replicate 36 0)) of
        Inl e \<Rightarrow> Inl e
      | Inr matrix \<Rightarrow>
          Inr \<lparr>LL_matrix = matrix, LL_four_russians_table = precompute_four_russians matrix\<rparr>)"

text \<open>The mask of a row in a group of four columns, as \<^verbatim>\<open>apply\<close> builds it.\<close>

definition row_mask :: "LinearLayer \<Rightarrow> nat \<Rightarrow> nat \<Rightarrow> nat" where
  "row_mask ll row col_start =
     foldl (\<lambda>mask bit. if LL_matrix ll ! row ! (col_start + bit) = 1 then mask OR (push_bit bit 1) else mask)
       0 [0..<4]"

text \<open>The body of the loop over the rows of \<^verbatim>\<open>apply\<close>: the value stored in \<^verbatim>\<open>output[row]\<close>.\<close>

definition row_sum :: "LinearLayer \<Rightarrow> int list \<Rightarrow> int \<Rightarrow> nat \<Rightarrow> int" where
  "row_sum ll state p row =
     foldl (\<lambda>row_sum group.
        let col_start = group * 4;
            mask = row_mask ll row col_start;
            precomputed = LL_four_russians_table ll ! group ! mask
        in foldl (\<lambda>row_sum i.
             if bit precomputed i then yus_mod (row_sum + state ! (col_start + i mod 4)) p
             else row_sum) row_sum [0..<36])
       0 [0..<9]"

definition LinearLayer_apply :: "LinearLayer \<Rightarrow> int list \<Rightarrow> int \<Rightarrow> error + int list" where
  "LinearLayer_apply ll state p =
     (if length state \<noteq> 36 then Inl (invalid_argument ''Linear layer input must be 36 elements'')
      else Inr (map (row_sum ll state p) [0..<36]))"

definition linear_branch_number :: "LinearLayer \<Rightarrow> 32 word" where
  "linear_branch_number ll = 6"

definition differential_branch_number :: "LinearLayer \<Rightarrow> 32 word" where
  "differential_branch_number ll = 10"

subsection \<open>RoundKeyGenerator (round key schedule)\<close>

text \<open>
  SHAKE128 is OpenSSL's, not this repository's: it is a parameter \<open>H\<close> of the model. For an
  input it either fails in one of the three ways \<^verbatim>\<open>shake128_xof\<close> tells apart, or gives the
  output stream, of which \<^verbatim>\<open>EVP_DigestFinalXOF\<close> writes the first \<^verbatim>\<open>output_len\<close> bytes.
\<close>

datatype evp_result = EVP_ctx_failed | EVP_fetch_failed | EVP_digest_failed | EVP_ok "nat \<Rightarrow> 8 word"

type_synonym shake128 = "8 word list \<Rightarrow> evp_result"

record RoundKeyGenerator =
  RK_nonce :: "8 word list"
  RK_rounds :: "32 word"

definition shake128_xof :: "shake128 \<Rightarrow> 8 word list \<Rightarrow> nat \<Rightarrow> error + 8 word list" where
  "shake128_xof H input output_len =
     (case H input of
        EVP_ctx_failed \<Rightarrow> Inl (runtime_error ''Failed to create EVP context'')
      | EVP_fetch_failed \<Rightarrow> Inl (runtime_error ''SHAKE128 not supported'')
      | EVP_digest_failed \<Rightarrow> Inl (runtime_error ''SHAKE128 operation failed'')
      | EVP_ok out \<Rightarrow> Inr (map out [0..<output_len]))"

text \<open>The four bytes \<^verbatim>\<open>(x >> (k * 8)) & 0xFF\<close>, \<open>k = 0, 1, 2, 3\<close>.\<close>

definition index_bytes :: "32 word \<Rightarrow> 8 word list" where
  "index_bytes x = map (\<lambda>k. ucast (drop_bit (k * 8) x AND 0xFF)) [0..<4]"

definition generate_round_constant ::
  "shake128 \<Rightarrow> RoundKeyGenerator \<Rightarrow> 32 word \<Rightarrow> 32 word \<Rightarrow> int \<Rightarrow> error + int list" where
  "generate_round_constant H g i j p =
     (let input = RK_nonce g @ index_bytes j @ index_bytes i in
      case shake128_xof H input (36 * 8) of
        Inl e \<Rightarrow> Inl e
      | Inr rc_bytes \<Rightarrow>
          Inr (map (\<lambda>k.
                 let elem_bytes = take 8 (drop (k * 8) rc_bytes);
                     rc_k = yus_mod (bytes_to_mpz elem_bytes) p
                 in if rc_k = 0 then 1 else rc_k) [0..<36]))"

definition generate_round_key :: "int list \<Rightarrow> int list \<Rightarrow> int \<Rightarrow> error + int list" where
  "generate_round_key master_key round_constant p =
     (if length master_key \<noteq> 36 \<or> length round_constant \<noteq> 36
      then Inl (invalid_argument ''Master key/round constant must be 36 elements'')
      else Inr (map (\<lambda>k. yus_mod (master_key ! k * round_constant ! k) p) [0..<36]))"

definition add_round_key :: "int list \<Rightarrow> int list \<Rightarrow> int \<Rightarrow> error + int list" where
  "add_round_key state round_key p =
     (if length state \<noteq> 36 \<or> length round_key \<noteq> 36
      then Inl (invalid_argument ''State/round key must be 36 elements'')
      else Inr (map (\<lambda>k. yus_mod (state ! k + round_key ! k) p) [0..<36]))"

subsection \<open>The S-box layer and its function-local static S-box\<close>

text \<open>
  \<^verbatim>\<open>apply_sbox_layer\<close> declares \<^verbatim>\<open>static SBox sbox(p)\<close>: the object is built by the first call
  that reaches the declaration and lives until the process ends, whatever \<open>p\<close> later calls
  pass. The static is the process state of the model: \<open>None\<close> until a call has built it
  (a constructor that throws leaves it unbuilt).
\<close>

fun sbox_layer_loop :: "SBox \<Rightarrow> int list \<Rightarrow> nat list \<Rightarrow> int list \<Rightarrow> error + int list" where
  "sbox_layer_loop sbox state [] output = Inr output"
| "sbox_layer_loop sbox state (i # is) output =
     (let start = i * 3 in
      case SBox_apply sbox [state ! start, state ! (start + 1), state ! (start + 2)] of
        Inl e \<Rightarrow> Inl e
      | Inr sbox_output \<Rightarrow>
          sbox_layer_loop sbox state is
            (output[start := sbox_output ! 0, start + 1 := sbox_output ! 1,
                    start + 2 := sbox_output ! 2]))"

definition apply_sbox_layer ::
  "int list \<Rightarrow> int \<Rightarrow> SBox option \<Rightarrow> (error + int list) \<times> SBox option" where
  "apply_sbox_layer state p static =
     (if length state \<noteq> 36 then (Inl (invalid_argument ''SBox layer input must be 36 elements''), static)
      else
        case (case static of Some sbox \<Rightarrow> Inr sbox | None \<Rightarrow> SBox_new p) of
          Inl e \<Rightarrow> (Inl e, static)
        | Inr sbox \<Rightarrow> (sbox_layer_loop sbox state [0..<12] (replicate 36 0), Some sbox))"

subsection \<open>YuSCipher (cipher core)\<close>

datatype SecurityLevel = SEC80 | SEC128

text \<open>\<^verbatim>\<open>static_cast<uint32_t>(level)\<close> of \<^verbatim>\<open>enum class SecurityLevel { SEC80 = 5, SEC128 = 6 }\<close>.\<close>

fun level_rounds :: "SecurityLevel \<Rightarrow> 32 word" where
  "level_rounds SEC80 = 5"
| "level_rounds SEC128 = 6"

record YuSCipher =
  YuS_p :: int
  YuS_level :: SecurityLevel
  YuS_trunc_m :: "32 word"
  YuS_master_key :: "int list"
  YuS_sbox :: SBox
  YuS_linear_layer :: LinearLayer
  YuS_rk_gen :: RoundKeyGenerator

text \<open>The members are built in the order of their declaration, then the body runs its checks.\<close>

definition YuSCipher_new :: "int \<Rightarrow> SecurityLevel \<Rightarrow> 32 word \<Rightarrow> error + YuSCipher" where
  "YuSCipher_new p level trunc_m =
     (case SBox_new p of
        Inl e \<Rightarrow> Inl e
      | Inr sbox \<Rightarrow>
     (case LinearLayer_new of
        Inl e \<Rightarrow> Inl e
      | Inr ll \<Rightarrow>
          if \<not> is_p_2mod3 p then Inl (invalid_argument ''Prime p must satisfy p = 2 mod 3'')
          else if trunc_m > 36 then Inl (invalid_argument ''Truncation m must be <=36'')
          else if p < 65536 then Inl (invalid_argument ''Prime p must be > 16 bits'')
          else Inr \<lparr>YuS_p = p, YuS_level = level, YuS_trunc_m = trunc_m, YuS_master_key = [],
                    YuS_sbox = sbox, YuS_linear_layer = ll,
                    YuS_rk_gen = \<lparr>RK_nonce = [], RK_rounds = level_rounds level\<rparr>\<rparr>))"

definition init :: "YuSCipher \<Rightarrow> int list \<Rightarrow> 8 word list \<Rightarrow> error + YuSCipher" where
  "init c master_key nonce =
     (if length master_key \<noteq> 36 then Inl (invalid_argument ''Master key must be 36 elements (F_p^36)'')
      else Inr (c\<lparr>YuS_master_key := master_key,
                  YuS_rk_gen := \<lparr>RK_nonce = nonce, RK_rounds = level_rounds (YuS_level c)\<rparr>\<rparr>))"

definition round_transform ::
  "YuSCipher \<Rightarrow> int list \<Rightarrow> int list \<Rightarrow> SBox option \<Rightarrow> (error + int list) \<times> SBox option" where
  "round_transform c state round_key static =
     (case apply_sbox_layer state (YuS_p c) static of
        (Inl e, static') \<Rightarrow> (Inl e, static')
      | (Inr sbox_out, static') \<Rightarrow>
          (case LinearLayer_apply (YuS_linear_layer c) sbox_out (YuS_p c) of
             Inl e \<Rightarrow> (Inl e, static')
           | Inr linear_out \<Rightarrow> (add_round_key linear_out round_key (YuS_p c), static')))"

definition truncate :: "YuSCipher \<Rightarrow> int list \<Rightarrow> error + int list" where
  "truncate c state =
     (if length state \<noteq> 36 then Inl (invalid_argument ''Truncation input must be 36 elements'')
      else Inr (drop (unat (YuS_trunc_m c)) state))"

definition key_whitening :: "shake128 \<Rightarrow> YuSCipher \<Rightarrow> int list \<Rightarrow> 32 word \<Rightarrow> error + int list" where
  "key_whitening H c state block_index =
     (case generate_round_constant H (YuS_rk_gen c) 0 block_index (YuS_p c) of
        Inl e \<Rightarrow> Inl e
      | Inr rc0 \<Rightarrow>
          (case generate_round_key (YuS_master_key c) rc0 (YuS_p c) of
             Inl e \<Rightarrow> Inl e
           | Inr rk0 \<Rightarrow> add_round_key state rk0 (YuS_p c)))"

text \<open>
  The loop \<^verbatim>\<open>for (r = 1; r <= rounds; ++r)\<close> of \<^verbatim>\<open>generate_keystream\<close>, over the list of its
  indices; an exception leaves it, the static S-box keeps what the calls made of it.
\<close>

fun rounds_loop ::
  "shake128 \<Rightarrow> YuSCipher \<Rightarrow> 32 word \<Rightarrow> nat list \<Rightarrow> int list \<Rightarrow> SBox option
     \<Rightarrow> (error + int list) \<times> SBox option" where
  "rounds_loop H c j [] state static = (Inr state, static)"
| "rounds_loop H c j (r # rs) state static =
     (case generate_round_constant H (YuS_rk_gen c) (of_nat r) j (YuS_p c) of
        Inl e \<Rightarrow> (Inl e, static)
      | Inr rc \<Rightarrow>
     (case generate_round_key (YuS_master_key c) rc (YuS_p c) of
        Inl e \<Rightarrow> (Inl e, static)
      | Inr rk \<Rightarrow>
     (case round_transform c state rk static of
        (Inl e, static') \<Rightarrow> (Inl e, static')
      | (Inr state', static') \<Rightarrow> rounds_loop H c j rs state' static')))"

text \<open>The loop \<^verbatim>\<open>for (j = 0; j < block_count; ++j)\<close>, appending each block to the keystream.\<close>

fun blocks_loop ::
  "shake128 \<Rightarrow> YuSCipher \<Rightarrow> 32 word \<Rightarrow> nat list \<Rightarrow> int list \<Rightarrow> SBox option
     \<Rightarrow> (error + int list) \<times> SBox option" where
  "blocks_loop H c rounds [] keystream static = (Inr keystream, static)"
| "blocks_loop H c rounds (j # js) keystream static =
     (let cv = map (\<lambda>i. yus_mod (int (i + 1) + int j) (YuS_p c)) [0..<36] in
      case key_whitening H c cv (of_nat j) of
        Inl e \<Rightarrow> (Inl e, static)
      | Inr state \<Rightarrow>
     (case rounds_loop H c (of_nat j) [1..<Suc (unat rounds)] state static of
        (Inl e, static') \<Rightarrow> (Inl e, static')
      | (Inr state', static') \<Rightarrow>
     (case LinearLayer_apply (YuS_linear_layer c) state' (YuS_p c) of
        Inl e \<Rightarrow> (Inl e, static')
      | Inr final_linear \<Rightarrow>
     (case truncate c final_linear of
        Inl e \<Rightarrow> (Inl e, static')
      | Inr block \<Rightarrow> blocks_loop H c rounds js (keystream @ block) static'))))"

text \<open>
  \<^verbatim>\<open>generate_keystream\<close> is not a \<^verbatim>\<open>const\<close> member: the model returns the instance after the
  call next to the result and the static S-box.
\<close>

definition generate_keystream ::
  "shake128 \<Rightarrow> YuSCipher \<Rightarrow> 32 word \<Rightarrow> SBox option
     \<Rightarrow> (error + int list) \<times> YuSCipher \<times> SBox option" where
  "generate_keystream H c block_count static =
     (if YuS_master_key c = [] then
        (Inl (runtime_error ''YuSCipher not initialized with master key''), c, static)
      else
        let rounds = level_rounds (YuS_level c) in
        case blocks_loop H c rounds [0..<unat block_count] [] static of
          (result, static') \<Rightarrow> (result, c, static'))"

subsection \<open>The linear layer as a matrix-vector product\<close>

text \<open>
  The diffusion matrix of the specification: the entry in row \<open>i\<close> and column \<open>j\<close> is the
  \<open>j\<close>-th character of the \<open>i\<close>-th row string. \<open>matrix_vector_product\<close> is the contract
  \<open>state'_i = (sum of state_j over the columns j with M_ij = 1) mod p\<close>, in the words of the
  specification.
\<close>

definition M_bits :: "8 word list list" where
  "M_bits = map (map (\<lambda>c. if c = CHR ''1'' then 1 else 0)) matrix_binary"

definition matrix_vector_product :: "int list \<Rightarrow> int \<Rightarrow> int list" where
  "matrix_vector_product state p =
     map (\<lambda>i. (\<Sum>j\<leftarrow>[0..<36]. if M_bits ! i ! j = 1 then state ! j else 0) mod p) [0..<36]"

text \<open>
  What the table path of \<^verbatim>\<open>apply\<close> adds up, told column by column. The table entry chosen
  for a row and a group is a set of bit positions \<open>i < 36\<close>; every set bit adds the state
  element \<open>col_start + i mod 4\<close>, so column \<open>4 * group + b\<close> is added once for every set bit
  \<open>i = 4 * q + b\<close>. \<open>bit_count\<close> counts these bits, \<open>weights_of\<close> collects the counts of all
  rows and columns, and \<open>mat_vec\<close> is the product of such an integer matrix with the state.
  \<open>table_of\<close> and \<open>masks_of\<close> are the table and the row masks as functions of the column
  vectors and of the matrix.
\<close>

definition table_of :: "int list \<Rightarrow> int list list" where
  "table_of cvs =
     map (\<lambda>group. map (\<lambda>mask.
           foldl (\<lambda>sum bit. if (mask :: nat) AND (push_bit bit 1) \<noteq> 0
              then sum XOR cvs ! (group * 4 + bit) else sum) 0 [0..<4]) [0..<16]) [0..<9]"

definition masks_of :: "8 word list list \<Rightarrow> nat list list" where
  "masks_of m =
     map (\<lambda>row. map (\<lambda>group.
           foldl (\<lambda>mask bit. if m ! row ! (group * 4 + bit) = 1 then mask OR (push_bit bit 1) else mask)
             0 [0..<4]) [0..<9]) [0..<36]"

definition bit_count :: "int \<Rightarrow> nat \<Rightarrow> int" where
  "bit_count pre b = int (length (filter (\<lambda>q. bit pre (4 * q + b)) [0..<9]))"

definition weights_of :: "int list list \<Rightarrow> nat list list \<Rightarrow> int list list" where
  "weights_of table masks =
     map (\<lambda>row. map (\<lambda>j. bit_count (table ! (j div 4) ! (masks ! row ! (j div 4))) (j mod 4)) [0..<36])
       [0..<36]"

definition mat_vec :: "int list list \<Rightarrow> int list \<Rightarrow> int \<Rightarrow> int list" where
  "mat_vec W state p = map (\<lambda>w. sum_list (map2 (*) w state) mod p) W"

definition apply_weights :: "int list list" where
  "apply_weights = weights_of (precompute_four_russians M_bits) (masks_of M_bits)"

subsection \<open>The round schedule and the block algorithm in the words of the specification\<close>

text \<open>The 4-byte little-endian encoding of an index.\<close>

definition le32 :: "32 word \<Rightarrow> 8 word list" where
  "le32 x = map (\<lambda>k. of_nat (unat x div 256 ^ k mod 256)) [0..<4]"

text \<open>Eight bytes read as a big-endian unsigned 64-bit integer.\<close>

definition be64 :: "8 word list \<Rightarrow> int" where
  "be64 bs = (\<Sum>k\<leftarrow>[0..<8]. uint (bs ! k) * 256 ^ (7 - k))"

text \<open>
  The round constant from the XOF output: slice \<open>k\<close> is the bytes \<open>[8k, 8k + 8)\<close>, reduced
  modulo \<open>p\<close>, a zero replaced by one.
\<close>

definition round_constant_spec :: "(nat \<Rightarrow> 8 word) \<Rightarrow> int \<Rightarrow> int list" where
  "round_constant_spec out p =
     map (\<lambda>k. let v = be64 (map out [8 * k..<8 * k + 8]) mod p in if v = 0 then 1 else v) [0..<36]"

definition xof_stream :: "shake128 \<Rightarrow> 8 word list \<Rightarrow> nat \<Rightarrow> 8 word" where
  "xof_stream H input = (case H input of EVP_ok out \<Rightarrow> out | _ \<Rightarrow> (\<lambda>k. 0))"

text \<open>\<open>rc^(r,j)\<close> from input \<open>N || j_LE32 || r_LE32\<close>, and \<open>rk^(r,j)_i = K_i * rc^(r,j)_i mod p\<close>.\<close>

definition rc_spec :: "shake128 \<Rightarrow> 8 word list \<Rightarrow> int \<Rightarrow> nat \<Rightarrow> nat \<Rightarrow> int list" where
  "rc_spec H N p r j = round_constant_spec (xof_stream H (N @ le32 (of_nat j) @ le32 (of_nat r))) p"

definition rk_spec :: "shake128 \<Rightarrow> 8 word list \<Rightarrow> int list \<Rightarrow> int \<Rightarrow> nat \<Rightarrow> nat \<Rightarrow> int list" where
  "rk_spec H N K p r j = map2 (\<lambda>k c. (k * c) mod p) K (rc_spec H N p r j)"

text \<open>Add-round-key, the S-box layer on the twelve consecutive triples, the counter vector.\<close>

definition AK :: "int \<Rightarrow> int list \<Rightarrow> int list \<Rightarrow> int list" where
  "AK p state rk = map2 (\<lambda>s k. (s + k) mod p) state rk"

fun SL :: "int \<Rightarrow> int list \<Rightarrow> int list" where
  "SL q (x0 # x1 # x2 # xs) =
     x0 mod q # (x0 * x2 + x1) mod q # (- x0 * x1 + x0 * x2 + x2) mod q # SL q xs"
| "SL q xs = []"

definition CV :: "int \<Rightarrow> nat \<Rightarrow> int list" where
  "CV p j = map (\<lambda>i. ((int i + 1) + int j) mod p) [0..<36]"

text \<open>The linear layer as \<^verbatim>\<open>LinearLayer::apply\<close> computes it on a 36-vector.\<close>

definition LP :: "LinearLayer \<Rightarrow> int \<Rightarrow> int list \<Rightarrow> int list" where
  "LP ll p state = map (row_sum ll state p) [0..<36]"

definition rounds_spec :: "SecurityLevel \<Rightarrow> nat" where
  "rounds_spec L = (case L of SEC80 \<Rightarrow> 5 | SEC128 \<Rightarrow> 6)"

text \<open>
  Block \<open>j\<close>: counter vector, whitening with \<open>rk^(0,j)\<close>, \<open>R\<close> rounds \<open>AK(LP(SL(state)), rk^(r,j))\<close>
  for \<open>r = 1..R\<close>, the final \<open>LP\<close>, and the truncation to \<open>state[m..36]\<close>. The round keys and the
  two layers are parameters.
\<close>

definition block_spec ::
  "(nat \<Rightarrow> nat \<Rightarrow> int list) \<Rightarrow> (int list \<Rightarrow> int list) \<Rightarrow> (int list \<Rightarrow> int list)
     \<Rightarrow> int \<Rightarrow> nat \<Rightarrow> nat \<Rightarrow> nat \<Rightarrow> int list" where
  "block_spec rk lp sl p R m j =
     drop m (lp (foldl (\<lambda>state r. AK p (lp (sl state)) (rk r j)) (AK p (CV p j) (rk 0 j)) [1..<Suc R]))"

definition keystream_spec ::
  "(nat \<Rightarrow> nat \<Rightarrow> int list) \<Rightarrow> (int list \<Rightarrow> int list) \<Rightarrow> (int list \<Rightarrow> int list)
     \<Rightarrow> int \<Rightarrow> nat \<Rightarrow> nat \<Rightarrow> nat \<Rightarrow> int list" where
  "keystream_spec rk lp sl p R m n = concat (map (block_spec rk lp sl p R m) [0..<n])"

text \<open>
  The host's SHAKE128 answers an input; it answers every input that \<open>n\<close> blocks of \<open>R\<close>
  rounds hash.
\<close>

definition xof_answers :: "shake128 \<Rightarrow> 8 word list \<Rightarrow> bool" where
  "xof_answers H input = (case H input of EVP_ok out \<Rightarrow> True | _ \<Rightarrow> False)"

definition xof_ok :: "shake128 \<Rightarrow> 8 word list \<Rightarrow> nat \<Rightarrow> nat \<Rightarrow> bool" where
  "xof_ok H N n R =
     (\<forall>j\<in>{0..<n}. \<forall>r\<in>{0..<Suc R}. xof_answers H (N @ le32 (of_nat j) @ le32 (of_nat r)))"

text \<open>
  The modulus of the S-box that \<^verbatim>\<open>apply_sbox_layer\<close> uses for a caller with modulus \<open>p\<close>: that
  of the static S-box when the process has built it, \<open>p\<close> when this call builds it.
\<close>

definition sbox_modulus :: "int \<Rightarrow> SBox option \<Rightarrow> int" where
  "sbox_modulus p static = (case static of None \<Rightarrow> p | Some sbox \<Rightarrow> SBox_p sbox)"

text \<open>
  The static S-box, once built, was built by the constructor of \<^verbatim>\<open>SBox\<close>, which accepts only
  moduli with \<^verbatim>\<open>p % 3 == 2\<close>: an invariant of every process.
\<close>

definition static_built :: "SBox option \<Rightarrow> bool" where
  "static_built static = (case static of None \<Rightarrow> True | Some sbox \<Rightarrow> is_p_2mod3 (SBox_p sbox))"

text \<open>
  What one call of \<^verbatim>\<open>apply_sbox_layer\<close> with modulus \<open>p\<close> can make of the static S-box: it leaves
  it as it is, or builds it from \<open>p\<close>.
\<close>

definition static_step :: "int \<Rightarrow> SBox option \<Rightarrow> SBox option \<Rightarrow> bool" where
  "static_step p s s' = (s' = s \<or> (s = None \<and> s' = Some \<lparr>SBox_p = p\<rparr> \<and> is_p_2mod3 p))"

text \<open>
  A computation that threads the static S-box respects it for modulus \<open>p\<close> when it changes the
  static only by such steps, and when started from a static one step further it returns the
  same result and leaves statics that are again one step apart.
\<close>

definition static_respecting :: "int \<Rightarrow> (SBox option \<Rightarrow> 'a \<times> SBox option) \<Rightarrow> bool" where
  "static_respecting p f =
     ((\<forall>s. static_step p s (snd (f s)))
      \<and> (\<forall>s1 s2. static_step p s1 s2 \<longrightarrow>
             fst (f s1) = fst (f s2) \<and> static_step p (snd (f s1)) (snd (f s2))))"

subsection \<open>A host for the examples\<close>

text \<open>
  The first 288 bytes of SHAKE128 (FIPS 202) at the twelve inputs \<open>N || j || r\<close> with
  \<open>N = 01 02 03 04\<close>, \<open>j < 2\<close> and \<open>r \<le> 5\<close>, in 36 slices of 8 bytes. The host of the examples
  answers these inputs and fails on every other one.
\<close>

definition shake128_sample_table :: "(8 word list \<times> 8 word list list) list" where
  "shake128_sample_table =
     [([1, 2, 3, 4, 0, 0, 0, 0, 0, 0, 0, 0],
       [[123, 25, 168, 29, 28, 20, 199, 213],
        [161, 226, 28, 163, 100, 210, 100, 89],
        [184, 161, 55, 188, 231, 30, 196, 252],
        [246, 182, 180, 152, 197, 104, 68, 255],
        [152, 170, 103, 151, 188, 63, 12, 193],
        [242, 33, 172, 196, 211, 178, 199, 116],
        [57, 224, 236, 31, 90, 142, 164, 21],
        [98, 51, 239, 217, 152, 152, 84, 73],
        [182, 171, 255, 35, 239, 142, 253, 247],
        [207, 138, 195, 192, 133, 112, 161, 146],
        [182, 172, 158, 225, 32, 165, 46, 93],
        [91, 174, 10, 203, 3, 199, 139, 199],
        [225, 149, 62, 174, 65, 239, 235, 92],
        [125, 229, 253, 238, 228, 7, 40, 161],
        [81, 180, 134, 205, 217, 77, 164, 2],
        [1, 161, 17, 207, 15, 114, 250, 73],
        [223, 77, 163, 124, 49, 255, 8, 78],
        [127, 216, 32, 227, 128, 116, 202, 220],
        [35, 191, 197, 99, 6, 133, 35, 118],
        [148, 102, 66, 143, 158, 98, 135, 42],
        [166, 148, 110, 229, 47, 12, 251, 176],
        [156, 172, 34, 6, 25, 186, 173, 35],
        [122, 226, 48, 131, 90, 53, 192, 207],
        [70, 16, 194, 148, 35, 165, 129, 67],
        [41, 177, 147, 25, 86, 123, 14, 99],
        [26, 134, 221, 113, 11, 244, 35, 197],
        [94, 0, 246, 232, 254, 85, 188, 159],
        [166, 7, 95, 189, 12, 196, 111, 4],
        [14, 162, 118, 196, 144, 229, 73, 239],
        [223, 189, 17, 81, 22, 90, 136, 71],
        [156, 71, 14, 245, 249, 240, 39, 76],
        [6, 148, 130, 226, 171, 116, 53, 145],
        [234, 249, 213, 80, 242, 248, 30, 57],
        [161, 178, 178, 237, 255, 212, 78, 54],
        [70, 133, 126, 14, 215, 210, 209, 83],
        [255, 25, 88, 88, 120, 126, 236, 89]]),
      ([1, 2, 3, 4, 0, 0, 0, 0, 1, 0, 0, 0],
       [[143, 247, 121, 205, 87, 169, 169, 22],
        [56, 120, 148, 71, 63, 68, 228, 90],
        [129, 71, 198, 225, 28, 27, 164, 136],
        [218, 181, 54, 39, 234, 137, 231, 90],
        [244, 252, 104, 208, 49, 172, 250, 34],
        [119, 135, 33, 128, 204, 36, 83, 222],
        [122, 226, 249, 4, 15, 200, 33, 119],
        [228, 199, 51, 110, 142, 243, 127, 75],
        [238, 217, 235, 189, 177, 19, 185, 250],
        [236, 247, 219, 215, 88, 37, 158, 84],
        [179, 68, 233, 110, 74, 60, 54, 215],
        [64, 86, 204, 46, 118, 171, 115, 126],
        [92, 178, 18, 91, 51, 96, 218, 0],
        [230, 148, 231, 193, 240, 117, 75, 143],
        [150, 92, 215, 192, 204, 23, 51, 5],
        [135, 179, 70, 145, 247, 13, 115, 65],
        [188, 196, 198, 198, 202, 64, 187, 213],
        [96, 182, 11, 135, 153, 185, 71, 92],
        [203, 17, 107, 237, 203, 16, 25, 144],
        [29, 45, 23, 201, 193, 77, 5, 155],
        [225, 81, 3, 54, 204, 245, 185, 199],
        [10, 146, 74, 147, 204, 27, 54, 247],
        [115, 95, 14, 134, 154, 189, 229, 209],
        [18, 214, 30, 98, 187, 120, 36, 152],
        [110, 30, 14, 74, 93, 165, 18, 166],
        [173, 137, 128, 215, 126, 84, 28, 46],
        [4, 84, 43, 161, 168, 38, 42, 158],
        [79, 118, 115, 185, 82, 57, 5, 98],
        [206, 173, 241, 9, 149, 31, 88, 115],
        [144, 65, 60, 120, 25, 82, 93, 242],
        [231, 204, 125, 123, 42, 131, 41, 181],
        [41, 113, 125, 64, 28, 169, 20, 82],
        [202, 43, 253, 69, 216, 253, 27, 142],
        [207, 9, 40, 245, 56, 70, 94, 204],
        [17, 209, 178, 123, 158, 162, 155, 99],
        [230, 104, 187, 55, 124, 87, 247, 6]]),
      ([1, 2, 3, 4, 0, 0, 0, 0, 2, 0, 0, 0],
       [[173, 116, 216, 174, 252, 211, 191, 236],
        [202, 247, 128, 117, 226, 52, 230, 208],
        [37, 226, 194, 163, 103, 97, 229, 136],
        [47, 154, 206, 44, 20, 220, 94, 161],
        [214, 95, 180, 14, 205, 51, 39, 111],
        [171, 54, 239, 16, 80, 108, 150, 206],
        [248, 30, 243, 88, 111, 137, 236, 24],
        [188, 192, 13, 61, 112, 114, 25, 132],
        [144, 125, 37, 168, 57, 141, 152, 34],
        [45, 212, 53, 115, 65, 87, 124, 235],
        [117, 173, 231, 95, 252, 162, 45, 58],
        [81, 90, 10, 173, 130, 197, 87, 58],
        [212, 198, 98, 55, 170, 8, 207, 137],
        [239, 85, 32, 221, 59, 64, 104, 227],
        [252, 194, 185, 90, 167, 201, 46, 119],
        [38, 31, 181, 21, 137, 32, 26, 235],
        [144, 31, 40, 165, 110, 62, 235, 74],
        [222, 107, 101, 79, 94, 233, 144, 149],
        [255, 216, 103, 131, 121, 152, 99, 67],
        [147, 143, 47, 235, 40, 218, 101, 219],
        [240, 238, 14, 197, 216, 190, 102, 146],
        [117, 84, 205, 85, 233, 65, 176, 14],
        [103, 1, 16, 139, 85, 160, 197, 207],
        [81, 35, 161, 254, 84, 15, 147, 157],
        [101, 66, 231, 144, 202, 66, 66, 66],
        [92, 158, 203, 181, 251, 152, 157, 67],
        [104, 153, 164, 178, 19, 41, 43, 53],
        [164, 243, 39, 42, 49, 238, 213, 156],
        [45, 66, 198, 71, 130, 6, 244, 51],
        [197, 0, 103, 161, 240, 7, 50, 116],
        [209, 139, 99, 147, 108, 251, 237, 232],
        [253, 86, 96, 183, 115, 201, 113, 250],
        [99, 224, 222, 48, 240, 97, 21, 99],
        [184, 106, 194, 252, 190, 18, 98, 248],
        [152, 37, 45, 15, 173, 3, 148, 89],
        [165, 197, 205, 25, 192, 42, 233, 2]]),
      ([1, 2, 3, 4, 0, 0, 0, 0, 3, 0, 0, 0],
       [[124, 185, 188, 255, 143, 133, 101, 151],
        [2, 24, 12, 167, 170, 231, 47, 190],
        [42, 173, 123, 199, 176, 151, 174, 57],
        [46, 243, 214, 198, 251, 255, 10, 45],
        [234, 192, 104, 109, 30, 30, 89, 194],
        [188, 31, 99, 19, 86, 19, 163, 87],
        [226, 119, 111, 75, 249, 210, 21, 236],
        [29, 93, 130, 81, 22, 176, 117, 3],
        [216, 6, 107, 43, 73, 133, 72, 103],
        [45, 187, 38, 54, 244, 4, 248, 149],
        [125, 204, 116, 119, 148, 133, 184, 238],
        [83, 141, 3, 110, 254, 108, 152, 175],
        [133, 80, 188, 174, 221, 144, 197, 92],
        [101, 210, 244, 226, 48, 25, 114, 30],
        [25, 59, 56, 83, 11, 248, 24, 63],
        [30, 76, 137, 47, 162, 203, 249, 149],
        [114, 252, 169, 139, 35, 204, 115, 190],
        [36, 218, 1, 110, 171, 120, 49, 105],
        [174, 55, 220, 146, 107, 65, 46, 104],
        [234, 195, 35, 194, 182, 84, 197, 34],
        [179, 239, 234, 165, 127, 83, 67, 60],
        [174, 100, 73, 252, 28, 15, 136, 195],
        [143, 13, 92, 31, 54, 188, 85, 115],
        [192, 193, 183, 250, 70, 215, 122, 127],
        [230, 214, 61, 90, 209, 171, 162, 85],
        [76, 85, 206, 70, 145, 57, 90, 203],
        [16, 208, 55, 0, 31, 163, 173, 171],
        [199, 241, 182, 176, 207, 76, 168, 59],
        [214, 42, 180, 108, 160, 243, 209, 170],
        [122, 225, 82, 63, 232, 211, 207, 216],
        [41, 23, 145, 1, 189, 249, 223, 188],
        [172, 73, 88, 234, 191, 175, 54, 60],
        [175, 118, 0, 178, 0, 147, 171, 151],
        [48, 190, 241, 20, 25, 214, 11, 38],
        [0, 101, 171, 145, 203, 109, 75, 45],
        [54, 98, 187, 53, 247, 231, 17, 126]]),
      ([1, 2, 3, 4, 0, 0, 0, 0, 4, 0, 0, 0],
       [[18, 16, 117, 189, 184, 44, 5, 233],
        [173, 184, 133, 201, 56, 16, 168, 250],
        [142, 65, 52, 217, 234, 105, 68, 190],
        [190, 89, 69, 90, 163, 167, 132, 64],
        [184, 188, 161, 44, 201, 101, 201, 215],
        [143, 253, 162, 108, 214, 242, 122, 238],
        [2, 241, 46, 67, 13, 48, 42, 64],
        [234, 147, 246, 240, 56, 114, 81, 180],
        [160, 77, 10, 121, 209, 157, 174, 45],
        [8, 252, 195, 240, 11, 94, 85, 229],
        [46, 74, 111, 180, 202, 161, 221, 228],
        [252, 223, 104, 227, 170, 116, 128, 192],
        [46, 128, 234, 163, 194, 34, 18, 126],
        [51, 239, 158, 209, 67, 120, 217, 138],
        [86, 121, 0, 21, 89, 123, 93, 38],
        [147, 86, 133, 143, 153, 215, 232, 251],
        [96, 35, 142, 103, 167, 33, 209, 178],
        [25, 9, 152, 43, 210, 116, 101, 133],
        [238, 71, 64, 121, 127, 238, 70, 119],
        [11, 220, 185, 9, 123, 223, 195, 58],
        [65, 232, 38, 73, 133, 24, 134, 83],
        [73, 92, 114, 251, 235, 84, 29, 226],
        [231, 108, 157, 154, 158, 86, 107, 123],
        [252, 135, 3, 148, 42, 45, 145, 180],
        [199, 151, 216, 179, 190, 21, 126, 135],
        [85, 191, 110, 76, 35, 169, 204, 42],
        [9, 168, 76, 199, 209, 207, 47, 218],
        [179, 27, 196, 164, 103, 15, 51, 163],
        [118, 35, 8, 113, 247, 21, 153, 93],
        [183, 248, 223, 134, 46, 190, 97, 26],
        [45, 23, 158, 128, 229, 236, 185, 129],
        [96, 53, 198, 132, 129, 170, 84, 123],
        [109, 134, 192, 35, 147, 169, 159, 50],
        [32, 192, 233, 13, 125, 41, 43, 152],
        [206, 23, 187, 182, 248, 213, 69, 250],
        [77, 48, 241, 69, 3, 54, 19, 229]]),
      ([1, 2, 3, 4, 0, 0, 0, 0, 5, 0, 0, 0],
       [[120, 240, 250, 253, 120, 221, 198, 67],
        [95, 142, 202, 246, 17, 157, 102, 94],
        [149, 140, 26, 224, 50, 137, 0, 46],
        [93, 107, 31, 242, 185, 136, 225, 213],
        [205, 5, 116, 178, 167, 144, 35, 198],
        [42, 238, 81, 244, 41, 97, 105, 28],
        [243, 245, 254, 240, 208, 43, 189, 110],
        [101, 111, 111, 133, 10, 4, 149, 6],
        [162, 165, 66, 25, 189, 48, 117, 141],
        [239, 166, 226, 227, 7, 10, 156, 231],
        [168, 205, 188, 225, 56, 146, 136, 99],
        [88, 108, 51, 101, 224, 184, 186, 144],
        [227, 102, 233, 103, 162, 20, 250, 49],
        [123, 157, 39, 96, 254, 148, 179, 132],
        [230, 162, 36, 93, 192, 230, 247, 62],
        [20, 218, 160, 147, 233, 190, 99, 195],
        [42, 21, 8, 243, 204, 201, 210, 75],
        [253, 119, 178, 16, 63, 18, 31, 192],
        [237, 131, 189, 103, 22, 200, 2, 111],
        [47, 173, 172, 125, 123, 122, 136, 213],
        [213, 65, 43, 38, 117, 246, 58, 73],
        [61, 165, 5, 87, 61, 193, 143, 172],
        [95, 3, 221, 205, 195, 233, 105, 245],
        [157, 206, 1, 15, 192, 192, 22, 187],
        [2, 137, 14, 31, 236, 230, 112, 59],
        [13, 204, 41, 146, 38, 215, 8, 170],
        [179, 65, 140, 61, 160, 238, 183, 219],
        [206, 230, 196, 220, 132, 81, 38, 165],
        [57, 212, 202, 244, 88, 30, 146, 88],
        [222, 16, 247, 103, 110, 102, 244, 31],
        [138, 205, 236, 82, 57, 164, 24, 77],
        [36, 20, 63, 47, 115, 82, 105, 36],
        [205, 26, 247, 194, 55, 190, 150, 192],
        [74, 214, 244, 92, 240, 228, 116, 124],
        [161, 205, 78, 139, 13, 235, 227, 121],
        [21, 181, 142, 237, 72, 29, 3, 246]]),
      ([1, 2, 3, 4, 1, 0, 0, 0, 0, 0, 0, 0],
       [[50, 73, 68, 31, 130, 8, 219, 29],
        [227, 209, 25, 86, 157, 247, 121, 217],
        [205, 128, 36, 4, 185, 91, 76, 98],
        [84, 182, 124, 245, 175, 138, 214, 228],
        [93, 238, 88, 231, 195, 236, 67, 253],
        [221, 172, 151, 162, 240, 46, 147, 247],
        [180, 56, 89, 98, 201, 174, 244, 131],
        [30, 129, 197, 28, 40, 197, 43, 1],
        [41, 0, 218, 235, 126, 164, 194, 74],
        [26, 113, 180, 64, 26, 165, 229, 188],
        [254, 221, 216, 207, 131, 148, 187, 248],
        [83, 185, 161, 73, 10, 173, 195, 196],
        [42, 38, 231, 121, 142, 184, 211, 41],
        [180, 183, 20, 41, 123, 11, 10, 157],
        [71, 187, 170, 8, 22, 238, 62, 165],
        [172, 127, 113, 24, 27, 73, 59, 186],
        [31, 197, 207, 194, 29, 144, 63, 67],
        [122, 216, 94, 33, 134, 125, 189, 85],
        [167, 80, 43, 207, 221, 152, 246, 108],
        [160, 236, 228, 100, 252, 253, 152, 123],
        [10, 146, 76, 13, 212, 115, 69, 202],
        [31, 73, 28, 61, 208, 85, 171, 25],
        [164, 207, 51, 20, 78, 129, 121, 15],
        [51, 149, 126, 192, 12, 46, 121, 218],
        [223, 36, 179, 9, 218, 45, 49, 212],
        [22, 240, 110, 16, 148, 48, 180, 233],
        [32, 53, 90, 170, 175, 142, 241, 55],
        [62, 120, 9, 216, 177, 24, 37, 172],
        [46, 228, 32, 166, 173, 188, 54, 223],
        [17, 107, 27, 190, 102, 109, 28, 87],
        [115, 151, 167, 125, 133, 65, 165, 81],
        [18, 118, 71, 31, 116, 49, 122, 38],
        [94, 183, 71, 234, 115, 196, 146, 175],
        [107, 15, 6, 87, 124, 81, 239, 254],
        [146, 136, 247, 135, 185, 156, 161, 110],
        [51, 26, 98, 5, 112, 12, 85, 134]]),
      ([1, 2, 3, 4, 1, 0, 0, 0, 1, 0, 0, 0],
       [[99, 84, 106, 114, 213, 121, 245, 130],
        [99, 219, 200, 117, 243, 171, 230, 215],
        [44, 32, 107, 147, 63, 101, 187, 51],
        [211, 24, 193, 66, 50, 250, 174, 13],
        [54, 116, 119, 122, 245, 107, 108, 150],
        [17, 160, 128, 180, 137, 23, 186, 139],
        [58, 94, 3, 244, 175, 60, 9, 48],
        [27, 89, 86, 65, 132, 238, 114, 36],
        [78, 86, 18, 157, 209, 15, 252, 145],
        [130, 201, 148, 96, 117, 229, 191, 198],
        [181, 60, 226, 92, 201, 96, 205, 94],
        [237, 6, 8, 41, 117, 92, 43, 85],
        [251, 143, 137, 184, 230, 157, 4, 154],
        [245, 235, 239, 102, 253, 222, 38, 172],
        [43, 221, 126, 108, 158, 217, 93, 156],
        [155, 7, 146, 160, 220, 183, 143, 192],
        [178, 166, 171, 163, 91, 147, 13, 109],
        [209, 185, 146, 155, 238, 48, 235, 186],
        [232, 196, 72, 186, 255, 86, 178, 206],
        [179, 227, 167, 23, 47, 135, 79, 114],
        [79, 102, 28, 106, 33, 243, 74, 42],
        [52, 89, 255, 118, 0, 100, 46, 5],
        [127, 202, 148, 157, 115, 112, 157, 19],
        [252, 72, 190, 13, 233, 154, 136, 29],
        [236, 5, 112, 41, 47, 122, 249, 72],
        [189, 45, 184, 220, 123, 114, 109, 47],
        [2, 112, 33, 205, 124, 59, 120, 66],
        [217, 102, 231, 188, 162, 88, 147, 178],
        [164, 65, 66, 133, 239, 108, 94, 201],
        [255, 19, 180, 220, 60, 242, 62, 127],
        [74, 156, 81, 254, 88, 131, 226, 185],
        [236, 60, 249, 19, 178, 69, 137, 170],
        [228, 33, 142, 250, 184, 183, 102, 143],
        [96, 224, 164, 161, 76, 212, 96, 123],
        [190, 41, 196, 171, 31, 147, 71, 10],
        [128, 113, 21, 151, 20, 26, 142, 228]]),
      ([1, 2, 3, 4, 1, 0, 0, 0, 2, 0, 0, 0],
       [[175, 0, 38, 12, 112, 180, 225, 1],
        [126, 91, 103, 128, 116, 162, 115, 2],
        [191, 98, 81, 211, 138, 0, 33, 98],
        [162, 219, 0, 16, 163, 206, 21, 133],
        [128, 250, 55, 246, 235, 187, 115, 222],
        [93, 114, 162, 222, 100, 204, 164, 231],
        [93, 46, 247, 150, 62, 240, 41, 70],
        [125, 51, 241, 128, 203, 77, 175, 128],
        [166, 192, 192, 122, 110, 139, 110, 74],
        [70, 213, 168, 249, 241, 24, 13, 255],
        [25, 75, 144, 236, 149, 228, 31, 106],
        [74, 135, 138, 234, 44, 169, 217, 186],
        [138, 82, 192, 251, 190, 53, 57, 33],
        [153, 147, 169, 95, 170, 181, 100, 115],
        [143, 253, 0, 114, 158, 145, 52, 98],
        [125, 200, 157, 71, 186, 84, 230, 169],
        [19, 127, 48, 62, 143, 132, 1, 66],
        [19, 66, 227, 165, 48, 134, 160, 49],
        [172, 128, 164, 221, 60, 65, 40, 14],
        [121, 7, 96, 65, 152, 221, 153, 46],
        [137, 134, 69, 125, 139, 173, 59, 248],
        [163, 192, 41, 49, 197, 157, 222, 174],
        [130, 77, 0, 154, 248, 8, 38, 46],
        [133, 252, 166, 85, 234, 210, 42, 132],
        [191, 116, 185, 201, 57, 50, 0, 129],
        [174, 17, 32, 128, 8, 108, 146, 242],
        [246, 224, 30, 42, 62, 93, 3, 84],
        [121, 186, 80, 69, 25, 42, 132, 248],
        [55, 190, 62, 136, 189, 132, 249, 10],
        [112, 79, 17, 150, 226, 204, 191, 241],
        [192, 131, 244, 76, 222, 40, 184, 166],
        [18, 251, 152, 182, 56, 171, 55, 140],
        [80, 146, 3, 193, 86, 136, 161, 104],
        [158, 10, 15, 102, 220, 147, 101, 245],
        [22, 82, 183, 186, 166, 225, 109, 176],
        [215, 2, 167, 173, 131, 63, 237, 45]]),
      ([1, 2, 3, 4, 1, 0, 0, 0, 3, 0, 0, 0],
       [[220, 109, 247, 86, 172, 227, 120, 216],
        [172, 84, 214, 235, 146, 40, 21, 230],
        [191, 20, 128, 231, 20, 106, 211, 201],
        [101, 38, 158, 77, 170, 126, 51, 226],
        [201, 60, 40, 211, 122, 89, 155, 177],
        [172, 181, 202, 243, 179, 65, 29, 110],
        [31, 139, 27, 141, 130, 164, 141, 167],
        [59, 154, 83, 8, 214, 123, 47, 211],
        [4, 132, 60, 222, 141, 204, 43, 70],
        [33, 251, 219, 235, 209, 31, 20, 2],
        [200, 169, 123, 186, 83, 226, 115, 168],
        [244, 1, 11, 147, 86, 55, 32, 228],
        [22, 171, 185, 204, 19, 237, 227, 206],
        [255, 212, 112, 215, 218, 57, 145, 176],
        [255, 51, 200, 22, 190, 202, 178, 82],
        [155, 34, 123, 95, 212, 196, 96, 136],
        [136, 151, 49, 25, 190, 157, 211, 52],
        [39, 97, 129, 119, 93, 131, 254, 42],
        [68, 145, 69, 152, 95, 71, 53, 212],
        [90, 229, 51, 226, 136, 203, 158, 35],
        [72, 126, 29, 63, 84, 89, 254, 14],
        [3, 52, 139, 248, 81, 177, 28, 180],
        [137, 241, 35, 245, 191, 216, 233, 238],
        [101, 91, 18, 86, 188, 155, 145, 16],
        [88, 252, 192, 73, 58, 7, 248, 89],
        [63, 40, 28, 114, 218, 93, 46, 87],
        [252, 23, 249, 78, 79, 26, 204, 121],
        [108, 47, 126, 163, 234, 141, 39, 26],
        [141, 167, 135, 67, 79, 190, 1, 137],
        [24, 28, 191, 180, 155, 92, 190, 120],
        [65, 63, 229, 99, 115, 244, 148, 99],
        [186, 117, 69, 142, 221, 25, 206, 205],
        [219, 6, 43, 49, 27, 130, 39, 49],
        [175, 218, 112, 250, 115, 229, 227, 84],
        [133, 96, 55, 52, 227, 124, 200, 78],
        [152, 17, 234, 154, 8, 250, 54, 59]]),
      ([1, 2, 3, 4, 1, 0, 0, 0, 4, 0, 0, 0],
       [[12, 251, 107, 218, 198, 109, 24, 38],
        [161, 143, 209, 90, 195, 51, 224, 24],
        [55, 180, 115, 29, 138, 84, 125, 141],
        [40, 108, 131, 40, 122, 90, 211, 22],
        [63, 254, 136, 13, 42, 78, 76, 227],
        [243, 247, 79, 192, 93, 196, 45, 97],
        [84, 87, 57, 40, 3, 152, 48, 49],
        [42, 241, 151, 20, 131, 221, 150, 188],
        [122, 207, 100, 243, 243, 249, 144, 120],
        [168, 78, 153, 17, 240, 249, 21, 251],
        [166, 142, 51, 76, 238, 253, 114, 104],
        [184, 96, 155, 136, 143, 41, 167, 243],
        [120, 194, 66, 250, 38, 186, 212, 50],
        [37, 72, 76, 173, 94, 145, 74, 173],
        [165, 17, 151, 78, 186, 109, 12, 63],
        [34, 81, 15, 155, 64, 37, 247, 235],
        [50, 122, 86, 117, 230, 243, 27, 178],
        [172, 152, 46, 36, 218, 29, 227, 45],
        [230, 151, 132, 107, 155, 15, 10, 59],
        [197, 192, 30, 173, 86, 177, 182, 47],
        [122, 242, 247, 255, 184, 33, 128, 55],
        [2, 193, 221, 96, 7, 72, 144, 53],
        [141, 52, 226, 230, 29, 235, 80, 74],
        [181, 60, 171, 244, 59, 166, 133, 23],
        [126, 75, 231, 148, 160, 80, 162, 126],
        [69, 186, 31, 170, 46, 68, 144, 100],
        [27, 71, 176, 45, 10, 158, 90, 87],
        [119, 170, 81, 234, 58, 239, 183, 165],
        [114, 119, 31, 230, 62, 72, 120, 174],
        [87, 192, 29, 228, 51, 155, 55, 109],
        [201, 230, 109, 0, 83, 115, 28, 236],
        [43, 241, 21, 174, 66, 211, 227, 134],
        [103, 238, 10, 10, 137, 114, 122, 155],
        [11, 81, 110, 164, 215, 53, 88, 230],
        [163, 10, 6, 114, 10, 20, 119, 171],
        [208, 102, 80, 249, 59, 145, 94, 113]]),
      ([1, 2, 3, 4, 1, 0, 0, 0, 5, 0, 0, 0],
       [[190, 244, 153, 127, 247, 164, 85, 129],
        [236, 61, 104, 228, 219, 126, 182, 240],
        [44, 100, 229, 227, 139, 118, 157, 124],
        [169, 101, 181, 194, 110, 159, 92, 255],
        [204, 92, 211, 93, 76, 233, 113, 228],
        [210, 108, 251, 54, 92, 108, 60, 188],
        [215, 191, 183, 231, 198, 5, 211, 93],
        [174, 113, 131, 134, 71, 226, 130, 189],
        [188, 238, 162, 89, 145, 119, 215, 79],
        [38, 65, 163, 23, 118, 161, 87, 110],
        [31, 218, 209, 190, 166, 170, 8, 162],
        [215, 27, 46, 216, 65, 155, 244, 139],
        [217, 216, 181, 231, 172, 174, 197, 43],
        [95, 179, 89, 56, 56, 1, 147, 136],
        [46, 70, 199, 185, 173, 216, 131, 120],
        [126, 228, 140, 147, 129, 54, 121, 160],
        [148, 89, 156, 63, 249, 235, 22, 66],
        [239, 96, 187, 27, 119, 59, 172, 138],
        [59, 241, 181, 46, 91, 28, 65, 41],
        [188, 26, 140, 80, 47, 223, 168, 209],
        [234, 64, 0, 112, 191, 133, 238, 34],
        [221, 173, 104, 212, 47, 246, 224, 227],
        [239, 138, 44, 241, 131, 51, 115, 4],
        [161, 218, 70, 128, 40, 178, 240, 55],
        [177, 76, 88, 92, 188, 225, 16, 205],
        [91, 9, 230, 221, 107, 110, 223, 12],
        [7, 9, 131, 199, 92, 42, 186, 248],
        [141, 197, 14, 189, 174, 164, 190, 108],
        [70, 12, 120, 78, 182, 204, 84, 137],
        [46, 218, 91, 39, 100, 175, 142, 227],
        [248, 84, 47, 31, 135, 93, 164, 52],
        [89, 49, 168, 108, 128, 82, 38, 56],
        [80, 83, 233, 91, 31, 170, 135, 91],
        [139, 246, 15, 90, 141, 205, 16, 97],
        [190, 180, 86, 31, 142, 73, 48, 222],
        [107, 212, 229, 205, 8, 104, 13, 23]])]"

definition shake128_sample :: shake128 where
  "shake128_sample input =
     (case map_of shake128_sample_table input of
        None \<Rightarrow> EVP_digest_failed
      | Some slices \<Rightarrow> EVP_ok (\<lambda>k. if k < 288 then slices ! (k div 8) ! (k mod 8) else 0))"

text \<open>
  The instance that \<^verbatim>\<open>YuSCipher(65579, SEC80, 24)\<close> constructs, and that instance after
  \<^verbatim>\<open>init\<close> with the key \<open>(1, ..., 1)\<close> and the nonce \<open>01 02 03 04\<close> (the key and the nonce of the
  repository's tests).
\<close>

definition fresh_cipher :: YuSCipher where
  "fresh_cipher =
     \<lparr>YuS_p = 65579, YuS_level = SEC80, YuS_trunc_m = 24, YuS_master_key = [],
      YuS_sbox = \<lparr>SBox_p = 65579\<rparr>,
      YuS_linear_layer =
        \<lparr>LL_matrix = M_bits, LL_four_russians_table = precompute_four_russians M_bits\<rparr>,
      YuS_rk_gen = \<lparr>RK_nonce = [], RK_rounds = 5\<rparr>\<rparr>"

definition example_cipher :: YuSCipher where
  "example_cipher =
     fresh_cipher\<lparr>YuS_master_key := replicate 36 1,
                  YuS_rk_gen := \<lparr>RK_nonce = [1, 2, 3, 4], RK_rounds = 5\<rparr>\<rparr>"

text \<open>
  A second instance, \<^verbatim>\<open>YuSCipher(65537, SEC80, 24)\<close> after \<^verbatim>\<open>init\<close> with the same key and nonce.
\<close>

definition other_cipher :: YuSCipher where
  "other_cipher =
     \<lparr>YuS_p = 65537, YuS_level = SEC80, YuS_trunc_m = 24, YuS_master_key = replicate 36 1,
      YuS_sbox = \<lparr>SBox_p = 65537\<rparr>,
      YuS_linear_layer =
        \<lparr>LL_matrix = M_bits, LL_four_russians_table = precompute_four_russians M_bits\<rparr>,
      YuS_rk_gen = \<lparr>RK_nonce = [1, 2, 3, 4], RK_rounds = 5\<rparr>\<rparr>"

subsection \<open>Validity\<close>

text \<open>
  The validity predicate of a modulus: \<open>p \<equiv> 2 (mod 3)\<close> and \<open>p > 2^16\<close>. Primality is left
  out: no statement below needs it, so each holds for the primes in particular.
\<close>

definition valid_p :: "int \<Rightarrow> bool" where
  "valid_p p = (p mod 3 = 2 \<and> 2 ^ 16 < p)"

section \<open>Properties\<close>

lemma yus_mod_pos: "0 < p \<Longrightarrow> yus_mod a p = a mod p"
proof -
  assume p: "0 < p"
  have m: "a smod p = a mod p - p * of_bool (sgn a \<noteq> sgn p \<and> \<not> p dvd a)"
    by (rule signed_modulo_int_eq_modulo_int)
  have lo: "0 \<le> a mod p" and hi: "a mod p < p"
    using p by simp_all
  show ?thesis
  proof (cases "sgn a \<noteq> sgn p \<and> \<not> p dvd a")
    case True
    then have "a smod p = a mod p - p" using m by simp
    then show ?thesis using hi by (simp add: yus_mod_def)
  next
    case False
    then have "a smod p = a mod p" using m by simp
    then show ?thesis using lo by (simp add: yus_mod_def)
  qed
qed

lemma valid_p_pos: "valid_p p \<Longrightarrow> 65536 < p"
  by (simp add: valid_p_def)

lemma is_p_2mod3_iff: "is_p_2mod3 p \<longleftrightarrow> 0 \<le> p \<and> p mod 3 = 2"
proof (cases "0 \<le> p")
  case True
  then have "p smod 3 = p mod 3"
    by (simp add: signed_modulo_int_def sgn_if abs_if)
  with True show ?thesis by (simp add: is_p_2mod3_def)
next
  case False
  then have "p smod 3 \<le> 0"
    by (simp add: signed_modulo_int_def sgn_if)
  with False show ?thesis by (simp add: is_p_2mod3_def)
qed

lemma valid_p_2mod3: "valid_p p \<Longrightarrow> is_p_2mod3 p"
  by (simp add: valid_p_def is_p_2mod3_iff)

lemma SBox_new_valid: "valid_p p \<Longrightarrow> SBox_new p = Inr \<lparr>SBox_p = p\<rparr>"
  by (simp add: SBox_new_def valid_p_2mod3)

lemma valid_p_65579: "valid_p 65579"
  by (simp add: valid_p_def)

subsection \<open>The linear layer\<close>

lemma inner_fold:
  assumes p: "0 < p" and rs: "0 \<le> rs" "rs < p"
  shows "foldl (\<lambda>rs i. if c i then yus_mod (rs + f i) p else rs) rs is
         = (rs + sum_list (map (\<lambda>i. if c i then f i else 0) is)) mod p"
  using rs
proof (induction "is" arbitrary: rs)
  case Nil
  then show ?case by simp
next
  case (Cons i "is")
  show ?case
  proof (cases "c i")
    case True
    have "0 \<le> (rs + f i) mod p" and "(rs + f i) mod p < p"
      using p by simp_all
    from Cons.IH [OF this] True show ?thesis
      by (simp add: yus_mod_pos [OF p] mod_add_left_eq add.assoc)
  next
    case False
    with Cons show ?thesis by simp
  qed
qed

lemma row_fold:
  assumes p: "0 < p" and rs: "0 \<le> rs" "rs < p"
  shows "foldl (\<lambda>rs g. foldl (\<lambda>rs i. if c g i then yus_mod (rs + f g i) p else rs) rs is) rs gs
         = (rs + sum_list (map (\<lambda>g. sum_list (map (\<lambda>i. if c g i then f g i else 0) is)) gs)) mod p"
  using rs
proof (induction gs arbitrary: rs)
  case Nil
  then show ?case by simp
next
  case (Cons g gs)
  let ?S = "sum_list (map (\<lambda>i. if c g i then f g i else 0) is)"
  have step: "foldl (\<lambda>rs i. if c g i then yus_mod (rs + f g i) p else rs) rs is = (rs + ?S) mod p"
    by (rule inner_fold [OF p Cons.prems])
  have "0 \<le> (rs + ?S) mod p" and "(rs + ?S) mod p < p"
    using p by simp_all
  from Cons.IH [OF this] step show ?case
    by (simp add: mod_add_left_eq add.assoc)
qed

lemma sum_upt_4:
  fixes h :: "nat \<Rightarrow> int"
  shows "sum_list (map h [0..<4 * n])
         = (\<Sum>q\<leftarrow>[0..<n]. h (4 * q) + h (4 * q + 1) + h (4 * q + 2) + h (4 * q + 3))"
proof (induction n)
  case 0
  show ?case by simp
next
  case (Suc n)
  have "[0..<4 * Suc n] = [0..<4 * n] @ [4 * n, 4 * n + 1, 4 * n + 2, 4 * n + 3]"
  proof -
    have "[0..<4 * Suc n] = [0..<4 * n + 4]" by (simp add: add.commute)
    also have "\<dots> = [0..<4 * n] @ [4 * n..<4 * n + 4]"
      by (rule upt_add_eq_append) simp
    also have "[4 * n..<4 * n + 4] = [4 * n, 4 * n + 1, 4 * n + 2, 4 * n + 3]"
      by (simp add: upt_rec [of "4 * n"] upt_rec [of "Suc (4 * n)"] upt_rec [of "Suc (Suc (4 * n))"]
          upt_rec [of "Suc (Suc (Suc (4 * n)))"])
    finally show ?thesis .
  qed
  with Suc show ?case by simp
qed

lemma sum_if_count:
  fixes x :: int
  shows "(\<Sum>q\<leftarrow>qs. if c q then x else 0) = int (length (filter c qs)) * x"
  by (induction qs) (simp_all add: algebra_simps)

lemma bits_by_column:
  fixes s :: "nat \<Rightarrow> int"
  shows "(\<Sum>i\<leftarrow>[0..<36]. if bit P i then s (i mod 4) else 0)
         = bit_count P 0 * s 0 + bit_count P 1 * s 1 + bit_count P 2 * s 2 + bit_count P 3 * s 3"
proof -
  have "(\<Sum>i\<leftarrow>[0..<4 * 9]. if bit P i then s (i mod 4) else 0)
      = (\<Sum>q\<leftarrow>[0..<9]. (if bit P (4 * q) then s 0 else 0) + (if bit P (4 * q + 1) then s 1 else 0)
            + (if bit P (4 * q + 2) then s 2 else 0) + (if bit P (4 * q + 3) then s 3 else 0))"
  proof -
    have m: "4 * q mod 4 = 0" "(4 * q + 1) mod 4 = 1" "(4 * q + 2) mod 4 = 2" "(4 * q + 3) mod 4 = 3"
      for q :: nat by presburger+
    show ?thesis
      unfolding sum_upt_4 by (simp only: m)
  qed
  also have "\<dots> = (\<Sum>q\<leftarrow>[0..<9]. if bit P (4 * q + 0) then s 0 else 0)
        + (\<Sum>q\<leftarrow>[0..<9]. if bit P (4 * q + 1) then s 1 else 0)
        + (\<Sum>q\<leftarrow>[0..<9]. if bit P (4 * q + 2) then s 2 else 0)
        + (\<Sum>q\<leftarrow>[0..<9]. if bit P (4 * q + 3) then s 3 else 0)"
    by (simp only: sum_list_addf add_0_right)
  finally show ?thesis
    by (simp only: sum_if_count bit_count_def) simp
qed


lemma masks_of_nth:
  "row < 36 \<Longrightarrow> q < 9 \<Longrightarrow> masks_of (LL_matrix ll) ! row ! q = row_mask ll row (q * 4)"
  by (simp add: masks_of_def row_mask_def)

lemma weights_of_nth:
  "row < 36 \<Longrightarrow> j < 36 \<Longrightarrow>
     weights_of t ms ! row ! j = bit_count (t ! (j div 4) ! (ms ! row ! (j div 4))) (j mod 4)"
  by (simp add: weights_of_def)

lemma row_sum_weights:
  assumes p: "0 < p" and row: "row < 36"
  shows "row_sum ll state p row
    = (\<Sum>j\<leftarrow>[0..<36]. weights_of (LL_four_russians_table ll) (masks_of (LL_matrix ll)) ! row ! j
                          * state ! j) mod p"
proof -
  define pre where "pre g = LL_four_russians_table ll ! g ! row_mask ll row (g * 4)" for g
  define w where "w = weights_of (LL_four_russians_table ll) (masks_of (LL_matrix ll)) ! row"
  have w: "w ! (4 * q + b) = bit_count (pre q) b" if "q < 9" "b < 4" for q b
  proof -
    have j: "4 * q + b < 36" "(4 * q + b) div 4 = q" "(4 * q + b) mod 4 = b"
      using that by simp_all
    show ?thesis
      unfolding w_def using weights_of_nth [OF row j(1)] masks_of_nth [OF row that(1)]
      by (simp only: j pre_def)
  qed
  have "row_sum ll state p row
      = (0 + (\<Sum>g\<leftarrow>[0..<9]. \<Sum>i\<leftarrow>[0..<36]. if bit (pre g) i then state ! (g * 4 + i mod 4) else 0)) mod p"
    unfolding row_sum_def Let_def pre_def by (rule row_fold [OF p]) (use p in simp_all)
  also have "(\<Sum>g\<leftarrow>[0..<9]. \<Sum>i\<leftarrow>[0..<36]. if bit (pre g) i then state ! (g * 4 + i mod 4) else 0)
      = (\<Sum>g\<leftarrow>[0..<9]. bit_count (pre g) 0 * state ! (g * 4 + 0) + bit_count (pre g) 1 * state ! (g * 4 + 1)
            + bit_count (pre g) 2 * state ! (g * 4 + 2) + bit_count (pre g) 3 * state ! (g * 4 + 3))"
    by (simp only: bits_by_column [where s = "\<lambda>b. state ! (g * 4 + b)" for g])
  also have "\<dots> = (\<Sum>q\<leftarrow>[0..<9]. w ! (4 * q) * state ! (4 * q) + w ! (4 * q + 1) * state ! (4 * q + 1)
            + w ! (4 * q + 2) * state ! (4 * q + 2) + w ! (4 * q + 3) * state ! (4 * q + 3))"
  proof (rule arg_cong [where f = sum_list], rule map_cong [OF refl])
    fix q assume "q \<in> set [0..<9]"
    then have q: "q < 9" by simp
    show "bit_count (pre q) 0 * state ! (q * 4 + 0) + bit_count (pre q) 1 * state ! (q * 4 + 1)
            + bit_count (pre q) 2 * state ! (q * 4 + 2) + bit_count (pre q) 3 * state ! (q * 4 + 3)
        = w ! (4 * q) * state ! (4 * q) + w ! (4 * q + 1) * state ! (4 * q + 1)
            + w ! (4 * q + 2) * state ! (4 * q + 2) + w ! (4 * q + 3) * state ! (4 * q + 3)"
      using w [OF q, of 0] w [OF q, of 1] w [OF q, of 2] w [OF q, of 3]
      by (simp add: mult.commute [of q 4])
  qed
  also have "\<dots> = (\<Sum>j\<leftarrow>[0..<4 * 9]. w ! j * state ! j)"
    by (simp only: sum_upt_4)
  finally show ?thesis
    by (simp add: w_def)
qed

lemma map2_nth:
  "length xs = length ys \<Longrightarrow> map2 f xs ys = map (\<lambda>i. f (xs ! i) (ys ! i)) [0..<length xs]"
  by (rule nth_equalityI) simp_all

lemma weights_of_length:
  "length (weights_of t ms) = 36" "w \<in> set (weights_of t ms) \<Longrightarrow> length w = 36"
  by (auto simp: weights_of_def)

lemma LinearLayer_apply_weights:
  assumes p: "0 < p" and len: "length state = 36"
  shows "LinearLayer_apply ll state p
    = Inr (mat_vec (weights_of (LL_four_russians_table ll) (masks_of (LL_matrix ll))) state p)"
proof -
  let ?W = "weights_of (LL_four_russians_table ll) (masks_of (LL_matrix ll))"
  have "map (row_sum ll state p) [0..<36] = mat_vec ?W state p"
  proof (rule nth_equalityI)
    show "length (map (row_sum ll state p) [0..<36]) = length (mat_vec ?W state p)"
      by (simp add: mat_vec_def weights_of_length)
  next
    fix row assume "row < length (map (row_sum ll state p) [0..<36])"
    then have row: "row < 36" by simp
    have lw: "length (?W ! row) = 36"
      using row by (simp add: weights_of_def)
    have "map2 (*) (?W ! row) state = map (\<lambda>j. ?W ! row ! j * state ! j) [0..<36]"
      using map2_nth [of "?W ! row" state "(*)"] lw len by simp
    then show "map (row_sum ll state p) [0..<36] ! row = mat_vec ?W state p ! row"
      using row row_sum_weights [OF p row, of ll state] by (simp add: mat_vec_def weights_of_length)
  qed
  then show ?thesis
    using len by (simp add: LinearLayer_apply_def)
qed

lemma fill_rows_eval: "fill_rows [0..<36] (replicate 36 (replicate 36 0)) = Inr M_bits"
  by code_simp

lemma LinearLayer_new_eq:
  "LinearLayer_new = Inr \<lparr>LL_matrix = M_bits, LL_four_russians_table = precompute_four_russians M_bits\<rparr>"
proof -
  have "length matrix_binary = 36" by (simp add: matrix_binary_def)
  then show ?thesis by (simp add: LinearLayer_new_def fill_rows_eval)
qed

lemma precompute_table_of: "precompute_four_russians m = table_of (map (col_vec m) [0..<36])"
  unfolding precompute_four_russians_def table_of_def Let_def
  by (intro map_cong refl foldl_cong) simp

lemma M_bits_lit:
  "M_bits =
     [[1, 1, 0, 1, 1, 1, 1, 1, 1, 0, 0, 1, 0, 0, 1, 1, 1, 1, 0, 1, 1, 1, 1, 0, 1, 1, 0, 0, 0, 1, 1, 1, 0, 1, 1, 1],
      [1, 1, 1, 1, 1, 0, 1, 0, 1, 0, 1, 0, 1, 1, 0, 1, 0, 1, 1, 0, 1, 1, 1, 1, 1, 1, 1, 0, 1, 0, 0, 1, 1, 1, 1, 0],
      [0, 1, 0, 0, 1, 1, 0, 1, 1, 1, 1, 0, 1, 0, 1, 0, 1, 1, 1, 1, 1, 1, 0, 1, 0, 1, 1, 1, 1, 1, 1, 1, 1, 1, 0, 1],
      [1, 1, 1, 1, 1, 0, 1, 1, 1, 1, 1, 1, 0, 0, 1, 0, 0, 1, 1, 1, 1, 0, 1, 1, 1, 1, 0, 1, 1, 0, 0, 0, 1, 1, 1, 0],
      [1, 1, 0, 1, 1, 1, 1, 1, 0, 1, 0, 1, 0, 1, 0, 1, 1, 0, 1, 0, 1, 1, 0, 1, 1, 1, 1, 1, 1, 1, 0, 1, 0, 0, 1, 1],
      [1, 0, 1, 0, 1, 0, 0, 1, 1, 0, 1, 1, 1, 1, 0, 1, 0, 1, 0, 1, 1, 1, 1, 1, 1, 0, 1, 0, 1, 1, 1, 1, 1, 1, 1, 1],
      [1, 1, 0, 1, 1, 1, 1, 1, 0, 1, 1, 1, 1, 1, 1, 0, 0, 1, 0, 0, 1, 1, 1, 1, 0, 1, 1, 1, 1, 0, 1, 1, 0, 0, 0, 1],
      [0, 1, 1, 1, 1, 0, 1, 1, 1, 1, 1, 0, 1, 0, 1, 0, 1, 0, 1, 1, 0, 1, 0, 1, 1, 0, 1, 1, 1, 1, 1, 1, 1, 0, 1, 0],
      [1, 1, 1, 1, 0, 1, 0, 1, 0, 0, 1, 1, 0, 1, 1, 1, 1, 0, 1, 0, 1, 0, 1, 1, 1, 1, 1, 1, 0, 1, 0, 1, 1, 1, 1, 1],
      [0, 0, 1, 1, 1, 0, 1, 1, 1, 1, 1, 0, 1, 1, 1, 1, 1, 1, 0, 0, 1, 0, 0, 1, 1, 1, 1, 0, 1, 1, 1, 1, 0, 1, 1, 0],
      [0, 1, 0, 0, 1, 1, 1, 1, 0, 1, 1, 1, 1, 1, 0, 1, 0, 1, 0, 1, 0, 1, 1, 0, 1, 0, 1, 1, 0, 1, 1, 1, 1, 1, 1, 1],
      [1, 1, 1, 1, 1, 1, 1, 0, 1, 0, 1, 0, 0, 1, 1, 0, 1, 1, 1, 1, 0, 1, 0, 1, 0, 1, 1, 1, 1, 1, 1, 0, 1, 0, 1, 1],
      [1, 1, 0, 0, 0, 1, 1, 1, 0, 1, 1, 1, 1, 1, 0, 1, 1, 1, 1, 1, 1, 0, 0, 1, 0, 0, 1, 1, 1, 1, 0, 1, 1, 1, 1, 0],
      [1, 1, 1, 0, 1, 0, 0, 1, 1, 1, 1, 0, 1, 1, 1, 1, 1, 0, 1, 0, 1, 0, 1, 0, 1, 1, 0, 1, 0, 1, 1, 0, 1, 1, 1, 1],
      [0, 1, 1, 1, 1, 1, 1, 1, 1, 1, 0, 1, 0, 1, 0, 0, 1, 1, 0, 1, 1, 1, 1, 0, 1, 0, 1, 0, 1, 1, 1, 1, 1, 1, 0, 1],
      [1, 1, 0, 1, 1, 0, 0, 0, 1, 1, 1, 0, 1, 1, 1, 1, 1, 0, 1, 1, 1, 1, 1, 1, 0, 0, 1, 0, 0, 1, 1, 1, 1, 0, 1, 1],
      [1, 1, 1, 1, 1, 1, 0, 1, 0, 0, 1, 1, 1, 1, 0, 1, 1, 1, 1, 1, 0, 1, 0, 1, 0, 1, 0, 1, 1, 0, 1, 0, 1, 1, 0, 1],
      [1, 0, 1, 0, 1, 1, 1, 1, 1, 1, 1, 1, 1, 0, 1, 0, 1, 0, 0, 1, 1, 0, 1, 1, 1, 1, 0, 1, 0, 1, 0, 1, 1, 1, 1, 1],
      [0, 1, 1, 1, 1, 0, 1, 1, 0, 0, 0, 1, 1, 1, 0, 1, 1, 1, 1, 1, 0, 1, 1, 1, 1, 1, 1, 0, 0, 1, 0, 0, 1, 1, 1, 1],
      [1, 0, 1, 1, 1, 1, 1, 1, 1, 0, 1, 0, 0, 1, 1, 1, 1, 0, 1, 1, 1, 1, 1, 0, 1, 0, 1, 0, 1, 0, 1, 1, 0, 1, 0, 1],
      [1, 1, 1, 1, 0, 1, 0, 1, 1, 1, 1, 1, 1, 1, 1, 1, 0, 1, 0, 1, 0, 0, 1, 1, 0, 1, 1, 1, 1, 0, 1, 0, 1, 0, 1, 1],
      [1, 1, 1, 0, 1, 1, 1, 1, 0, 1, 1, 0, 0, 0, 1, 1, 1, 0, 1, 1, 1, 1, 1, 0, 1, 1, 1, 1, 1, 1, 0, 0, 1, 0, 0, 1],
      [1, 0, 1, 1, 0, 1, 1, 1, 1, 1, 1, 1, 0, 1, 0, 0, 1, 1, 1, 1, 0, 1, 1, 1, 1, 1, 0, 1, 0, 1, 0, 1, 0, 1, 1, 0],
      [0, 1, 1, 1, 1, 1, 1, 0, 1, 0, 1, 1, 1, 1, 1, 1, 1, 1, 1, 0, 1, 0, 1, 0, 0, 1, 1, 0, 1, 1, 1, 1, 0, 1, 0, 1],
      [0, 0, 1, 1, 1, 1, 0, 1, 1, 1, 1, 0, 1, 1, 0, 0, 0, 1, 1, 1, 0, 1, 1, 1, 1, 1, 0, 1, 1, 1, 1, 1, 1, 0, 0, 1],
      [1, 1, 0, 1, 0, 1, 1, 0, 1, 1, 1, 1, 1, 1, 1, 0, 1, 0, 0, 1, 1, 1, 1, 0, 1, 1, 1, 1, 1, 0, 1, 0, 1, 0, 1, 0],
      [1, 0, 1, 0, 1, 1, 1, 1, 1, 1, 0, 1, 0, 1, 1, 1, 1, 1, 1, 1, 1, 1, 0, 1, 0, 1, 0, 0, 1, 1, 0, 1, 1, 1, 1, 0],
      [0, 0, 1, 0, 0, 1, 1, 1, 1, 0, 1, 1, 1, 1, 0, 1, 1, 0, 0, 0, 1, 1, 1, 0, 1, 1, 1, 1, 1, 0, 1, 1, 1, 1, 1, 1],
      [0, 1, 0, 1, 1, 0, 1, 0, 1, 1, 0, 1, 1, 1, 1, 1, 1, 1, 0, 1, 0, 0, 1, 1, 1, 1, 0, 1, 1, 1, 1, 1, 0, 1, 0, 1],
      [1, 1, 0, 1, 0, 1, 0, 1, 1, 1, 1, 1, 1, 0, 1, 0, 1, 1, 1, 1, 1, 1, 1, 1, 1, 0, 1, 0, 1, 0, 0, 1, 1, 0, 1, 1],
      [1, 1, 1, 0, 0, 1, 0, 0, 1, 1, 1, 1, 0, 1, 1, 1, 1, 0, 1, 1, 0, 0, 0, 1, 1, 1, 0, 1, 1, 1, 1, 1, 0, 1, 1, 1],
      [1, 0, 1, 0, 1, 0, 1, 1, 0, 1, 0, 1, 1, 0, 1, 1, 1, 1, 1, 1, 1, 0, 1, 0, 0, 1, 1, 1, 1, 0, 1, 1, 1, 1, 1, 0],
      [0, 1, 1, 1, 1, 0, 1, 0, 1, 0, 1, 1, 1, 1, 1, 1, 0, 1, 0, 1, 1, 1, 1, 1, 1, 1, 1, 1, 0, 1, 0, 1, 0, 0, 1, 1],
      [1, 1, 1, 1, 1, 1, 0, 0, 1, 0, 0, 1, 1, 1, 1, 0, 1, 1, 1, 1, 0, 1, 1, 0, 0, 0, 1, 1, 1, 0, 1, 1, 1, 1, 1, 0],
      [1, 1, 0, 1, 0, 1, 0, 1, 0, 1, 1, 0, 1, 0, 1, 1, 0, 1, 1, 1, 1, 1, 1, 1, 0, 1, 0, 0, 1, 1, 1, 1, 0, 1, 1, 1],
      [0, 1, 1, 0, 1, 1, 1, 1, 0, 1, 0, 1, 0, 1, 1, 1, 1, 1, 1, 0, 1, 0, 1, 1, 1, 1, 1, 1, 1, 1, 1, 0, 1, 0, 1, 0]]"
  by code_simp

lemma col_vecs_lit:
  "map (col_vec M_bits) [0..<36] =
     [29636671867, 66349039071, 50700708778, 30934944731, 49755975423, 62008286549, 41321127643, 54450419709, 15029955247, 55691114204, 23286497262, 51520165241, 33212053222, 48853024626, 68563938253, 59537995571, 47226813333, 67475168879, 63987104158, 34217122989, 58765013887, 30860496119, 67578553707, 57803250686, 40725538747, 59592092511, 50109145078, 50926403036, 64419879678, 57275776949, 63813840613, 34322700279, 45889355182, 29474387759, 68423172027, 23517457781]"
  unfolding M_bits_lit by code_simp

lemma table_lit:
  "precompute_four_russians M_bits =
     [[0, 29636671867, 66349039071, 41151251620, 50700708778, 56564699857, 20389205621, 10086330126, 30934944731, 7879422624, 35457086980, 62932619135, 55803289713, 43358165258, 15243632046, 23268746453],
      [0, 49755975423, 62008286549, 25674691498, 41321127643, 8778788900, 34109457294, 53229579633, 54450419709, 31017965826, 11853376168, 40117191767, 22339987750, 62918674393, 48795120755, 3385170572],
      [0, 15029955247, 55691114204, 66717228147, 23286497262, 26107532609, 41280948530, 46763582365, 51520165241, 36524900310, 30226621349, 19167922442, 62632290967, 59776565304, 10240269387, 4790220516],
      [0, 33212053222, 48853024626, 55369681300, 68563938253, 35654540587, 20021990591, 13202678361, 59537995571, 44680479189, 27973929025, 5250743975, 9295043838, 23917013528, 40631985036, 63590716778],
      [0, 47226813333, 67475168879, 22736971258, 63987104158, 17633001995, 5640873969, 50177973348, 34217122989, 55995017016, 35478209218, 11748604247, 38966289715, 16852557478, 28576267100, 53043839177],
      [0, 58765013887, 30860496119, 45126991752, 67578553707, 8947766804, 36852410780, 22451706595, 57803250686, 3690817665, 44463445769, 34167891062, 12057149077, 66035355114, 25262600802, 35692364061],
      [0, 40725538747, 59592092511, 19941379300, 50109145078, 12110182477, 27737715881, 64661852946, 50926403036, 11276212839, 25845569155, 66570580280, 1909449258, 38833063313, 58757532021, 20759097038],
      [0, 64419879678, 57275776949, 15743296843, 63813840613, 606123035, 15275594064, 57743395758, 34322700279, 38695832841, 45771139138, 18649281212, 39297693970, 33720787948, 19121161895, 45299309657],
      [0, 45889355182, 29474387759, 53485275777, 68423172027, 22571729429, 39503644820, 15530341690, 23517457781, 68023750875, 15660522074, 38827157492, 45498323662, 954117984, 52800398817, 29596178511]]"
  unfolding precompute_table_of col_vecs_lit by code_simp

lemma masks_lit:
  "masks_of M_bits =
     [[11, 15, 9, 12, 11, 7, 3, 14, 14],
      [15, 5, 5, 11, 6, 15, 7, 9, 7],
      [2, 11, 7, 5, 15, 11, 14, 15, 11],
      [15, 13, 15, 4, 14, 13, 11, 1, 7],
      [11, 15, 10, 10, 5, 11, 15, 11, 12],
      [5, 9, 13, 11, 10, 15, 5, 15, 15],
      [11, 15, 14, 7, 2, 15, 14, 13, 8],
      [14, 13, 7, 5, 13, 10, 13, 15, 5],
      [15, 10, 12, 14, 5, 13, 15, 10, 15],
      [12, 13, 7, 15, 3, 9, 7, 15, 6],
      [2, 15, 14, 11, 10, 6, 13, 14, 15],
      [15, 7, 5, 6, 15, 10, 14, 7, 13],
      [3, 14, 14, 11, 15, 9, 12, 11, 7],
      [7, 9, 7, 15, 5, 5, 11, 6, 15],
      [14, 15, 11, 2, 11, 7, 5, 15, 11],
      [11, 1, 7, 15, 13, 15, 4, 14, 13],
      [15, 11, 12, 11, 15, 10, 10, 5, 11],
      [5, 15, 15, 5, 9, 13, 11, 10, 15],
      [14, 13, 8, 11, 15, 14, 7, 2, 15],
      [13, 15, 5, 14, 13, 7, 5, 13, 10],
      [15, 10, 15, 15, 10, 12, 14, 5, 13],
      [7, 15, 6, 12, 13, 7, 15, 3, 9],
      [13, 14, 15, 2, 15, 14, 11, 10, 6],
      [14, 7, 13, 15, 7, 5, 6, 15, 10],
      [12, 11, 7, 3, 14, 14, 11, 15, 9],
      [11, 6, 15, 7, 9, 7, 15, 5, 5],
      [5, 15, 11, 14, 15, 11, 2, 11, 7],
      [4, 14, 13, 11, 1, 7, 15, 13, 15],
      [10, 5, 11, 15, 11, 12, 11, 15, 10],
      [11, 10, 15, 5, 15, 15, 5, 9, 13],
      [7, 2, 15, 14, 13, 8, 11, 15, 14],
      [5, 13, 10, 13, 15, 5, 14, 13, 7],
      [14, 5, 13, 15, 10, 15, 15, 10, 12],
      [15, 3, 9, 7, 15, 6, 12, 13, 7],
      [11, 10, 6, 13, 14, 15, 2, 15, 14],
      [6, 15, 10, 14, 7, 13, 15, 7, 5]]"
  unfolding M_bits_lit by code_simp

lemma apply_weights_lit:
  "apply_weights =
     [[6, 7, 5, 5, 3, 1, 4, 7, 5, 3, 4, 6, 3, 6, 4, 4, 6, 4, 6, 3, 6, 6, 3, 5, 2, 2, 6, 5, 5, 6, 6, 3, 3, 5, 5, 3],
      [3, 4, 8, 5, 3, 4, 2, 2, 5, 2, 5, 0, 6, 7, 5, 5, 6, 4, 4, 3, 4, 3, 6, 4, 5, 5, 3, 3, 5, 3, 2, 4, 6, 6, 3, 5],
      [8, 6, 7, 6, 6, 4, 6, 3, 6, 6, 3, 5, 5, 3, 4, 5, 3, 1, 4, 7, 4, 5, 6, 3, 5, 4, 5, 6, 3, 1, 4, 7, 4, 5, 6, 3],
      [3, 4, 8, 5, 4, 6, 6, 6, 4, 3, 6, 4, 5, 7, 5, 8, 5, 6, 6, 3, 3, 5, 4, 5, 6, 7, 5, 5, 6, 7, 6, 8, 6, 6, 3, 5],
      [6, 7, 5, 5, 3, 1, 4, 7, 5, 5, 3, 4, 2, 3, 4, 2, 3, 4, 2, 2, 4, 5, 6, 3, 3, 4, 8, 5, 6, 4, 6, 3, 4, 5, 5, 6],
      [5, 3, 4, 5, 5, 3, 2, 4, 3, 5, 4, 5, 6, 7, 5, 5, 0, 5, 2, 5, 4, 3, 6, 4, 5, 3, 4, 5, 3, 1, 4, 7, 4, 3, 6, 4],
      [6, 7, 5, 5, 3, 1, 4, 7, 3, 5, 5, 3, 5, 5, 3, 3, 7, 5, 8, 5, 4, 3, 6, 4, 5, 4, 5, 6, 4, 6, 6, 6, 8, 5, 7, 5],
      [5, 4, 5, 6, 4, 6, 6, 6, 6, 6, 3, 5, 5, 3, 4, 5, 4, 6, 6, 6, 5, 5, 3, 4, 5, 2, 1, 5, 3, 1, 4, 7, 5, 2, 5, 0],
      [3, 4, 8, 5, 0, 5, 2, 5, 4, 5, 5, 6, 5, 4, 5, 6, 3, 4, 2, 2, 3, 5, 4, 5, 3, 4, 8, 5, 0, 5, 2, 5, 4, 3, 6, 4],
      [3, 6, 4, 4, 4, 6, 6, 6, 6, 6, 3, 5, 3, 4, 8, 5, 5, 6, 4, 5, 5, 3, 4, 6, 5, 5, 3, 3, 3, 1, 4, 7, 5, 2, 2, 6],
      [8, 6, 7, 6, 3, 1, 4, 7, 3, 5, 5, 3, 6, 7, 5, 5, 0, 5, 2, 5, 5, 2, 2, 6, 5, 2, 1, 5, 5, 6, 6, 3, 4, 3, 6, 4],
      [3, 4, 8, 5, 4, 5, 6, 5, 5, 2, 5, 0, 5, 5, 6, 4, 3, 1, 4, 7, 5, 5, 3, 4, 5, 4, 5, 6, 4, 5, 6, 5, 3, 5, 4, 5],
      [2, 2, 6, 5, 5, 6, 6, 3, 3, 5, 5, 3, 6, 7, 5, 5, 3, 1, 4, 7, 5, 3, 4, 6, 3, 6, 4, 4, 6, 4, 6, 3, 6, 6, 3, 5],
      [5, 5, 3, 3, 5, 3, 2, 4, 6, 6, 3, 5, 3, 4, 8, 5, 3, 4, 2, 2, 5, 2, 5, 0, 6, 7, 5, 5, 6, 4, 4, 3, 4, 3, 6, 4],
      [5, 4, 5, 6, 3, 1, 4, 7, 4, 5, 6, 3, 8, 6, 7, 6, 6, 4, 6, 3, 6, 6, 3, 5, 5, 3, 4, 5, 3, 1, 4, 7, 4, 5, 6, 3],
      [6, 7, 5, 5, 6, 7, 6, 8, 6, 6, 3, 5, 3, 4, 8, 5, 4, 6, 6, 6, 4, 3, 6, 4, 5, 7, 5, 8, 5, 6, 6, 3, 3, 5, 4, 5],
      [3, 4, 8, 5, 6, 4, 6, 3, 4, 5, 5, 6, 6, 7, 5, 5, 3, 1, 4, 7, 5, 5, 3, 4, 2, 3, 4, 2, 3, 4, 2, 2, 4, 5, 6, 3],
      [5, 3, 4, 5, 3, 1, 4, 7, 4, 3, 6, 4, 5, 3, 4, 5, 5, 3, 2, 4, 3, 5, 4, 5, 6, 7, 5, 5, 0, 5, 2, 5, 4, 3, 6, 4],
      [5, 4, 5, 6, 4, 6, 6, 6, 8, 5, 7, 5, 6, 7, 5, 5, 3, 1, 4, 7, 3, 5, 5, 3, 5, 5, 3, 3, 7, 5, 8, 5, 4, 3, 6, 4],
      [5, 2, 1, 5, 3, 1, 4, 7, 5, 2, 5, 0, 5, 4, 5, 6, 4, 6, 6, 6, 6, 6, 3, 5, 5, 3, 4, 5, 4, 6, 6, 6, 5, 5, 3, 4],
      [3, 4, 8, 5, 0, 5, 2, 5, 4, 3, 6, 4, 3, 4, 8, 5, 0, 5, 2, 5, 4, 5, 5, 6, 5, 4, 5, 6, 3, 4, 2, 2, 3, 5, 4, 5],
      [5, 5, 3, 3, 3, 1, 4, 7, 5, 2, 2, 6, 3, 6, 4, 4, 4, 6, 6, 6, 6, 6, 3, 5, 3, 4, 8, 5, 5, 6, 4, 5, 5, 3, 4, 6],
      [5, 2, 1, 5, 5, 6, 6, 3, 4, 3, 6, 4, 8, 6, 7, 6, 3, 1, 4, 7, 3, 5, 5, 3, 6, 7, 5, 5, 0, 5, 2, 5, 5, 2, 2, 6],
      [5, 4, 5, 6, 4, 5, 6, 5, 3, 5, 4, 5, 3, 4, 8, 5, 4, 5, 6, 5, 5, 2, 5, 0, 5, 5, 6, 4, 3, 1, 4, 7, 5, 5, 3, 4],
      [3, 6, 4, 4, 6, 4, 6, 3, 6, 6, 3, 5, 2, 2, 6, 5, 5, 6, 6, 3, 3, 5, 5, 3, 6, 7, 5, 5, 3, 1, 4, 7, 5, 3, 4, 6],
      [6, 7, 5, 5, 6, 4, 4, 3, 4, 3, 6, 4, 5, 5, 3, 3, 5, 3, 2, 4, 6, 6, 3, 5, 3, 4, 8, 5, 3, 4, 2, 2, 5, 2, 5, 0],
      [5, 3, 4, 5, 3, 1, 4, 7, 4, 5, 6, 3, 5, 4, 5, 6, 3, 1, 4, 7, 4, 5, 6, 3, 8, 6, 7, 6, 6, 4, 6, 3, 6, 6, 3, 5],
      [5, 7, 5, 8, 5, 6, 6, 3, 3, 5, 4, 5, 6, 7, 5, 5, 6, 7, 6, 8, 6, 6, 3, 5, 3, 4, 8, 5, 4, 6, 6, 6, 4, 3, 6, 4],
      [2, 3, 4, 2, 3, 4, 2, 2, 4, 5, 6, 3, 3, 4, 8, 5, 6, 4, 6, 3, 4, 5, 5, 6, 6, 7, 5, 5, 3, 1, 4, 7, 5, 5, 3, 4],
      [6, 7, 5, 5, 0, 5, 2, 5, 4, 3, 6, 4, 5, 3, 4, 5, 3, 1, 4, 7, 4, 3, 6, 4, 5, 3, 4, 5, 5, 3, 2, 4, 3, 5, 4, 5],
      [5, 5, 3, 3, 7, 5, 8, 5, 4, 3, 6, 4, 5, 4, 5, 6, 4, 6, 6, 6, 8, 5, 7, 5, 6, 7, 5, 5, 3, 1, 4, 7, 3, 5, 5, 3],
      [5, 3, 4, 5, 4, 6, 6, 6, 5, 5, 3, 4, 5, 2, 1, 5, 3, 1, 4, 7, 5, 2, 5, 0, 5, 4, 5, 6, 4, 6, 6, 6, 6, 6, 3, 5],
      [5, 4, 5, 6, 3, 4, 2, 2, 3, 5, 4, 5, 3, 4, 8, 5, 0, 5, 2, 5, 4, 3, 6, 4, 3, 4, 8, 5, 0, 5, 2, 5, 4, 5, 5, 6],
      [3, 4, 8, 5, 5, 6, 4, 5, 5, 3, 4, 6, 5, 5, 3, 3, 3, 1, 4, 7, 5, 2, 2, 6, 3, 6, 4, 4, 4, 6, 6, 6, 6, 6, 3, 5],
      [6, 7, 5, 5, 0, 5, 2, 5, 5, 2, 2, 6, 5, 2, 1, 5, 5, 6, 6, 3, 4, 3, 6, 4, 8, 6, 7, 6, 3, 1, 4, 7, 3, 5, 5, 3],
      [5, 5, 6, 4, 3, 1, 4, 7, 5, 5, 3, 4, 5, 4, 5, 6, 4, 5, 6, 5, 3, 5, 4, 5, 3, 4, 8, 5, 4, 5, 6, 5, 5, 2, 5, 0]]"
  unfolding apply_weights_def table_lit masks_lit by code_simp

lemma LinearLayer_apply_new:
  assumes "LinearLayer_new = Inr ll" and "0 < p" and "length state = 36"
  shows "LinearLayer_apply ll state p = Inr (mat_vec apply_weights state p)"
proof -
  have "ll = \<lparr>LL_matrix = M_bits, LL_four_russians_table = precompute_four_russians M_bits\<rparr>"
    using assms(1) by (simp add: LinearLayer_new_eq)
  then show ?thesis
    using LinearLayer_apply_weights [OF assms(2,3), of ll] by (simp add: apply_weights_def)
qed

lemma mat_vec_e0:
  "mat_vec apply_weights (1 # replicate 35 0) 65579 =
     [6, 3, 8, 3, 6, 5, 6, 5, 3, 3, 8, 3, 2, 5, 5, 6, 3, 5, 5, 5, 3, 5, 5, 5, 3, 6, 5, 5, 2, 6, 5, 5, 5, 3, 6, 5]"
  unfolding apply_weights_lit by code_simp

lemma matrix_vector_product_e0:
  "matrix_vector_product (1 # replicate 35 0) 65579 =
     [1, 1, 0, 1, 1, 1, 1, 0, 1, 0, 0, 1, 1, 1, 0, 1, 1, 1, 0, 1, 1, 1, 1, 0, 0, 1, 1, 0, 0, 1, 1, 1, 0, 1, 1, 0]"
  unfolding matrix_vector_product_def M_bits_lit by code_simp

text \<open>
  Claim C1, at the failing input. On the first unit vector and \<open>p = 65579\<close> the table path
  of \<^verbatim>\<open>LinearLayer::apply\<close> returns the vector that starts \<open>6, 3, 8\<close>, while the plain product
  with the matrix \<open>M\<close> is the first column of \<open>M\<close>, which starts \<open>1, 1, 0\<close>: the table entry
  chosen for a row is a set of row indices, and \<^verbatim>\<open>apply\<close> reads its bits as column offsets.
\<close>

theorem LinearLayer_apply_differs_from_product:
  "(case LinearLayer_new of Inl e \<Rightarrow> Inl e | Inr ll \<Rightarrow> LinearLayer_apply ll (1 # replicate 35 0) 65579)
     = Inr [6, 3, 8, 3, 6, 5, 6, 5, 3, 3, 8, 3, 2, 5, 5, 6, 3, 5, 5, 5, 3, 5, 5, 5, 3, 6, 5, 5, 2, 6, 5, 5, 5, 3, 6, 5]
   \<and> matrix_vector_product (1 # replicate 35 0) 65579
     = [1, 1, 0, 1, 1, 1, 1, 0, 1, 0, 0, 1, 1, 1, 0, 1, 1, 1, 0, 1, 1, 1, 1, 0, 0, 1, 1, 0, 0, 1, 1, 1, 0, 1, 1, 0]"
proof -
  have "LinearLayer_apply \<lparr>LL_matrix = M_bits, LL_four_russians_table = precompute_four_russians M_bits\<rparr>
          (1 # replicate 35 0) 65579 = Inr (mat_vec apply_weights (1 # replicate 35 0) 65579)"
    by (rule LinearLayer_apply_new [OF LinearLayer_new_eq]) simp_all
  then show ?thesis
    by (simp only: LinearLayer_new_eq sum.case mat_vec_e0 matrix_vector_product_e0 simp_thms)
qed

subsection \<open>The S-box\<close>

text \<open>
  Claim C6. For a valid modulus \<open>p\<close> the S-box is constructed, and on a triple of field
  elements \<open>(x0, x1, x2)\<close> \<^verbatim>\<open>SBox::apply\<close> returns
  \<open>(x0, (x0 * x2 + x1) mod p, (- x0 * x1 + x0 * x2 + x2) mod p)\<close>; on \<open>(1, 2, 3)\<close> it returns
  \<open>(1, 5 mod p, 4 mod p)\<close>.
\<close>

theorem SBox_apply_formula:
  assumes "valid_p p" and "0 \<le> x0" and "x0 < p"
  shows "SBox_new p = Inr \<lparr>SBox_p = p\<rparr>
     \<and> SBox_apply \<lparr>SBox_p = p\<rparr> [x0, x1, x2]
         = Inr [x0, (x0 * x2 + x1) mod p, (- x0 * x1 + x0 * x2 + x2) mod p]
     \<and> SBox_apply \<lparr>SBox_p = p\<rparr> [1, 2, 3] = Inr [1, 5 mod p, 4 mod p]"
proof -
  have p: "0 < p" using valid_p_pos [OF assms(1)] by simp
  have one: "1 mod p = 1" using valid_p_pos [OF assms(1)] by simp
  have x0: "x0 mod p = x0" using assms(2,3) by simp
  show ?thesis
    using SBox_new_valid [OF assms(1)] one x0
    by (simp add: SBox_apply_def Let_def yus_mod_pos [OF p])
qed

theorem SBox_apply_formula_witness:
  "valid_p 65579 \<and> (0::int) \<le> 7 \<and> (7::int) < 65579
     \<and> SBox_apply \<lparr>SBox_p = 65579\<rparr> [7, 65578, 40000] = Inr [7, 17683, 57691]
     \<and> SBox_apply \<lparr>SBox_p = 65579\<rparr> [1, 2, 3] = Inr [1, 5, 4]"
  using SBox_apply_formula [of 65579 7 65578 40000] by (simp add: valid_p_def)

text \<open>
  Claim C7. \<^verbatim>\<open>SBox::is_permutation\<close> returns true for every valid modulus: above 1000 it
  returns whether \<open>(1 + p + p * p) mod p\<close> is not zero, and that number is \<open>1 mod p\<close>, which
  is not zero.
\<close>

theorem is_permutation_valid:
  assumes "valid_p p"
  shows "is_permutation \<lparr>SBox_p = p\<rparr> = Inr True
     \<and> (\<forall>q. 1000 < q \<longrightarrow>
            is_permutation \<lparr>SBox_p = q\<rparr> = Inr ((1 + q + q * q) mod q \<noteq> 0)
            \<and> (1 + q + q * q) mod q = 1 mod q \<and> 1 mod q \<noteq> 0)"
proof -
  have big: "is_permutation \<lparr>SBox_p = q\<rparr> = Inr ((1 + q + q * q) mod q \<noteq> 0)
      \<and> (1 + q + q * q) mod q = 1 mod q \<and> 1 mod q \<noteq> 0" if q: "1000 < q" for q :: int
  proof -
    have pos: "0 < q" using q by simp
    have "(1 + q + q * q) mod q = (1 + q * (1 + q)) mod q"
      by (simp add: algebra_simps)
    also have "\<dots> = 1 mod q"
      by (rule mod_mult_self2)
    finally have det: "(1 + q + q * q) mod q = 1 mod q" .
    have one: "1 mod q = 1" using q by simp
    show ?thesis
      using q det one by (simp add: is_permutation_def Let_def yus_mod_pos [OF pos])
  qed
  have "1000 < p" using valid_p_pos [OF assms] by simp
  from big [OF this] big show ?thesis by simp
qed

theorem is_permutation_valid_witness:
  "valid_p 65579 \<and> is_permutation \<lparr>SBox_p = 65579\<rparr> = Inr True"
  using is_permutation_valid [of 65579] by (simp add: valid_p_def)

subsection \<open>The round constants\<close>

lemma index_bytes_le32: "index_bytes x = le32 x"
proof -
  have "(ucast (drop_bit (k * 8) x AND 0xFF) :: 8 word) = of_nat (unat x div 256 ^ k mod 256)" for k
  proof -
    have m: "(0xFF :: 32 word) = mask 8" by (simp add: mask_eq_exp_minus_1)
    have "(256 :: nat) ^ k = (2 ^ 8) ^ k" by simp
    also have "\<dots> = 2 ^ (k * 8)" by (simp only: power_mult [symmetric] mult.commute)
    finally have pw: "(256 :: nat) ^ k = 2 ^ (k * 8)" .
    have n: "unat x div 256 ^ k mod 256 = take_bit 8 (drop_bit (k * 8) (unat x))"
      by (simp add: pw take_bit_eq_mod drop_bit_eq_div)
    show ?thesis
      unfolding m n by (rule bit_word_eqI) (auto simp: bit_simps)
  qed
  then show ?thesis by (simp add: index_bytes_def le32_def)
qed


lemma upt_0_8: "[0..<8] = [0, 1, 2, 3, 4, 5, 6, 7]"
  by code_simp

lemma bytes_to_mpz_be64:
  "bytes_to_mpz [b0, b1, b2, b3, b4, b5, b6, b7] = be64 [b0, b1, b2, b3, b4, b5, b6, b7]"
  by (simp add: bytes_to_mpz_def be64_def upt_0_8)

lemma slice_map:
  assumes "k < 36"
  shows "take 8 (drop (k * 8) (map out [0..<288])) = map out [8 * k..<8 * k + 8]"
proof -
  have "drop (k * 8) (map out [0..<288]) = map out [k * 8..<288]"
    by (simp add: drop_map)
  moreover have "take 8 [k * 8..<288] = [k * 8..<k * 8 + 8]"
    using assms by (simp add: take_upt)
  ultimately show ?thesis
    by (simp add: take_map mult.commute)
qed

lemma upt_8: "[n..<n + 8] = [n, n + 1, n + 2, n + 3, n + 4, n + 5, n + 6, n + 7]"
  by (simp add: upt_rec [of n] upt_rec [of "Suc n"] upt_rec [of "Suc (Suc n)"]
      upt_rec [of "Suc (Suc (Suc n))"] upt_rec [of "Suc (Suc (Suc (Suc n)))"]
      upt_rec [of "Suc (Suc (Suc (Suc (Suc n))))"] upt_rec [of "Suc (Suc (Suc (Suc (Suc (Suc n)))))"]
      upt_rec [of "Suc (Suc (Suc (Suc (Suc (Suc (Suc n))))))"])

lemma generate_round_constant_ok:
  assumes p: "0 < p" and H: "H (RK_nonce g @ le32 j @ le32 i) = EVP_ok out"
  shows "generate_round_constant H g i j p = Inr (round_constant_spec out p)"
proof -
  have "(let elem_bytes = take 8 (drop (k * 8) (map out [0..<288]));
             rc_k = yus_mod (bytes_to_mpz elem_bytes) p
         in if rc_k = 0 then 1 else rc_k)
      = (let v = be64 (map out [8 * k..<8 * k + 8]) mod p in if v = 0 then 1 else v)"
    if "k \<in> set [0..<36]" for k
  proof -
    have k: "k < 36" using that by simp
    have "bytes_to_mpz (map out [8 * k..<8 * k + 8]) = be64 (map out [8 * k..<8 * k + 8])"
      unfolding upt_8 list.map by (rule bytes_to_mpz_be64)
    then show ?thesis
      by (simp add: slice_map [OF k] yus_mod_pos [OF p] Let_def)
  qed
  then have "map (\<lambda>k. let elem_bytes = take 8 (drop (k * 8) (map out [0..<288]));
                          rc_k = yus_mod (bytes_to_mpz elem_bytes) p
                      in if rc_k = 0 then 1 else rc_k) [0..<36] = round_constant_spec out p"
    unfolding round_constant_spec_def by (rule map_cong [OF refl])
  then show ?thesis
    using H by (simp add: generate_round_constant_def shake128_xof_def index_bytes_le32 Let_def)
qed

lemma round_constant_spec_range:
  assumes "1 < p"
  shows "length (round_constant_spec out p) = 36"
    and "c \<in> set (round_constant_spec out p) \<Longrightarrow> 0 < c \<and> c < p"
proof -
  show "length (round_constant_spec out p) = 36"
    by (simp add: round_constant_spec_def)
  assume "c \<in> set (round_constant_spec out p)"
  then obtain k where c: "c = (let v = be64 (map out [8 * k..<8 * k + 8]) mod p in if v = 0 then 1 else v)"
    by (auto simp: round_constant_spec_def)
  define v where "v = be64 (map out [8 * k..<8 * k + 8]) mod p"
  have "0 \<le> v" "v < p" using assms by (simp_all add: v_def)
  moreover have "c = (if v = 0 then 1 else v)" using c by (simp add: v_def Let_def)
  ultimately show "0 < c \<and> c < p" using assms by auto
qed

lemma xof_stream_ok: "xof_answers H input \<Longrightarrow> H input = EVP_ok (xof_stream H input)"
  by (simp add: xof_answers_def xof_stream_def split: evp_result.splits)

lemma generate_round_constant_rc_spec:
  assumes "0 < p" and "xof_answers H (RK_nonce g @ le32 (of_nat j) @ le32 (of_nat r))"
  shows "generate_round_constant H g (of_nat r) (of_nat j) p = Inr (rc_spec H (RK_nonce g) p r j)"
  unfolding rc_spec_def
  using generate_round_constant_ok [where H = H and g = g and p = p and j = "of_nat j" and i = "of_nat r"]
    assms(1) xof_stream_ok [OF assms(2)] by simp

lemma upt_0_4: "[0..<4] = [0, 1, 2, 3]"
  by code_simp

lemma le32_lits:
  "le32 0 = [0, 0, 0, 0]" "le32 1 = [1, 0, 0, 0]" "le32 2 = [2, 0, 0, 0]"
  "le32 3 = [3, 0, 0, 0]" "le32 4 = [4, 0, 0, 0]" "le32 5 = [5, 0, 0, 0]"
  by (simp_all add: le32_def upt_0_4)

text \<open>
  Claim C5. For a valid modulus, any nonce and any indices \<open>r\<close> and \<open>j\<close>, when the host's
  SHAKE128 answers the input \<open>N || j_LE32 || r_LE32\<close>, \<^verbatim>\<open>generate_round_constant(r, j, p)\<close>
  returns the 36 values obtained from the first 288 bytes of the output: each 8-byte slice
  read as a big-endian unsigned integer, reduced modulo \<open>p\<close>, a zero replaced by one. All 36
  components are non-zero and below \<open>p\<close>.
\<close>

theorem generate_round_constant_spec:
  assumes "valid_p p" and "xof_answers H (N @ le32 j @ le32 r)"
  shows "generate_round_constant H \<lparr>RK_nonce = N, RK_rounds = R\<rparr> r j p
       = Inr (round_constant_spec (xof_stream H (N @ le32 j @ le32 r)) p)
     \<and> length (round_constant_spec (xof_stream H (N @ le32 j @ le32 r)) p) = 36
     \<and> (\<forall>c\<in>set (round_constant_spec (xof_stream H (N @ le32 j @ le32 r)) p). 0 < c \<and> c < p)"
proof -
  have p: "1 < p" using valid_p_pos [OF assms(1)] by simp
  then have "0 < p" by simp
  then have "generate_round_constant H \<lparr>RK_nonce = N, RK_rounds = R\<rparr> r j p
      = Inr (round_constant_spec (xof_stream H (N @ le32 j @ le32 r)) p)"
    by (rule generate_round_constant_ok) (simp add: xof_stream_ok [OF assms(2)])
  then show ?thesis
    using round_constant_spec_range [OF p] by blast
qed

lemma shake128_sample_1_3: "xof_answers shake128_sample ([1, 2, 3, 4] @ le32 1 @ le32 3)"
  by (simp add: xof_answers_def le32_lits shake128_sample_def shake128_sample_table_def)

theorem generate_round_constant_spec_witness:
  "valid_p 65579
   \<and> xof_answers shake128_sample ([1, 2, 3, 4] @ le32 1 @ le32 3)
   \<and> generate_round_constant shake128_sample \<lparr>RK_nonce = [1, 2, 3, 4], RK_rounds = 5\<rparr> 3 1 65579
       = Inr (round_constant_spec (xof_stream shake128_sample ([1, 2, 3, 4] @ le32 1 @ le32 3)) 65579)
   \<and> list_all (\<lambda>c. 0 < c \<and> c < 65579)
         (round_constant_spec (xof_stream shake128_sample ([1, 2, 3, 4] @ le32 1 @ le32 3)) 65579)"
  using generate_round_constant_spec [OF valid_p_65579 shake128_sample_1_3, of 5]
    valid_p_65579 shake128_sample_1_3 by (simp add: list_all_iff)

subsection \<open>Ranges and the errors of the public surface\<close>

lemma mat_vec_range:
  assumes "0 < p"
  shows "length (mat_vec W state p) = length W"
    and "y \<in> set (mat_vec W state p) \<Longrightarrow> 0 \<le> y \<and> y < p"
  using assms by (auto simp: mat_vec_def)

lemma apply_weights_length: "length apply_weights = 36"
  by (simp add: apply_weights_def weights_of_length)

text \<open>
  Claim C9. For a valid modulus every component of \<^verbatim>\<open>SBox::apply\<close> on a triple lies in
  \<open>[0, p)\<close>, and \<^verbatim>\<open>LinearLayer::apply\<close> on a 36-vector returns a vector of length 36 with
  every entry in \<open>[0, p)\<close>.
\<close>

theorem range_preservation:
  assumes "valid_p p" and "length x = 3" and "LinearLayer_new = Inr ll" and "length v = 36"
  shows "(\<exists>out. SBox_apply \<lparr>SBox_p = p\<rparr> x = Inr out \<and> length out = 3
              \<and> (\<forall>y\<in>set out. 0 \<le> y \<and> y < p))
       \<and> (\<exists>out. LinearLayer_apply ll v p = Inr out \<and> length out = 36
              \<and> (\<forall>y\<in>set out. 0 \<le> y \<and> y < p))"
proof -
  have p: "0 < p" using valid_p_pos [OF assms(1)] by simp
  have "\<exists>out. SBox_apply \<lparr>SBox_p = p\<rparr> x = Inr out \<and> length out = 3
              \<and> (\<forall>y\<in>set out. 0 \<le> y \<and> y < p)"
    using assms(2) p by (simp add: SBox_apply_def Let_def yus_mod_pos [OF p])
  moreover have "LinearLayer_apply ll v p = Inr (mat_vec apply_weights v p)"
    by (rule LinearLayer_apply_new [OF assms(3) p assms(4)])
  ultimately show ?thesis
    using mat_vec_range [OF p, where W = apply_weights and state = v] by (simp add: apply_weights_length)
qed

theorem range_preservation_witness:
  "valid_p 65579
   \<and> (\<exists>out. SBox_apply \<lparr>SBox_p = 65579\<rparr> [65578, 65578, 65578] = Inr out \<and> length out = 3
          \<and> list_all (\<lambda>y. 0 \<le> y \<and> y < 65579) out)
   \<and> (\<exists>out. LinearLayer_apply
               \<lparr>LL_matrix = M_bits, LL_four_russians_table = precompute_four_russians M_bits\<rparr>
               (replicate 36 65578) 65579 = Inr out
          \<and> length out = 36 \<and> list_all (\<lambda>y. 0 \<le> y \<and> y < 65579) out)"
  using range_preservation [OF valid_p_65579 _ LinearLayer_new_eq, of "[65578, 65578, 65578]" "replicate 36 65578"]
    valid_p_65579 by (simp add: list_all_iff)

lemma YuSCipher_new_eq:
  "YuSCipher_new p L m =
     (if \<not> is_p_2mod3 p then Inl (invalid_argument ''Prime p must satisfy p = 2 mod 3'')
      else if m > 36 then Inl (invalid_argument ''Truncation m must be <=36'')
      else if p < 65536 then Inl (invalid_argument ''Prime p must be > 16 bits'')
      else Inr \<lparr>YuS_p = p, YuS_level = L, YuS_trunc_m = m, YuS_master_key = [],
                YuS_sbox = \<lparr>SBox_p = p\<rparr>,
                YuS_linear_layer = \<lparr>LL_matrix = M_bits,
                   LL_four_russians_table = precompute_four_russians M_bits\<rparr>,
                YuS_rk_gen = \<lparr>RK_nonce = [], RK_rounds = level_rounds L\<rparr>\<rparr>)"
  by (simp add: YuSCipher_new_def SBox_new_def LinearLayer_new_eq)

text \<open>
  Claim C8. The constructor raises \<^verbatim>\<open>invalid_argument\<close> exactly when \<open>p\<close> is not 2 modulo 3, or
  \<open>p < 2^16\<close>, or \<open>m > 36\<close>, and constructs the instance otherwise; \<^verbatim>\<open>init\<close> raises
  \<^verbatim>\<open>invalid_argument\<close> exactly when the key does not have 36 elements, and stores key and
  nonce otherwise; \<^verbatim>\<open>generate_keystream\<close> on an instance that the constructor returned and
  no \<^verbatim>\<open>init\<close> has changed raises the not-initialized error, returns no output and changes
  nothing.
\<close>

theorem public_surface_errors:
  fixes m :: "32 word"
  shows "((\<exists>s. YuSCipher_new p L m = Inl (invalid_argument s)) \<longleftrightarrow> (p mod 3 \<noteq> 2 \<or> p < 2 ^ 16 \<or> 36 < m))
   \<and> ((\<exists>c. YuSCipher_new p L m = Inr c) \<longleftrightarrow> \<not> (p mod 3 \<noteq> 2 \<or> p < 2 ^ 16 \<or> 36 < m))
   \<and> ((\<exists>s. init c K N = Inl (invalid_argument s)) \<longleftrightarrow> length K \<noteq> 36)
   \<and> (length K = 36 \<longrightarrow>
        init c K N = Inr (c\<lparr>YuS_master_key := K,
                             YuS_rk_gen := \<lparr>RK_nonce = N, RK_rounds = level_rounds (YuS_level c)\<rparr>\<rparr>))
   \<and> (YuSCipher_new p L m = Inr c0 \<longrightarrow>
        generate_keystream H c0 n static
          = (Inl (runtime_error ''YuSCipher not initialized with master key''), c0, static))"
proof -
  have iff: "is_p_2mod3 p \<and> \<not> p < 65536 \<longleftrightarrow> p mod 3 = 2 \<and> \<not> p < 65536"
    by (auto simp: is_p_2mod3_iff)
  have a: "(\<exists>s. YuSCipher_new p L m = Inl (invalid_argument s)) \<longleftrightarrow> (p mod 3 \<noteq> 2 \<or> p < 2 ^ 16 \<or> 36 < m)"
    using iff by (auto simp: YuSCipher_new_eq)
  have b: "(\<exists>c. YuSCipher_new p L m = Inr c) \<longleftrightarrow> \<not> (p mod 3 \<noteq> 2 \<or> p < 2 ^ 16 \<or> 36 < m)"
    using iff by (auto simp: YuSCipher_new_eq)
  have c: "(\<exists>s. init c K N = Inl (invalid_argument s)) \<longleftrightarrow> length K \<noteq> 36"
    by (simp add: init_def)
  have d: "length K = 36 \<longrightarrow>
        init c K N = Inr (c\<lparr>YuS_master_key := K,
                             YuS_rk_gen := \<lparr>RK_nonce = N, RK_rounds = level_rounds (YuS_level c)\<rparr>\<rparr>)"
    by (simp add: init_def)
  have e: "YuSCipher_new p L m = Inr c0 \<longrightarrow>
        generate_keystream H c0 n static
          = (Inl (runtime_error ''YuSCipher not initialized with master key''), c0, static)"
    by (auto simp: YuSCipher_new_eq generate_keystream_def split: if_splits)
  from a b c d e show ?thesis by blast
qed


lemma fresh_cipher_new: "YuSCipher_new 65579 SEC80 24 = Inr fresh_cipher"
  by (simp add: YuSCipher_new_eq is_p_2mod3_iff fresh_cipher_def)

lemma example_cipher_init: "init fresh_cipher (replicate 36 1) [1, 2, 3, 4] = Inr example_cipher"
  by (simp add: init_def example_cipher_def fresh_cipher_def)

theorem public_surface_errors_witness:
  "YuSCipher_new 65579 SEC80 24 = Inr fresh_cipher
   \<and> (\<exists>s. YuSCipher_new 65580 SEC80 24 = Inl (invalid_argument s))
   \<and> (\<exists>s. YuSCipher_new 65579 SEC80 37 = Inl (invalid_argument s))
   \<and> (\<exists>s. init fresh_cipher (replicate 35 1) [1, 2, 3, 4] = Inl (invalid_argument s))
   \<and> init fresh_cipher (replicate 36 1) [1, 2, 3, 4] = Inr example_cipher
   \<and> generate_keystream shake128_sample fresh_cipher 1 None
        = (Inl (runtime_error ''YuSCipher not initialized with master key''), fresh_cipher, None)"
  using public_surface_errors [of 65579 SEC80 24 fresh_cipher "replicate 35 1" "[1, 2, 3, 4]" fresh_cipher
      shake128_sample 1 None]
    public_surface_errors [of 65580 SEC80 24 fresh_cipher "replicate 36 1" "[1, 2, 3, 4]" fresh_cipher
      shake128_sample 1 None]
    public_surface_errors [of 65579 SEC80 37 fresh_cipher "replicate 36 1" "[1, 2, 3, 4]" fresh_cipher
      shake128_sample 1 None]
    fresh_cipher_new example_cipher_init
  by simp

subsection \<open>The keystream engine\<close>

lemma length_SL: "length (SL q xs) = 3 * (length xs div 3)"
proof (induction q xs rule: SL.induct)
  case (1 q x0 x1 x2 xs)
  have "(3 + length xs) div 3 = Suc (length xs div 3)" by presburger
  with 1 show ?case by simp
qed simp_all

lemma SBox_apply_triple:
  assumes "0 < SBox_p sb"
  shows "SBox_apply sb [x0, x1, x2]
    = Inr [x0 mod SBox_p sb, (x0 * x2 + x1) mod SBox_p sb, (- x0 * x1 + x0 * x2 + x2) mod SBox_p sb]"
  by (simp add: SBox_apply_def Let_def yus_mod_pos [OF assms])

lemma sbox_layer_loop_from:
  assumes q: "0 < SBox_p sb" and len: "length state = 36"
  shows "k \<le> 12 \<Longrightarrow> length out = 36 \<Longrightarrow>
     sbox_layer_loop sb state [k..<12] out = Inr (take (3 * k) out @ SL (SBox_p sb) (drop (3 * k) state))"
proof (induction "12 - k" arbitrary: k out)
  case 0
  then have "k = 12" by simp
  then show ?case using len 0 by simp
next
  case (Suc d)
  then have k: "k < 12" by simp
  let ?y0 = "state ! (3 * k) mod SBox_p sb"
  let ?y1 = "(state ! (3 * k) * state ! (3 * k + 2) + state ! (3 * k + 1)) mod SBox_p sb"
  let ?y2 = "(- state ! (3 * k) * state ! (3 * k + 1) + state ! (3 * k) * state ! (3 * k + 2)
              + state ! (3 * k + 2)) mod SBox_p sb"
  let ?out = "out[3 * k := ?y0, 3 * k + 1 := ?y1, 3 * k + 2 := ?y2]"
  have upt: "[k..<12] = k # [Suc k..<12]" using k by (simp add: upt_rec)
  have e: "3 * Suc k = Suc (Suc (Suc (3 * k)))" by simp
  have d: "drop (3 * k) state
      = state ! (3 * k) # state ! (3 * k + 1) # state ! (3 * k + 2) # drop (3 * Suc k) state"
    unfolding e using k len by (simp add: Cons_nth_drop_Suc [symmetric])
  have t: "take (3 * Suc k) ?out = take (3 * k) out @ [?y0, ?y1, ?y2]"
    unfolding e using k Suc.prems(2) by (simp add: take_Suc_conv_app_nth nth_list_update)
  have IH: "sbox_layer_loop sb state [Suc k..<12] ?out
      = Inr (take (3 * Suc k) ?out @ SL (SBox_p sb) (drop (3 * Suc k) state))"
    using Suc.hyps(1) [of "Suc k" ?out] Suc.hyps(2) k Suc.prems(2) by simp
  have step: "sbox_layer_loop sb state (k # [Suc k..<12]) out
      = sbox_layer_loop sb state [Suc k..<12] ?out"
    by (simp add: SBox_apply_triple [OF q] Let_def mult.commute [of k 3])
  have "SL (SBox_p sb) (drop (3 * k) state) = [?y0, ?y1, ?y2] @ SL (SBox_p sb) (drop (3 * Suc k) state)"
    unfolding d by simp
  then show ?case
    unfolding upt step IH t by simp
qed

lemma sbox_layer_loop_SL:
  assumes "0 < SBox_p sb" and "length state = 36"
  shows "sbox_layer_loop sb state [0..<12] (replicate 36 0) = Inr (SL (SBox_p sb) state)"
  using sbox_layer_loop_from [OF assms, of 0 "replicate 36 0"] by simp


lemma is_p_2mod3_pos: "is_p_2mod3 q \<Longrightarrow> 0 < q"
  by (auto simp: is_p_2mod3_iff) presburger

lemma static_built_Some [simp]: "static_built (Some \<lparr>SBox_p = q\<rparr>) \<longleftrightarrow> is_p_2mod3 q"
  by (simp add: static_built_def)

lemma sbox_modulus_Some [simp]: "sbox_modulus p (Some \<lparr>SBox_p = q\<rparr>) = q"
  by (simp add: sbox_modulus_def)

lemma sbox_modulus_2mod3:
  "static_built static \<Longrightarrow> is_p_2mod3 p \<Longrightarrow> is_p_2mod3 (sbox_modulus p static)"
  by (simp add: static_built_def sbox_modulus_def split: option.splits)

lemma apply_sbox_layer_SL:
  assumes "length state = 36" and "static_built static" and "is_p_2mod3 p"
  shows "apply_sbox_layer state p static
    = (Inr (SL (sbox_modulus p static) state), Some \<lparr>SBox_p = sbox_modulus p static\<rparr>)"
proof (cases static)
  case None
  have "0 < p" using assms(3) by (rule is_p_2mod3_pos)
  then have "sbox_layer_loop \<lparr>SBox_p = p\<rparr> state [0..<12] (replicate 36 0) = Inr (SL p state)"
    using sbox_layer_loop_SL [of "\<lparr>SBox_p = p\<rparr>" state] assms(1) by simp
  then show ?thesis
    using None assms(1,3) by (simp add: apply_sbox_layer_def SBox_new_def sbox_modulus_def)
next
  case (Some sb)
  then have "0 < SBox_p sb" using assms(2) by (simp add: static_built_def is_p_2mod3_pos)
  then have "sbox_layer_loop sb state [0..<12] (replicate 36 0) = Inr (SL (SBox_p sb) state)"
    using assms(1) by (rule sbox_layer_loop_SL)
  then show ?thesis
    using Some assms(1) by (simp add: apply_sbox_layer_def sbox_modulus_def)
qed

lemma add_round_key_AK:
  assumes "0 < p" and "length state = 36" and "length rk = 36"
  shows "add_round_key state rk p = Inr (AK p state rk)"
  using assms by (simp add: add_round_key_def AK_def map2_nth yus_mod_pos)

lemma length_AK: "length (AK p state rk) = min (length state) (length rk)"
  by (simp add: AK_def)

lemma generate_round_key_spec:
  assumes "0 < p" and "length K = 36" and "length rc = 36"
  shows "generate_round_key K rc p = Inr (map2 (\<lambda>k c. (k * c) mod p) K rc)"
  using assms by (simp add: generate_round_key_def map2_nth yus_mod_pos)

lemma length_rc_spec: "length (rc_spec H N p r j) = 36"
  by (simp add: rc_spec_def round_constant_spec_def)

lemma length_rk_spec: "length K = 36 \<Longrightarrow> length (rk_spec H N K p r j) = 36"
  by (simp add: rk_spec_def length_rc_spec)

text \<open>The round key of round \<open>r\<close> and block \<open>j\<close>, as the two calls of the generator compute it.\<close>

lemma round_key_rk_spec:
  assumes "0 < p" and "length (YuS_master_key c) = 36"
    and "xof_answers H (RK_nonce (YuS_rk_gen c) @ le32 (of_nat j) @ le32 (of_nat r))"
  shows "generate_round_constant H (YuS_rk_gen c) (of_nat r) (of_nat j) p
           = Inr (rc_spec H (RK_nonce (YuS_rk_gen c)) p r j)"
    and "generate_round_key (YuS_master_key c) (rc_spec H (RK_nonce (YuS_rk_gen c)) p r j) p
           = Inr (rk_spec H (RK_nonce (YuS_rk_gen c)) (YuS_master_key c) p r j)"
proof -
  show "generate_round_constant H (YuS_rk_gen c) (of_nat r) (of_nat j) p
           = Inr (rc_spec H (RK_nonce (YuS_rk_gen c)) p r j)"
    by (rule generate_round_constant_rc_spec [OF assms(1,3)])
  show "generate_round_key (YuS_master_key c) (rc_spec H (RK_nonce (YuS_rk_gen c)) p r j) p
           = Inr (rk_spec H (RK_nonce (YuS_rk_gen c)) (YuS_master_key c) p r j)"
    unfolding rk_spec_def by (rule generate_round_key_spec [OF assms(1,2) length_rc_spec])
qed


lemma round_transform_spec:
  assumes p: "is_p_2mod3 (YuS_p c)"
    and lp: "\<And>s. length s = 36 \<Longrightarrow>
               LinearLayer_apply (YuS_linear_layer c) s (YuS_p c) = Inr (lp s) \<and> length (lp s) = 36"
    and len: "length state = 36" "length rk = 36" and st: "static_built static"
  shows "round_transform c state rk static
    = (Inr (AK (YuS_p c) (lp (SL (sbox_modulus (YuS_p c) static) state)) rk),
       Some \<lparr>SBox_p = sbox_modulus (YuS_p c) static\<rparr>)"
proof -
  let ?q = "sbox_modulus (YuS_p c) static"
  have pos: "0 < YuS_p c" using p by (rule is_p_2mod3_pos)
  have sl: "length (SL ?q state) = 36" using len(1) by (simp add: length_SL)
  have "add_round_key (lp (SL ?q state)) rk (YuS_p c) = Inr (AK (YuS_p c) (lp (SL ?q state)) rk)"
    using lp [OF sl] len(2) by (intro add_round_key_AK [OF pos]) simp_all
  then show ?thesis
    using lp [OF sl] by (simp add: round_transform_def apply_sbox_layer_SL [OF len(1) st p])
qed

lemma rounds_loop_spec:
  assumes p: "is_p_2mod3 (YuS_p c)" and K: "length (YuS_master_key c) = 36"
    and lp: "\<And>s. length s = 36 \<Longrightarrow>
               LinearLayer_apply (YuS_linear_layer c) s (YuS_p c) = Inr (lp s) \<and> length (lp s) = 36"
  shows "length state = 36 \<Longrightarrow> static_built static \<Longrightarrow>
     \<forall>r\<in>set rs. xof_answers H (RK_nonce (YuS_rk_gen c) @ le32 (of_nat j) @ le32 (of_nat r)) \<Longrightarrow>
     rounds_loop H c (of_nat j) rs state static
     = (Inr (foldl (\<lambda>s r. AK (YuS_p c) (lp (SL (sbox_modulus (YuS_p c) static) s))
                       (rk_spec H (RK_nonce (YuS_rk_gen c)) (YuS_master_key c) (YuS_p c) r j)) state rs),
        if rs = [] then static else Some \<lparr>SBox_p = sbox_modulus (YuS_p c) static\<rparr>)"
proof (induction rs arbitrary: state static)
  case Nil
  show ?case by simp
next
  case (Cons r rs)
  let ?q = "sbox_modulus (YuS_p c) static"
  let ?rk = "rk_spec H (RK_nonce (YuS_rk_gen c)) (YuS_master_key c) (YuS_p c) r j"
  let ?s = "AK (YuS_p c) (lp (SL ?q state)) ?rk"
  have pos: "0 < YuS_p c" using p by (rule is_p_2mod3_pos)
  have x: "xof_answers H (RK_nonce (YuS_rk_gen c) @ le32 (of_nat j) @ le32 (of_nat r))"
    using Cons.prems(3) by simp
  have lrk: "length ?rk = 36" using K by (rule length_rk_spec)
  have rt: "round_transform c state ?rk static = (Inr ?s, Some \<lparr>SBox_p = ?q\<rparr>)"
    by (rule round_transform_spec [OF p lp Cons.prems(1) lrk Cons.prems(2)])
  have ls: "length ?s = 36"
    using lp [of "SL ?q state"] Cons.prems(1) lrk by (simp add: length_AK length_SL)
  have sb: "static_built (Some \<lparr>SBox_p = ?q\<rparr>)"
    using sbox_modulus_2mod3 [OF Cons.prems(2) p] by simp
  have IH: "rounds_loop H c (of_nat j) rs ?s (Some \<lparr>SBox_p = ?q\<rparr>)
     = (Inr (foldl (\<lambda>s r. AK (YuS_p c) (lp (SL ?q s))
                       (rk_spec H (RK_nonce (YuS_rk_gen c)) (YuS_master_key c) (YuS_p c) r j)) ?s rs),
        Some \<lparr>SBox_p = ?q\<rparr>)"
    using Cons.IH [OF ls sb] Cons.prems(3) by simp
  show ?case
    by (simp add: round_key_rk_spec [OF pos K x] rt IH)
qed

lemma CV_code: "0 < p \<Longrightarrow> map (\<lambda>i. yus_mod (int (i + 1) + int j) p) [0..<36] = CV p j"
  by (simp add: CV_def yus_mod_pos add.commute)

lemma blocks_loop_spec:
  assumes p: "is_p_2mod3 (YuS_p c)" and K: "length (YuS_master_key c) = 36"
    and lp: "\<And>s. length s = 36 \<Longrightarrow>
               LinearLayer_apply (YuS_linear_layer c) s (YuS_p c) = Inr (lp s) \<and> length (lp s) = 36"
    and R: "0 < unat rounds"
  shows "static_built static \<Longrightarrow>
     \<forall>j\<in>set js. \<forall>r\<in>{0..<Suc (unat rounds)}.
        xof_answers H (RK_nonce (YuS_rk_gen c) @ le32 (of_nat j) @ le32 (of_nat r)) \<Longrightarrow>
     blocks_loop H c rounds js keystream static
     = (Inr (keystream @ concat (map (block_spec
                 (rk_spec H (RK_nonce (YuS_rk_gen c)) (YuS_master_key c) (YuS_p c)) lp
                 (SL (sbox_modulus (YuS_p c) static)) (YuS_p c) (unat rounds) (unat (YuS_trunc_m c))) js)),
        if js = [] then static else Some \<lparr>SBox_p = sbox_modulus (YuS_p c) static\<rparr>)"
proof (induction js arbitrary: keystream static)
  case Nil
  show ?case by simp
next
  case (Cons j js)
  let ?q = "sbox_modulus (YuS_p c) static"
  let ?rk = "rk_spec H (RK_nonce (YuS_rk_gen c)) (YuS_master_key c) (YuS_p c)"
  let ?w = "AK (YuS_p c) (CV (YuS_p c) j) (?rk 0 j)"
  let ?s = "foldl (\<lambda>s r. AK (YuS_p c) (lp (SL ?q s)) (?rk r j)) ?w [1..<Suc (unat rounds)]"
  have pos: "0 < YuS_p c" using p by (rule is_p_2mod3_pos)
  have xj: "\<forall>r\<in>{0..<Suc (unat rounds)}.
      xof_answers H (RK_nonce (YuS_rk_gen c) @ le32 (of_nat j) @ le32 (of_nat r))"
    using Cons.prems(2) by simp
  then have x0: "xof_answers H (RK_nonce (YuS_rk_gen c) @ le32 (of_nat j) @ le32 (of_nat 0))"
    by (rule bspec) simp
  have xr: "\<forall>r\<in>set [1..<Suc (unat rounds)].
      xof_answers H (RK_nonce (YuS_rk_gen c) @ le32 (of_nat j) @ le32 (of_nat r))"
  proof
    fix r assume "r \<in> set [1..<Suc (unat rounds)]"
    then have "r \<in> {0..<Suc (unat rounds)}" by auto
    with xj show "xof_answers H (RK_nonce (YuS_rk_gen c) @ le32 (of_nat j) @ le32 (of_nat r))"
      by (rule bspec)
  qed
  have lcv: "length (CV (YuS_p c) j) = 36" by (simp add: CV_def)
  have lrk: "length (?rk 0 j) = 36" using K by (rule length_rk_spec)
  have kw: "key_whitening H c (CV (YuS_p c) j) (of_nat j) = Inr ?w"
    using round_key_rk_spec [OF pos K x0] add_round_key_AK [OF pos lcv lrk]
    by (simp add: key_whitening_def)
  have lw: "length ?w = 36" using lcv lrk by (simp add: length_AK)
  have ne: "[1..<Suc (unat rounds)] \<noteq> []" using R by simp
  have rl: "rounds_loop H c (of_nat j) [1..<Suc (unat rounds)] ?w static
      = (Inr ?s, Some \<lparr>SBox_p = ?q\<rparr>)"
    using rounds_loop_spec [OF p K lp lw Cons.prems(1) xr] ne by simp
  have ls: "length ?s = 36"
  proof -
    have "length (foldl (\<lambda>s r. AK (YuS_p c) (lp (SL ?q s)) (?rk r j)) s rs) = 36"
      if "length s = 36" for s rs
      using that
    proof (induction rs arbitrary: s)
      case Nil
      then show ?case by simp
    next
      case (Cons r rs)
      have "length (AK (YuS_p c) (lp (SL ?q s)) (?rk r j)) = 36"
        using lp [of "SL ?q s"] Cons.prems length_rk_spec [OF K]
        by (simp add: length_AK length_SL)
      from Cons.IH [OF this] show ?case by simp
    qed
    from this [OF lw] show ?thesis .
  qed
  have tr: "truncate c (lp ?s) = Inr (drop (unat (YuS_trunc_m c)) (lp ?s))"
    using lp [OF ls] by (simp add: truncate_def)
  have sb: "static_built (Some \<lparr>SBox_p = ?q\<rparr>)"
    using sbox_modulus_2mod3 [OF Cons.prems(1) p] by simp
  have IH: "blocks_loop H c rounds js (keystream @ drop (unat (YuS_trunc_m c)) (lp ?s)) (Some \<lparr>SBox_p = ?q\<rparr>)
     = (Inr ((keystream @ drop (unat (YuS_trunc_m c)) (lp ?s)) @ concat (map (block_spec ?rk lp
                 (SL ?q) (YuS_p c) (unat rounds) (unat (YuS_trunc_m c))) js)),
        Some \<lparr>SBox_p = ?q\<rparr>)"
    using Cons.IH [OF sb, of "keystream @ drop (unat (YuS_trunc_m c)) (lp ?s)"] Cons.prems(2) by simp
  have fl: "LinearLayer_apply (YuS_linear_layer c) ?s (YuS_p c) = Inr (lp ?s)"
    using lp [OF ls] by simp
  have blk: "drop (unat (YuS_trunc_m c)) (lp ?s)
      = block_spec ?rk lp (SL ?q) (YuS_p c) (unat rounds) (unat (YuS_trunc_m c)) j"
    unfolding block_spec_def ..
  show ?case
    using IH
    unfolding blocks_loop.simps Let_def CV_code [OF pos] kw sum.case rl prod.case fl tr blk
    by simp
qed


lemma level_rounds_spec: "unat (level_rounds L) = rounds_spec L"
  by (cases L) (simp_all add: rounds_spec_def)

lemma length_concat_const:
  "(\<And>j. length (f j) = k) \<Longrightarrow> length (concat (map f js)) = length js * k"
  by (induction js) simp_all

lemma length_keystream_spec:
  assumes "\<And>s. length (lp s) = 36"
  shows "length (keystream_spec rk lp sl p R m n) = n * (36 - m)"
  unfolding keystream_spec_def
  using length_concat_const [of "block_spec rk lp sl p R m" "36 - m" "[0..<n]"] assms
  by (simp add: block_spec_def)

lemma generate_keystream_with:
  assumes p: "is_p_2mod3 (YuS_p c)" and K: "length (YuS_master_key c) = 36"
    and lp: "\<And>s. length s = 36 \<Longrightarrow>
               LinearLayer_apply (YuS_linear_layer c) s (YuS_p c) = Inr (lp s) \<and> length (lp s) = 36"
    and st: "static_built static"
    and xof: "xof_ok H (RK_nonce (YuS_rk_gen c)) (unat n) (rounds_spec (YuS_level c))"
  shows "generate_keystream H c n static
     = (Inr (keystream_spec (rk_spec H (RK_nonce (YuS_rk_gen c)) (YuS_master_key c) (YuS_p c)) lp
               (SL (sbox_modulus (YuS_p c) static)) (YuS_p c) (rounds_spec (YuS_level c))
               (unat (YuS_trunc_m c)) (unat n)),
        c, if n = 0 then static else Some \<lparr>SBox_p = sbox_modulus (YuS_p c) static\<rparr>)"
proof -
  have R: "0 < unat (level_rounds (YuS_level c))"
    by (cases "YuS_level c") simp_all
  have x: "\<forall>j\<in>set [0..<unat n]. \<forall>r\<in>{0..<Suc (unat (level_rounds (YuS_level c)))}.
      xof_answers H (RK_nonce (YuS_rk_gen c) @ le32 (of_nat j) @ le32 (of_nat r))"
    using xof by (simp add: xof_ok_def level_rounds_spec)
  have ne: "YuS_master_key c \<noteq> []" using K by auto
  have n0: "[0..<unat n] = [] \<longleftrightarrow> n = 0"
    by (simp add: unat_eq_0)
  show ?thesis
    using blocks_loop_spec [OF p K lp R st x, of "[]"] ne n0
    by (simp add: generate_keystream_def keystream_spec_def level_rounds_spec)
qed

lemma LP_apply:
  "length s = 36 \<Longrightarrow> LinearLayer_apply ll s p = Inr (LP ll p s) \<and> length (LP ll p s) = 36"
  by (simp add: LinearLayer_apply_def LP_def)

lemma initialized_cipher:
  assumes "YuSCipher_new p L m = Inr c0" and "init c0 K N = Inr c"
  shows "is_p_2mod3 p" "\<not> p < 65536" "m \<le> 36" "length K = 36"
    "c = \<lparr>YuS_p = p, YuS_level = L, YuS_trunc_m = m, YuS_master_key = K,
          YuS_sbox = \<lparr>SBox_p = p\<rparr>,
          YuS_linear_layer = \<lparr>LL_matrix = M_bits,
             LL_four_russians_table = precompute_four_russians M_bits\<rparr>,
          YuS_rk_gen = \<lparr>RK_nonce = N, RK_rounds = level_rounds L\<rparr>\<rparr>"
  using assms by (auto simp: YuSCipher_new_eq init_def split: if_splits)

lemma shake128_sample_answers:
  assumes "j < 2" and "r < 6"
  shows "xof_answers shake128_sample ([1, 2, 3, 4] @ le32 (of_nat j) @ le32 (of_nat r))"
proof -
  have "j = 0 \<or> j = 1" using assms(1) by auto
  moreover have "r = 0 \<or> r = 1 \<or> r = 2 \<or> r = 3 \<or> r = 4 \<or> r = 5" using assms(2) by auto
  ultimately show ?thesis
    by (elim disjE)
      (simp_all add: xof_answers_def le32_lits shake128_sample_def shake128_sample_table_def)
qed

lemma xof_ok_sample: "xof_ok shake128_sample [1, 2, 3, 4] (unat (2 :: 32 word)) (rounds_spec SEC80)"
  using shake128_sample_answers by (auto simp: xof_ok_def rounds_spec_def)

subsection \<open>The static S-box across calls\<close>

lemma static_step_refl: "static_step p s s"
  by (simp add: static_step_def)

lemma static_step_trans: "static_step p s1 s2 \<Longrightarrow> static_step p s2 s3 \<Longrightarrow> static_step p s1 s3"
  by (auto simp: static_step_def)

lemma static_respecting_return: "static_respecting p (\<lambda>s. (x, s))"
  by (simp add: static_respecting_def static_step_refl)

lemma static_respectingI:
  assumes "\<And>s. static_step p s (snd (f s))"
    and "\<And>s1 s2. static_step p s1 s2 \<Longrightarrow> fst (f s1) = fst (f s2)"
    and "\<And>s1 s2. static_step p s1 s2 \<Longrightarrow> static_step p (snd (f s1)) (snd (f s2))"
  shows "static_respecting p f"
  using assms by (simp add: static_respecting_def)

lemma static_respectingD:
  assumes "static_respecting p f"
  shows "static_step p s (snd (f s))"
    and "static_step p s1 s2 \<Longrightarrow> fst (f s1) = fst (f s2)"
    and "static_step p s1 s2 \<Longrightarrow> static_step p (snd (f s1)) (snd (f s2))"
  using assms by (simp_all add: static_respecting_def)

lemma static_respecting_bind:
  assumes f: "static_respecting p f" and g: "\<And>a. static_respecting p (g a)"
  shows "static_respecting p
           (\<lambda>s. case f s of (Inl e, s') \<Rightarrow> (Inl e, s') | (Inr a, s') \<Rightarrow> g a s')"
    (is "static_respecting p ?h")
proof (rule static_respectingI)
  fix s
  obtain r s' where fs: "f s = (r, s')" by (cases "f s")
  have 1: "static_step p s s'" using static_respectingD(1) [OF f, of s] fs by simp
  show "static_step p s (snd (?h s))"
  proof (cases r)
    case (Inl e)
    then show ?thesis using fs 1 by simp
  next
    case (Inr a)
    have "static_step p s' (snd (g a s'))" by (rule static_respectingD(1) [OF g])
    then show ?thesis using fs Inr 1 by (auto intro: static_step_trans)
  qed
next
  fix s1 s2 assume st: "static_step p s1 s2"
  obtain r1 t1 where f1: "f s1 = (r1, t1)" by (cases "f s1")
  obtain r2 t2 where f2: "f s2 = (r2, t2)" by (cases "f s2")
  have r: "r2 = r1" using static_respectingD(2) [OF f st] f1 f2 by simp
  have t: "static_step p t1 t2" using static_respectingD(3) [OF f st] f1 f2 by simp
  show "fst (?h s1) = fst (?h s2)"
    using f1 f2 r static_respectingD(2) [OF g t] by (cases r1) simp_all
next
  fix s1 s2 assume st: "static_step p s1 s2"
  obtain r1 t1 where f1: "f s1 = (r1, t1)" by (cases "f s1")
  obtain r2 t2 where f2: "f s2 = (r2, t2)" by (cases "f s2")
  have r: "r2 = r1" using static_respectingD(2) [OF f st] f1 f2 by simp
  have t: "static_step p t1 t2" using static_respectingD(3) [OF f st] f1 f2 by simp
  show "static_step p (snd (?h s1)) (snd (?h s2))"
    using f1 f2 r t static_respectingD(3) [OF g t] by (cases r1) simp_all
qed

lemma static_respecting_pure:
  assumes "\<And>a. static_respecting p (g a)"
  shows "static_respecting p (\<lambda>s. case x of Inl e \<Rightarrow> (Inl e, s) | Inr a \<Rightarrow> g a s)"
  using assms by (cases x) (simp_all add: static_respecting_return)

lemma apply_sbox_layer_respecting: "static_respecting p (apply_sbox_layer state p)"
proof (rule static_respectingI)
  fix s
  show "static_step p s (snd (apply_sbox_layer state p s))"
    by (cases s) (auto simp: apply_sbox_layer_def SBox_new_def static_step_def)
next
  fix s1 s2 assume "static_step p s1 s2"
  then show "fst (apply_sbox_layer state p s1) = fst (apply_sbox_layer state p s2)"
    by (cases s1) (auto simp: apply_sbox_layer_def SBox_new_def static_step_def)
next
  fix s1 s2 assume "static_step p s1 s2"
  then show "static_step p (snd (apply_sbox_layer state p s1)) (snd (apply_sbox_layer state p s2))"
    by (cases s1) (auto simp: apply_sbox_layer_def SBox_new_def static_step_def)
qed

lemma round_transform_respecting: "static_respecting (YuS_p c) (round_transform c state rk)"
proof -
  have "round_transform c state rk
      = (\<lambda>s. case apply_sbox_layer state (YuS_p c) s of
                (Inl e, s') \<Rightarrow> (Inl e, s')
              | (Inr sbox_out, s') \<Rightarrow>
                  (\<lambda>s. case LinearLayer_apply (YuS_linear_layer c) sbox_out (YuS_p c) of
                          Inl e \<Rightarrow> (Inl e, s)
                        | Inr linear_out \<Rightarrow> (add_round_key linear_out rk (YuS_p c), s)) s')"
    by (rule ext) (simp add: round_transform_def)
  then show ?thesis
    by (simp only:)
      (intro static_respecting_bind apply_sbox_layer_respecting static_respecting_pure
        static_respecting_return)
qed

lemma rounds_loop_respecting: "static_respecting (YuS_p c) (rounds_loop H c j rs state)"
proof (induction rs arbitrary: state)
  case Nil
  have "rounds_loop H c j [] state = (\<lambda>s. (Inr state, s))" by (rule ext) simp
  then show ?case by (simp only: static_respecting_return)
next
  case (Cons r rs)
  have "rounds_loop H c j (r # rs) state
      = (\<lambda>s. case generate_round_constant H (YuS_rk_gen c) (of_nat r) j (YuS_p c) of
                Inl e \<Rightarrow> (Inl e, s)
              | Inr rc \<Rightarrow>
                  (\<lambda>s. case generate_round_key (YuS_master_key c) rc (YuS_p c) of
                          Inl e \<Rightarrow> (Inl e, s)
                        | Inr rk \<Rightarrow>
                            (\<lambda>s. case round_transform c state rk s of
                                    (Inl e, s') \<Rightarrow> (Inl e, s')
                                  | (Inr state', s') \<Rightarrow> rounds_loop H c j rs state' s') s) s)"
    by (rule ext) simp
  then show ?case
    by (simp only:)
      (intro static_respecting_pure static_respecting_bind round_transform_respecting Cons.IH)
qed

lemma blocks_loop_respecting: "static_respecting (YuS_p c) (blocks_loop H c rounds js keystream)"
proof (induction js arbitrary: keystream)
  case Nil
  have "blocks_loop H c rounds [] keystream = (\<lambda>s. (Inr keystream, s))" by (rule ext) simp
  then show ?case by (simp only: static_respecting_return)
next
  case (Cons j js)
  have "blocks_loop H c rounds (j # js) keystream
      = (\<lambda>s. case key_whitening H c (map (\<lambda>i. yus_mod (int (i + 1) + int j) (YuS_p c)) [0..<36]) (of_nat j) of
                Inl e \<Rightarrow> (Inl e, s)
              | Inr state \<Rightarrow>
                  (\<lambda>s. case rounds_loop H c (of_nat j) [1..<Suc (unat rounds)] state s of
                          (Inl e, s') \<Rightarrow> (Inl e, s')
                        | (Inr state', s') \<Rightarrow>
                            (\<lambda>s. case LinearLayer_apply (YuS_linear_layer c) state' (YuS_p c) of
                                    Inl e \<Rightarrow> (Inl e, s)
                                  | Inr final_linear \<Rightarrow>
                                      (\<lambda>s. case truncate c final_linear of
                                              Inl e \<Rightarrow> (Inl e, s)
                                            | Inr block \<Rightarrow>
                                                blocks_loop H c rounds js (keystream @ block) s) s) s') s)"
    by (rule ext) (simp add: Let_def del: upt_Suc)
  then show ?case
    by (simp only:)
      (intro static_respecting_pure static_respecting_bind rounds_loop_respecting Cons.IH)
qed

lemma generate_keystream_respecting:
  "static_respecting (YuS_p c) (\<lambda>s. (fst (generate_keystream H c n s), snd (snd (generate_keystream H c n s))))"
proof (cases "YuS_master_key c = []")
  case True
  then show ?thesis by (simp add: generate_keystream_def static_respecting_return)
next
  case False
  then have "(\<lambda>s. (fst (generate_keystream H c n s), snd (snd (generate_keystream H c n s))))
      = blocks_loop H c (level_rounds (YuS_level c)) [0..<unat n] []"
    by (intro ext) (simp add: generate_keystream_def Let_def split: prod.splits)
  then show ?thesis by (simp only: blocks_loop_respecting)
qed

lemma generate_keystream_instance: "fst (snd (generate_keystream H c n s)) = c"
  by (simp add: generate_keystream_def Let_def split: prod.splits)

lemma generate_keystream_again:
  "fst (generate_keystream H c n' (snd (snd (generate_keystream H c n s))))
     = fst (generate_keystream H c n' s)"
proof -
  have "static_step (YuS_p c) s (snd (snd (generate_keystream H c n s)))"
    using static_respectingD(1) [OF generate_keystream_respecting [of c H n], of s] by simp
  then show ?thesis
    using static_respectingD(2) [OF generate_keystream_respecting [of c H n']] by simp
qed

subsection \<open>The example runs: repeated calls and earlier instances\<close>

lemma ones_36:
  "replicate 36 (1 :: int) =
     [1, 1, 1, 1, 1, 1, 1, 1, 1, 1, 1, 1, 1, 1, 1, 1, 1, 1, 1, 1, 1, 1, 1, 1, 1, 1, 1, 1, 1, 1,
      1, 1, 1, 1, 1, 1]"
  by code_simp

lemma upt_1_6: "[1..<Suc 5] = [1, 2, 3, 4, 5]"
  by code_simp

lemma round_constant_spec_slices:
  assumes "length slices = 36" and "\<forall>s\<in>set slices. length s = 8"
  shows "round_constant_spec (\<lambda>k. if k < 288 then slices ! (k div 8) ! (k mod 8) else 0) p
       = map (\<lambda>s. let v = be64 s mod p in if v = 0 then 1 else v) slices"
proof -
  let ?out = "\<lambda>k. if k < 288 then slices ! (k div 8) ! (k mod 8) else 0"
  have sl: "map ?out [8 * k..<8 * k + 8] = slices ! k" if "k < 36" for k
  proof (rule nth_equalityI)
    show "length (map ?out [8 * k..<8 * k + 8]) = length (slices ! k)"
      using assms that by simp
  next
    fix i assume "i < length (map ?out [8 * k..<8 * k + 8])"
    then have i: "i < 8" by simp
    then have "(8 * k + i) div 8 = k" "(8 * k + i) mod 8 = i" "8 * k + i < 288"
      using that by simp_all
    then show "map ?out [8 * k..<8 * k + 8] ! i = slices ! k ! i"
      using i by simp
  qed
  have "round_constant_spec ?out p
      = map (\<lambda>k. let v = be64 (slices ! k) mod p in if v = 0 then 1 else v) [0..<length slices]"
    unfolding round_constant_spec_def assms(1) by (rule map_cong [OF refl]) (simp add: sl)
  also have "\<dots> = map (\<lambda>s. let v = be64 s mod p in if v = 0 then 1 else v)
                      (map ((!) slices) [0..<length slices])"
    by (simp add: comp_def)
  finally show ?thesis by (simp only: map_nth)
qed

text \<open>The round keys of the example cipher for the blocks 0 and 1.\<close>

lemma rk_sample_0_0:
  "rk_spec shake128_sample [1, 2, 3, 4] (replicate 36 1) 65579 0 0 =
     [39658, 33050, 57727, 54335, 47302, 36997, 3037, 50368, 37638, 7977, 32892, 8982, 15954,
      50387, 59006, 23664, 43627, 43632, 15082, 55600, 37025, 39074, 36401, 41465, 32335, 25252,
      23609, 20955, 40213, 64878, 17622, 31117, 26728, 24076, 16723, 35979]"
  by (simp add: rk_spec_def rc_spec_def xof_stream_def shake128_sample_def shake128_sample_table_def
      le32_lits round_constant_spec_slices be64_def upt_0_8 ones_36)

lemma rk_sample_1_0:
  "rk_spec shake128_sample [1, 2, 3, 4] (replicate 36 1) 65579 1 0 =
     [42129, 18843, 34954, 11439, 14775, 5931, 42448, 63028, 16924, 45492, 56058, 19815, 53647,
      3145, 5340, 18253, 14357, 29443, 11557, 62301, 60000, 33478, 62902, 56041, 23357, 42894,
      34660, 10441, 349, 26701, 52810, 7861, 50799, 60856, 35953, 4860]"
  by (simp add: rk_spec_def rc_spec_def xof_stream_def shake128_sample_def shake128_sample_table_def
      le32_lits round_constant_spec_slices be64_def upt_0_8 ones_36)

lemma rk_sample_2_0:
  "rk_spec shake128_sample [1, 2, 3, 4] (replicate 36 1) 65579 2 0 =
     [35472, 52991, 46232, 57433, 55745, 51545, 23669, 21729, 53921, 40032, 45124, 20680,
      36824, 3147, 18505, 29991, 54792, 57527, 48806, 36900, 9036, 26632, 27767, 17238, 17184,
      4789, 44286, 49302, 38329, 58236, 25070, 4499, 13393, 10775, 38111, 3073]"
  by (simp add: rk_spec_def rc_spec_def xof_stream_def shake128_sample_def shake128_sample_table_def
      le32_lits round_constant_spec_slices be64_def upt_0_8 ones_36)

lemma rk_sample_3_0:
  "rk_spec shake128_sample [1, 2, 3, 4] (replicate 36 1) 65579 3 0 =
     [14538, 64540, 9587, 19773, 35362, 3078, 28257, 50064, 10027, 27664, 50958, 61660, 11595,
      58200, 54706, 37367, 27803, 5841, 4933, 8616, 29013, 7778, 20676, 24552, 38491, 41072,
      16248, 36368, 55680, 24832, 34955, 37211, 44589, 42537, 3178, 57470]"
  by (simp add: rk_spec_def rc_spec_def xof_stream_def shake128_sample_def shake128_sample_table_def
      le32_lits round_constant_spec_slices be64_def upt_0_8 ones_36)

lemma rk_sample_4_0:
  "rk_spec shake128_sample [1, 2, 3, 4] (replicate 36 1) 65579 4 0 =
     [56742, 46638, 61903, 20209, 12690, 1432, 61562, 18621, 28824, 13303, 23245, 13611, 55263,
      12379, 24102, 23717, 39647, 15106, 57910, 48348, 10615, 61854, 56163, 16966, 58363, 56443,
      8230, 11226, 58483, 27573, 39963, 39533, 53157, 43714, 10733, 17976]"
  by (simp add: rk_spec_def rc_spec_def xof_stream_def shake128_sample_def shake128_sample_table_def
      le32_lits round_constant_spec_slices be64_def upt_0_8 ones_36)

lemma rk_sample_5_0:
  "rk_spec shake128_sample [1, 2, 3, 4] (replicate 36 1) 65579 5 0 =
     [43145, 2332, 36057, 8428, 18383, 57959, 54494, 54871, 46752, 16895, 36318, 27587, 43674,
      16261, 27144, 29790, 1078, 49083, 41155, 42924, 8594, 5825, 41113, 29057, 49820, 27634,
      52129, 43839, 34828, 31874, 31620, 34012, 2476, 59850, 17507, 20575]"
  by (simp add: rk_spec_def rc_spec_def xof_stream_def shake128_sample_def shake128_sample_table_def
      le32_lits round_constant_spec_slices be64_def upt_0_8 ones_36)

lemma rk_sample_0_1:
  "rk_spec shake128_sample [1, 2, 3, 4] (replicate 36 1) 65579 0 1 =
     [45132, 21212, 64872, 34138, 3742, 20161, 43388, 34703, 28827, 53772, 32201, 4365, 64537,
      21764, 42018, 15924, 35168, 32369, 6262, 14381, 54136, 34579, 15391, 49700, 36005, 8456,
      50129, 645, 15406, 8754, 33329, 38540, 33427, 65078, 7754, 39453]"
  by (simp add: rk_spec_def rc_spec_def xof_stream_def shake128_sample_def shake128_sample_table_def
      le32_lits round_constant_spec_slices be64_def upt_0_8 ones_36)

lemma rk_sample_1_1:
  "rk_spec shake128_sample [1, 2, 3, 4] (replicate 36 1) 65579 1 1 =
     [59781, 44784, 29506, 49402, 62491, 26494, 45709, 52344, 4774, 3520, 1689, 17570, 63276,
      52098, 21814, 59931, 21157, 25141, 11221, 54361, 48693, 54992, 62293, 27140, 3213, 26817,
      3893, 58219, 48147, 59687, 18755, 13914, 58221, 39948, 25827, 38306]"
  by (simp add: rk_spec_def rc_spec_def xof_stream_def shake128_sample_def shake128_sample_table_def
      le32_lits round_constant_spec_slices be64_def upt_0_8 ones_36)

lemma rk_sample_2_1:
  "rk_spec shake128_sample [1, 2, 3, 4] (replicate 36 1) 65579 2 1 =
     [47786, 59433, 63794, 32361, 18003, 40071, 27466, 34983, 56523, 2480, 52691, 60948, 43133,
      21367, 4997, 2622, 7148, 35544, 5765, 23949, 7915, 54605, 21534, 33647, 63417, 42731,
      34799, 21696, 50567, 21670, 50649, 64333, 35817, 55255, 63715, 4388]"
  by (simp add: rk_spec_def rc_spec_def xof_stream_def shake128_sample_def shake128_sample_table_def
      le32_lits round_constant_spec_slices be64_def upt_0_8 ones_36)

lemma rk_sample_3_1:
  "rk_spec shake128_sample [1, 2, 3, 4] (replicate 36 1) 65579 3 1 =
     [1681, 15298, 51100, 45091, 33298, 46962, 31070, 60724, 12098, 51680, 26969, 37076, 9253,
      58016, 35831, 31783, 48718, 46466, 35685, 10062, 31954, 34559, 19139, 32747, 65337, 69,
      46673, 54478, 13731, 34259, 22487, 62835, 56218, 48438, 24455, 6703]"
  by (simp add: rk_spec_def rc_spec_def xof_stream_def shake128_sample_def shake128_sample_table_def
      le32_lits round_constant_spec_slices be64_def upt_0_8 ones_36)

lemma rk_sample_4_1:
  "rk_spec shake128_sample [1, 2, 3, 4] (replicate 36 1) 65579 4 1 =
     [32476, 10364, 35285, 13181, 59713, 36584, 34643, 11471, 5279, 41630, 59863, 43426, 5734,
      56029, 6836, 2416, 61742, 19175, 32249, 52020, 98, 31240, 47942, 54670, 40364, 17896,
      7105, 57025, 48368, 18628, 34378, 2220, 9930, 35306, 50461, 5315]"
  by (simp add: rk_spec_def rc_spec_def xof_stream_def shake128_sample_def shake128_sample_table_def
      le32_lits round_constant_spec_slices be64_def upt_0_8 ones_36)

lemma rk_sample_5_1:
  "rk_spec shake128_sample [1, 2, 3, 4] (replicate 36 1) 65579 5 1 =
     [29928, 36150, 63299, 41283, 64, 12151, 48457, 19030, 1279, 46627, 11300, 42522, 29536,
      60816, 54, 21167, 10516, 14128, 42800, 12958, 41434, 54325, 61170, 484, 26124, 36502,
      59822, 47026, 33228, 15811, 19164, 57518, 18392, 20397, 18587, 42398]"
  by (simp add: rk_spec_def rc_spec_def xof_stream_def shake128_sample_def shake128_sample_table_def
      le32_lits round_constant_spec_slices be64_def upt_0_8 ones_36)

lemma block_sample_0:
  "block_spec (rk_spec shake128_sample [1, 2, 3, 4] (replicate 36 1) 65579)
     (\<lambda>s. mat_vec apply_weights s 65579) (SL 65579) 65579 5 24 0 =
     [21100, 62917, 8221, 23576, 32332, 35746, 18128, 57608, 35598, 58546, 22958, 62696]"
  unfolding block_spec_def upt_1_6 foldl.simps rk_sample_0_0 rk_sample_1_0 rk_sample_2_0 rk_sample_3_0 rk_sample_4_0 rk_sample_5_0
    apply_weights_lit
  by code_simp

lemma block_sample_1:
  "block_spec (rk_spec shake128_sample [1, 2, 3, 4] (replicate 36 1) 65579)
     (\<lambda>s. mat_vec apply_weights s 65579) (SL 65579) 65579 5 24 1 =
     [21826, 40605, 50084, 26127, 57018, 15453, 14124, 49140, 6851, 32568, 13405, 42225]"
  unfolding block_spec_def upt_1_6 foldl.simps rk_sample_0_1 rk_sample_1_1 rk_sample_2_1 rk_sample_3_1 rk_sample_4_1 rk_sample_5_1
    apply_weights_lit
  by code_simp

lemma block_sample_0_other:
  "block_spec (rk_spec shake128_sample [1, 2, 3, 4] (replicate 36 1) 65579)
     (\<lambda>s. mat_vec apply_weights s 65579) (SL 65537) 65579 5 24 0 =
     [29498, 19168, 24443, 41067, 54697, 62319, 51, 64189, 30892, 9133, 44442, 16730]"
  unfolding block_spec_def upt_1_6 foldl.simps rk_sample_0_0 rk_sample_1_0 rk_sample_2_0 rk_sample_3_0 rk_sample_4_0 rk_sample_5_0
    apply_weights_lit
  by code_simp


lemma LinearLayer_apply_mat_vec:
  assumes "LinearLayer_new = Inr ll" and "0 < p" and "length s = 36"
  shows "LinearLayer_apply ll s p = Inr (mat_vec apply_weights s p)
       \<and> length (mat_vec apply_weights s p) = 36"
  using LinearLayer_apply_new [OF assms] mat_vec_range(1) [OF assms(2), of apply_weights s]
  by (simp add: apply_weights_length)

lemma example_cipher_fields:
  "YuS_p example_cipher = 65579" "YuS_level example_cipher = SEC80"
  "YuS_trunc_m example_cipher = 24" "YuS_master_key example_cipher = replicate 36 1"
  "RK_nonce (YuS_rk_gen example_cipher) = [1, 2, 3, 4]"
  "YuS_linear_layer example_cipher
     = \<lparr>LL_matrix = M_bits, LL_four_russians_table = precompute_four_russians M_bits\<rparr>"
  by (simp_all add: example_cipher_def fresh_cipher_def)

lemma xof_ok_sample_1: "xof_ok shake128_sample [1, 2, 3, 4] (unat (1 :: 32 word)) (rounds_spec SEC80)"
  using shake128_sample_answers [of 0] by (simp add: xof_ok_def rounds_spec_def)

text \<open>
  A run of the example cipher, for \<open>n = 1\<close> or \<open>n = 2\<close> and a static S-box that is not built or
  was built with modulus \<open>q\<close>, with the linear layer as the product with \<open>apply_weights\<close>.
\<close>

lemma example_run:
  assumes "static_built static" and "n = 1 \<or> n = 2"
  shows "generate_keystream shake128_sample example_cipher n static
     = (Inr (keystream_spec (rk_spec shake128_sample [1, 2, 3, 4] (replicate 36 1) 65579)
               (\<lambda>s. mat_vec apply_weights s 65579) (SL (sbox_modulus 65579 static)) 65579 5 24 (unat n)),
        example_cipher, Some \<lparr>SBox_p = sbox_modulus 65579 static\<rparr>)"
proof -
  have x: "xof_ok shake128_sample (RK_nonce (YuS_rk_gen example_cipher)) (unat n)
             (rounds_spec (YuS_level example_cipher))"
    using assms(2) xof_ok_sample xof_ok_sample_1 by (auto simp: example_cipher_fields)
  have p: "is_p_2mod3 (YuS_p example_cipher)"
    by (simp add: example_cipher_fields is_p_2mod3_iff)
  have lp: "LinearLayer_apply (YuS_linear_layer example_cipher) s (YuS_p example_cipher)
              = Inr (mat_vec apply_weights s (YuS_p example_cipher))
            \<and> length (mat_vec apply_weights s (YuS_p example_cipher)) = 36"
    if "length s = 36" for s
    unfolding example_cipher_fields
    by (rule LinearLayer_apply_mat_vec [OF LinearLayer_new_eq _ that]) simp
  have "n \<noteq> 0" using assms(2) by auto
  then show ?thesis
    using generate_keystream_with [OF p _ lp assms(1) x]
    by (simp add: example_cipher_fields rounds_spec_def)
qed

lemma unat_lits: "unat (1 :: 32 word) = 1" "unat (2 :: 32 word) = 2" "unat (24 :: 32 word) = 24"
  by simp_all

lemma upt_lits: "[0..<1] = [0]" "[0..<2] = [0, 1]"
  by code_simp+

lemma sample_values:
  "sbox_modulus 65579 None = 65579" "sbox_modulus 65579 (Some \<lparr>SBox_p = q\<rparr>) = q"
  "rounds_spec SEC80 = 5" "static_built None"
  by (simp_all add: sbox_modulus_def rounds_spec_def static_built_def)

lemma keystream_sample_1:
  "keystream_spec (rk_spec shake128_sample [1, 2, 3, 4] (replicate 36 1) 65579)
     (\<lambda>s. mat_vec apply_weights s 65579) (SL 65579) 65579 5 24 1 =
     [21100, 62917, 8221, 23576, 32332, 35746, 18128, 57608, 35598, 58546, 22958,
        62696]"
  by (simp only: keystream_spec_def upt_lits list.map concat.simps block_sample_0 append_Nil2)

lemma keystream_sample_2:
  "keystream_spec (rk_spec shake128_sample [1, 2, 3, 4] (replicate 36 1) 65579)
     (\<lambda>s. mat_vec apply_weights s 65579) (SL 65579) 65579 5 24 2 =
     [21100, 62917, 8221, 23576, 32332, 35746, 18128, 57608, 35598, 58546, 22958,
        62696]
     @ [21826, 40605, 50084, 26127, 57018, 15453, 14124, 49140, 6851, 32568, 13405,
        42225]"
  by (simp only: keystream_spec_def upt_lits list.map concat.simps block_sample_0 block_sample_1
      append_Nil2)

lemma keystream_sample_other:
  "keystream_spec (rk_spec shake128_sample [1, 2, 3, 4] (replicate 36 1) 65579)
     (\<lambda>s. mat_vec apply_weights s 65579) (SL 65537) 65579 5 24 1 =
     [29498, 19168, 24443, 41067, 54697, 62319, 51, 64189, 30892, 9133, 44442, 16730]"
  by (simp only: keystream_spec_def upt_lits list.map concat.simps block_sample_0_other append_Nil2)

lemma example_first_call:
  "generate_keystream shake128_sample example_cipher 1 None
     = (Inr [21100, 62917, 8221, 23576, 32332, 35746, 18128, 57608, 35598, 58546, 22958,
        62696],
        example_cipher, Some \<lparr>SBox_p = 65579\<rparr>)"
  using example_run [of None 1]
  by (simp only: sample_values unat_lits keystream_sample_1 simp_thms)

lemma example_two_blocks:
  "generate_keystream shake128_sample example_cipher 2 None
     = (Inr ([21100, 62917, 8221, 23576, 32332, 35746, 18128, 57608, 35598, 58546, 22958,
        62696]
             @ [21826, 40605, 50084, 26127, 57018, 15453, 14124, 49140, 6851, 32568, 13405,
        42225]),
        example_cipher, Some \<lparr>SBox_p = 65579\<rparr>)"
  using example_run [of None 2]
  by (simp only: sample_values unat_lits keystream_sample_2 simp_thms)

lemma example_second_call:
  "generate_keystream shake128_sample example_cipher 1 (Some \<lparr>SBox_p = 65579\<rparr>)
     = (Inr [21100, 62917, 8221, 23576, 32332, 35746, 18128, 57608, 35598, 58546, 22958,
        62696],
        example_cipher, Some \<lparr>SBox_p = 65579\<rparr>)"
proof -
  have "static_built (Some \<lparr>SBox_p = 65579\<rparr>)" by (simp add: is_p_2mod3_iff)
  from example_run [OF this, of 1] show ?thesis
    by (simp only: sample_values unat_lits keystream_sample_1 simp_thms)
qed

lemma example_call_after_other:
  "generate_keystream shake128_sample example_cipher 1 (Some \<lparr>SBox_p = 65537\<rparr>)
     = (Inr [29498, 19168, 24443, 41067, 54697, 62319, 51, 64189, 30892, 9133, 44442, 16730],
        example_cipher, Some \<lparr>SBox_p = 65537\<rparr>)"
proof -
  have "static_built (Some \<lparr>SBox_p = 65537\<rparr>)" by (simp add: is_p_2mod3_iff)
  from example_run [OF this, of 1] show ?thesis
    by (simp only: sample_values unat_lits keystream_sample_other simp_thms)
qed

lemma other_cipher_new:
  "(case YuSCipher_new 65537 SEC80 24 of Inl e \<Rightarrow> Inl e | Inr c \<Rightarrow> init c (replicate 36 1) [1, 2, 3, 4])
     = Inr other_cipher"
  by (simp add: YuSCipher_new_eq is_p_2mod3_iff init_def other_cipher_def)

lemma other_cipher_static:
  "snd (snd (generate_keystream shake128_sample other_cipher 1 None)) = Some \<lparr>SBox_p = 65537\<rparr>"
proof -
  have f: "YuS_p other_cipher = 65537" "YuS_level other_cipher = SEC80"
    "YuS_master_key other_cipher = replicate 36 1" "RK_nonce (YuS_rk_gen other_cipher) = [1, 2, 3, 4]"
    by (simp_all add: other_cipher_def)
  have p: "is_p_2mod3 (YuS_p other_cipher)" by (simp add: f is_p_2mod3_iff)
  have K: "length (YuS_master_key other_cipher) = 36" by (simp add: f)
  have x: "xof_ok shake128_sample (RK_nonce (YuS_rk_gen other_cipher)) (unat (1 :: 32 word))
             (rounds_spec (YuS_level other_cipher))"
    unfolding f by (rule xof_ok_sample_1)
  show ?thesis
    using generate_keystream_with [OF p K LP_apply sample_values(4) x]
    by (simp add: f sbox_modulus_def)
qed

text \<open>
  Claim C2, as stated, fails. The example cipher (\<open>p = 65579\<close>, SEC80, \<open>m = 24\<close>, key
  \<open>(1, ..., 1)\<close>, nonce \<open>01 02 03 04\<close>) returns, for \<^verbatim>\<open>generate_keystream(1)\<close> called twice in
  a row, the block for \<open>j = 0\<close> both times; the block for \<open>j = 1\<close> is the second half of what
  \<^verbatim>\<open>generate_keystream(2)\<close> returns, and it is another one.
\<close>

theorem successive_calls_repeat_block_0:
  "fst (generate_keystream shake128_sample example_cipher 1 None)
     = Inr [21100, 62917, 8221, 23576, 32332, 35746, 18128, 57608, 35598, 58546, 22958,
            62696]
   \<and> fst (generate_keystream shake128_sample example_cipher 1
            (snd (snd (generate_keystream shake128_sample example_cipher 1 None))))
     = Inr [21100, 62917, 8221, 23576, 32332, 35746, 18128, 57608, 35598, 58546, 22958,
            62696]
   \<and> fst (generate_keystream shake128_sample example_cipher 2 None)
     = Inr ([21100, 62917, 8221, 23576, 32332, 35746, 18128, 57608, 35598, 58546, 22958,
            62696]
            @ [21826, 40605, 50084, 26127, 57018, 15453, 14124, 49140, 6851, 32568, 13405,
            42225])"
  by (simp only: example_first_call example_second_call example_two_blocks fst_conv snd_conv simp_thms)

text \<open>
  Claim C2, amended. The instance keeps no block counter: every call of
  \<^verbatim>\<open>generate_keystream\<close> processes the blocks \<open>j = 0..n-1\<close> from the key and nonce fixed at
  \<^verbatim>\<open>init\<close>. A call after an earlier call with any \<open>n\<close> returns what it would have returned
  without the earlier call, and for an initialized cipher (and a host that answers) that is
  the concatenation of the blocks \<open>0..n'-1\<close> of the specification.
\<close>

theorem generate_keystream_restarts:
  assumes "YuSCipher_new p L m = Inr c0" and "init c0 K N = Inr c"
    and "xof_ok H N (unat n') (rounds_spec L)" and "static_built static"
  shows "fst (generate_keystream H c n' (snd (snd (generate_keystream H c n static))))
       = fst (generate_keystream H c n' static)
     \<and> fst (generate_keystream H c n' (snd (snd (generate_keystream H c n static))))
       = Inr (keystream_spec (rk_spec H N K p) (LP (YuS_linear_layer c) p)
                (SL (sbox_modulus p static)) p (rounds_spec L) (unat m) (unat n'))"
proof -
  note c = initialized_cipher [OF assms(1,2)]
  have f: "YuS_p c = p" "YuS_level c = L" "YuS_trunc_m c = m" "YuS_master_key c = K"
    "RK_nonce (YuS_rk_gen c) = N"
    by (simp_all add: c(5))
  have "generate_keystream H c n' static
     = (Inr (keystream_spec (rk_spec H (RK_nonce (YuS_rk_gen c)) (YuS_master_key c) (YuS_p c))
               (LP (YuS_linear_layer c) (YuS_p c))
               (SL (sbox_modulus (YuS_p c) static)) (YuS_p c) (rounds_spec (YuS_level c))
               (unat (YuS_trunc_m c)) (unat n')),
        c, if n' = 0 then static else Some \<lparr>SBox_p = sbox_modulus (YuS_p c) static\<rparr>)"
    by (rule generate_keystream_with [OF _ _ LP_apply assms(4)]) (simp_all add: f c(1,4) assms(3))
  then show ?thesis
    by (simp add: generate_keystream_again f)
qed

theorem generate_keystream_restarts_witness:
  "YuSCipher_new 65579 SEC80 24 = Inr fresh_cipher
   \<and> init fresh_cipher (replicate 36 1) [1, 2, 3, 4] = Inr example_cipher
   \<and> xof_ok shake128_sample [1, 2, 3, 4] (unat (2 :: 32 word)) (rounds_spec SEC80)
   \<and> static_built None
   \<and> fst (generate_keystream shake128_sample example_cipher 2
            (snd (snd (generate_keystream shake128_sample example_cipher 1 None))))
       = fst (generate_keystream shake128_sample example_cipher 2 None)
   \<and> fst (generate_keystream shake128_sample example_cipher 2
            (snd (snd (generate_keystream shake128_sample example_cipher 1 None))))
       = Inr (keystream_spec (rk_spec shake128_sample [1, 2, 3, 4] (replicate 36 1) 65579)
                (LP (YuS_linear_layer example_cipher) 65579) (SL 65579) 65579 5 24 2)"
proof -
  note w = generate_keystream_restarts [OF fresh_cipher_new example_cipher_init xof_ok_sample
      sample_values(4), of 1]
  have "fst (generate_keystream shake128_sample example_cipher 2
            (snd (snd (generate_keystream shake128_sample example_cipher 1 None))))
       = fst (generate_keystream shake128_sample example_cipher 2 None)
     \<and> fst (generate_keystream shake128_sample example_cipher 2
            (snd (snd (generate_keystream shake128_sample example_cipher 1 None))))
       = Inr (keystream_spec (rk_spec shake128_sample [1, 2, 3, 4] (replicate 36 1) 65579)
                (LP (YuS_linear_layer example_cipher) 65579) (SL 65579) 65579 5 24 2)"
    using w unfolding sample_values unat_lits .
  then show ?thesis
    using fresh_cipher_new example_cipher_init xof_ok_sample sample_values(4) by blast
qed

text \<open>
  Claim C3, at the failing input. In a fresh process the example cipher returns the first
  keystream below for \<^verbatim>\<open>generate_keystream(1)\<close>. In a process where the instance with modulus
  65537 has generated a block before, the static S-box of \<^verbatim>\<open>apply_sbox_layer\<close> holds 65537, and
  the same call on the same cipher, with the same \<open>(p, L, m, K, N, n)\<close>, returns the second
  keystream.
\<close>

theorem keystream_depends_on_earlier_instances:
  "fst (generate_keystream shake128_sample example_cipher 1 None)
     = Inr [21100, 62917, 8221, 23576, 32332, 35746, 18128, 57608, 35598, 58546, 22958,
            62696]
   \<and> snd (snd (generate_keystream shake128_sample other_cipher 1 None)) = Some \<lparr>SBox_p = 65537\<rparr>
   \<and> fst (generate_keystream shake128_sample example_cipher 1 (Some \<lparr>SBox_p = 65537\<rparr>))
     = Inr [29498, 19168, 24443, 41067, 54697, 62319, 51, 64189, 30892, 9133, 44442, 16730]"
  by (simp only: example_first_call example_call_after_other other_cipher_static fst_conv simp_thms)

subsection \<open>The keystream against the block algorithm of the specification\<close>

text \<open>
  The product with \<open>M\<close> as the product with its integer 0/1 matrix, and the block algorithm
  under two linear layers that agree on 36-vectors.
\<close>

lemma M_int_lit:
  "map (map (\<lambda>b. if b = (1 :: 8 word) then (1 :: int) else 0)) M_bits =
     [[1, 1, 0, 1, 1, 1, 1, 1, 1, 0, 0, 1, 0, 0, 1, 1, 1, 1, 0, 1, 1, 1, 1, 0, 1, 1, 0, 0, 0, 1, 1, 1, 0, 1, 1, 1],
      [1, 1, 1, 1, 1, 0, 1, 0, 1, 0, 1, 0, 1, 1, 0, 1, 0, 1, 1, 0, 1, 1, 1, 1, 1, 1, 1, 0, 1, 0, 0, 1, 1, 1, 1, 0],
      [0, 1, 0, 0, 1, 1, 0, 1, 1, 1, 1, 0, 1, 0, 1, 0, 1, 1, 1, 1, 1, 1, 0, 1, 0, 1, 1, 1, 1, 1, 1, 1, 1, 1, 0, 1],
      [1, 1, 1, 1, 1, 0, 1, 1, 1, 1, 1, 1, 0, 0, 1, 0, 0, 1, 1, 1, 1, 0, 1, 1, 1, 1, 0, 1, 1, 0, 0, 0, 1, 1, 1, 0],
      [1, 1, 0, 1, 1, 1, 1, 1, 0, 1, 0, 1, 0, 1, 0, 1, 1, 0, 1, 0, 1, 1, 0, 1, 1, 1, 1, 1, 1, 1, 0, 1, 0, 0, 1, 1],
      [1, 0, 1, 0, 1, 0, 0, 1, 1, 0, 1, 1, 1, 1, 0, 1, 0, 1, 0, 1, 1, 1, 1, 1, 1, 0, 1, 0, 1, 1, 1, 1, 1, 1, 1, 1],
      [1, 1, 0, 1, 1, 1, 1, 1, 0, 1, 1, 1, 1, 1, 1, 0, 0, 1, 0, 0, 1, 1, 1, 1, 0, 1, 1, 1, 1, 0, 1, 1, 0, 0, 0, 1],
      [0, 1, 1, 1, 1, 0, 1, 1, 1, 1, 1, 0, 1, 0, 1, 0, 1, 0, 1, 1, 0, 1, 0, 1, 1, 0, 1, 1, 1, 1, 1, 1, 1, 0, 1, 0],
      [1, 1, 1, 1, 0, 1, 0, 1, 0, 0, 1, 1, 0, 1, 1, 1, 1, 0, 1, 0, 1, 0, 1, 1, 1, 1, 1, 1, 0, 1, 0, 1, 1, 1, 1, 1],
      [0, 0, 1, 1, 1, 0, 1, 1, 1, 1, 1, 0, 1, 1, 1, 1, 1, 1, 0, 0, 1, 0, 0, 1, 1, 1, 1, 0, 1, 1, 1, 1, 0, 1, 1, 0],
      [0, 1, 0, 0, 1, 1, 1, 1, 0, 1, 1, 1, 1, 1, 0, 1, 0, 1, 0, 1, 0, 1, 1, 0, 1, 0, 1, 1, 0, 1, 1, 1, 1, 1, 1, 1],
      [1, 1, 1, 1, 1, 1, 1, 0, 1, 0, 1, 0, 0, 1, 1, 0, 1, 1, 1, 1, 0, 1, 0, 1, 0, 1, 1, 1, 1, 1, 1, 0, 1, 0, 1, 1],
      [1, 1, 0, 0, 0, 1, 1, 1, 0, 1, 1, 1, 1, 1, 0, 1, 1, 1, 1, 1, 1, 0, 0, 1, 0, 0, 1, 1, 1, 1, 0, 1, 1, 1, 1, 0],
      [1, 1, 1, 0, 1, 0, 0, 1, 1, 1, 1, 0, 1, 1, 1, 1, 1, 0, 1, 0, 1, 0, 1, 0, 1, 1, 0, 1, 0, 1, 1, 0, 1, 1, 1, 1],
      [0, 1, 1, 1, 1, 1, 1, 1, 1, 1, 0, 1, 0, 1, 0, 0, 1, 1, 0, 1, 1, 1, 1, 0, 1, 0, 1, 0, 1, 1, 1, 1, 1, 1, 0, 1],
      [1, 1, 0, 1, 1, 0, 0, 0, 1, 1, 1, 0, 1, 1, 1, 1, 1, 0, 1, 1, 1, 1, 1, 1, 0, 0, 1, 0, 0, 1, 1, 1, 1, 0, 1, 1],
      [1, 1, 1, 1, 1, 1, 0, 1, 0, 0, 1, 1, 1, 1, 0, 1, 1, 1, 1, 1, 0, 1, 0, 1, 0, 1, 0, 1, 1, 0, 1, 0, 1, 1, 0, 1],
      [1, 0, 1, 0, 1, 1, 1, 1, 1, 1, 1, 1, 1, 0, 1, 0, 1, 0, 0, 1, 1, 0, 1, 1, 1, 1, 0, 1, 0, 1, 0, 1, 1, 1, 1, 1],
      [0, 1, 1, 1, 1, 0, 1, 1, 0, 0, 0, 1, 1, 1, 0, 1, 1, 1, 1, 1, 0, 1, 1, 1, 1, 1, 1, 0, 0, 1, 0, 0, 1, 1, 1, 1],
      [1, 0, 1, 1, 1, 1, 1, 1, 1, 0, 1, 0, 0, 1, 1, 1, 1, 0, 1, 1, 1, 1, 1, 0, 1, 0, 1, 0, 1, 0, 1, 1, 0, 1, 0, 1],
      [1, 1, 1, 1, 0, 1, 0, 1, 1, 1, 1, 1, 1, 1, 1, 1, 0, 1, 0, 1, 0, 0, 1, 1, 0, 1, 1, 1, 1, 0, 1, 0, 1, 0, 1, 1],
      [1, 1, 1, 0, 1, 1, 1, 1, 0, 1, 1, 0, 0, 0, 1, 1, 1, 0, 1, 1, 1, 1, 1, 0, 1, 1, 1, 1, 1, 1, 0, 0, 1, 0, 0, 1],
      [1, 0, 1, 1, 0, 1, 1, 1, 1, 1, 1, 1, 0, 1, 0, 0, 1, 1, 1, 1, 0, 1, 1, 1, 1, 1, 0, 1, 0, 1, 0, 1, 0, 1, 1, 0],
      [0, 1, 1, 1, 1, 1, 1, 0, 1, 0, 1, 1, 1, 1, 1, 1, 1, 1, 1, 0, 1, 0, 1, 0, 0, 1, 1, 0, 1, 1, 1, 1, 0, 1, 0, 1],
      [0, 0, 1, 1, 1, 1, 0, 1, 1, 1, 1, 0, 1, 1, 0, 0, 0, 1, 1, 1, 0, 1, 1, 1, 1, 1, 0, 1, 1, 1, 1, 1, 1, 0, 0, 1],
      [1, 1, 0, 1, 0, 1, 1, 0, 1, 1, 1, 1, 1, 1, 1, 0, 1, 0, 0, 1, 1, 1, 1, 0, 1, 1, 1, 1, 1, 0, 1, 0, 1, 0, 1, 0],
      [1, 0, 1, 0, 1, 1, 1, 1, 1, 1, 0, 1, 0, 1, 1, 1, 1, 1, 1, 1, 1, 1, 0, 1, 0, 1, 0, 0, 1, 1, 0, 1, 1, 1, 1, 0],
      [0, 0, 1, 0, 0, 1, 1, 1, 1, 0, 1, 1, 1, 1, 0, 1, 1, 0, 0, 0, 1, 1, 1, 0, 1, 1, 1, 1, 1, 0, 1, 1, 1, 1, 1, 1],
      [0, 1, 0, 1, 1, 0, 1, 0, 1, 1, 0, 1, 1, 1, 1, 1, 1, 1, 0, 1, 0, 0, 1, 1, 1, 1, 0, 1, 1, 1, 1, 1, 0, 1, 0, 1],
      [1, 1, 0, 1, 0, 1, 0, 1, 1, 1, 1, 1, 1, 0, 1, 0, 1, 1, 1, 1, 1, 1, 1, 1, 1, 0, 1, 0, 1, 0, 0, 1, 1, 0, 1, 1],
      [1, 1, 1, 0, 0, 1, 0, 0, 1, 1, 1, 1, 0, 1, 1, 1, 1, 0, 1, 1, 0, 0, 0, 1, 1, 1, 0, 1, 1, 1, 1, 1, 0, 1, 1, 1],
      [1, 0, 1, 0, 1, 0, 1, 1, 0, 1, 0, 1, 1, 0, 1, 1, 1, 1, 1, 1, 1, 0, 1, 0, 0, 1, 1, 1, 1, 0, 1, 1, 1, 1, 1, 0],
      [0, 1, 1, 1, 1, 0, 1, 0, 1, 0, 1, 1, 1, 1, 1, 1, 0, 1, 0, 1, 1, 1, 1, 1, 1, 1, 1, 1, 0, 1, 0, 1, 0, 0, 1, 1],
      [1, 1, 1, 1, 1, 1, 0, 0, 1, 0, 0, 1, 1, 1, 1, 0, 1, 1, 1, 1, 0, 1, 1, 0, 0, 0, 1, 1, 1, 0, 1, 1, 1, 1, 1, 0],
      [1, 1, 0, 1, 0, 1, 0, 1, 0, 1, 1, 0, 1, 0, 1, 1, 0, 1, 1, 1, 1, 1, 1, 1, 0, 1, 0, 0, 1, 1, 1, 1, 0, 1, 1, 1],
      [0, 1, 1, 0, 1, 1, 1, 1, 0, 1, 0, 1, 0, 1, 1, 1, 1, 1, 1, 0, 1, 0, 1, 1, 1, 1, 1, 1, 1, 1, 1, 0, 1, 0, 1, 0]]"
  unfolding M_bits_lit by simp

lemma M_bits_lengths: "length M_bits = 36" "i < 36 \<Longrightarrow> length (M_bits ! i) = 36"
proof -
  show "length M_bits = 36" unfolding M_bits_lit by simp
  have "list_all (\<lambda>row. length row = 36) M_bits" unfolding M_bits_lit by simp
  then show "i < 36 \<Longrightarrow> length (M_bits ! i) = 36"
    using \<open>length M_bits = 36\<close> by (simp add: list_all_length)
qed

lemma matrix_vector_product_mat_vec:
  assumes "length state = 36"
  shows "matrix_vector_product state p
       = mat_vec (map (map (\<lambda>b. if b = (1 :: 8 word) then (1 :: int) else 0)) M_bits) state p"
proof (rule nth_equalityI)
  show "length (matrix_vector_product state p)
      = length (mat_vec (map (map (\<lambda>b. if b = (1 :: 8 word) then (1 :: int) else 0)) M_bits) state p)"
    by (simp add: matrix_vector_product_def mat_vec_def M_bits_lengths)
next
  fix i assume "i < length (matrix_vector_product state p)"
  then have i: "i < 36" by (simp add: matrix_vector_product_def)
  let ?w = "map (\<lambda>b. if b = (1 :: 8 word) then (1 :: int) else 0) (M_bits ! i)"
  have lw: "length ?w = length state" using assms M_bits_lengths(2) [OF i] by simp
  have "sum_list (map2 (*) ?w state) = (\<Sum>j\<leftarrow>[0..<36]. ?w ! j * state ! j)"
    using map2_nth [OF lw, of "(*)"] M_bits_lengths(2) [OF i] by simp
  also have "\<dots> = (\<Sum>j\<leftarrow>[0..<36]. if M_bits ! i ! j = 1 then state ! j else 0)"
    by (rule arg_cong [where f = sum_list], rule map_cong [OF refl])
      (simp add: M_bits_lengths(2) [OF i])
  finally show "matrix_vector_product state p ! i
      = mat_vec (map (map (\<lambda>b. if b = (1 :: 8 word) then (1 :: int) else 0)) M_bits) state p ! i"
    using i by (simp add: matrix_vector_product_def mat_vec_def M_bits_lengths)
qed

lemma block_spec_cong:
  assumes lp: "\<And>s. length s = 36 \<Longrightarrow> lp1 s = lp2 s"
    and len: "\<And>s. length s = 36 \<Longrightarrow> length (lp2 s) = 36"
    and rk: "\<And>r. length (rk r j) = 36"
  shows "block_spec rk lp1 (SL q) p R m j = block_spec rk lp2 (SL q) p R m j"
proof -
  have step: "foldl (\<lambda>state r. AK p (lp1 (SL q state)) (rk r j)) s rs
            = foldl (\<lambda>state r. AK p (lp2 (SL q state)) (rk r j)) s rs
          \<and> length (foldl (\<lambda>state r. AK p (lp2 (SL q state)) (rk r j)) s rs) = 36"
    if "length s = 36" for s rs
    using that
  proof (induction rs arbitrary: s)
    case Nil
    then show ?case by simp
  next
    case (Cons r rs)
    have sl: "length (SL q s) = 36" using Cons.prems by (simp add: length_SL)
    have "length (AK p (lp2 (SL q s)) (rk r j)) = 36"
      using len [OF sl] rk by (simp add: length_AK)
    from Cons.IH [OF this] show ?case using lp [OF sl] by simp
  qed
  have "length (AK p (CV p j) (rk 0 j)) = 36"
    using rk by (simp add: length_AK CV_def)
  from step [OF this, of "[1..<Suc R]"] show ?thesis
    unfolding block_spec_def using lp by simp
qed

lemma block_sample_0_spec:
  "block_spec (rk_spec shake128_sample [1, 2, 3, 4] (replicate 36 1) 65579)
     (\<lambda>s. matrix_vector_product s 65579) (SL 65579) 65579 5 24 0 =
     [61064, 18155, 53764, 64198, 48246, 14886, 18203, 35931, 42846, 19342, 52977,
        26974]"
proof -
  let ?W = "map (map (\<lambda>b. if b = (1 :: 8 word) then (1 :: int) else 0)) M_bits"
  have "block_spec (rk_spec shake128_sample [1, 2, 3, 4] (replicate 36 1) 65579)
          (\<lambda>s. matrix_vector_product s 65579) (SL 65579) 65579 5 24 0
      = block_spec (rk_spec shake128_sample [1, 2, 3, 4] (replicate 36 1) 65579)
          (\<lambda>s. mat_vec ?W s 65579) (SL 65579) 65579 5 24 0"
    by (rule block_spec_cong)
      (simp_all add: matrix_vector_product_mat_vec mat_vec_def M_bits_lengths length_rk_spec)
  also have "\<dots> = [61064, 18155, 53764, 64198, 48246, 14886, 18203, 35931, 42846, 19342, 52977,
        26974]"
    unfolding block_spec_def upt_1_6 foldl.simps rk_sample_0_0 rk_sample_1_0 rk_sample_2_0
      rk_sample_3_0 rk_sample_4_0 rk_sample_5_0 M_int_lit
    by code_simp
  finally show ?thesis .
qed

lemma keystream_sample_spec:
  "keystream_spec (rk_spec shake128_sample [1, 2, 3, 4] (replicate 36 1) 65579)
     (\<lambda>s. matrix_vector_product s 65579) (SL 65579) 65579 5 24 1 =
     [61064, 18155, 53764, 64198, 48246, 14886, 18203, 35931, 42846, 19342, 52977,
        26974]"
  by (simp only: keystream_spec_def upt_lits list.map concat.simps block_sample_0_spec append_Nil2)

text \<open>
  Claim C4, at the failing input. The cipher constructed with \<open>p = 65579\<close>, SEC80 and \<open>m = 24\<close>,
  initialized with the key \<open>(1, ..., 1)\<close> and the nonce \<open>01 02 03 04\<close>, in a process that has built
  no S-box layer before: \<^verbatim>\<open>generate_keystream(1)\<close> returns twelve elements, the first keystream
  below. The block algorithm of the specification for \<open>j = 0\<close>, with the same round keys, the
  counter vector, the whitening, \<open>R = 5\<close> rounds \<open>AK(LP(SL(state)), rk^(r,0))\<close>, the final \<open>LP\<close> and
  the truncation to \<open>state[24..36]\<close>, where \<open>LP\<close> is the product with the matrix \<open>M\<close> modulo \<open>p\<close>
  and \<open>SL\<close> the S-box layer over \<open>p\<close>, gives the second keystream: the loops of the code are
  those of the specification, and the linear layer they call is not the product with \<open>M\<close>.
\<close>

theorem generate_keystream_differs_from_spec_blocks:
  "(case YuSCipher_new 65579 SEC80 24 of Inl e \<Rightarrow> Inl e
    | Inr c \<Rightarrow> init c (replicate 36 1) [1, 2, 3, 4]) = Inr example_cipher
   \<and> fst (generate_keystream shake128_sample example_cipher 1 None)
     = Inr [21100, 62917, 8221, 23576, 32332, 35746, 18128, 57608, 35598, 58546, 22958,
            62696]
   \<and> keystream_spec (rk_spec shake128_sample [1, 2, 3, 4] (replicate 36 1) 65579)
       (\<lambda>s. matrix_vector_product s 65579) (SL 65579) 65579 (rounds_spec SEC80) 24 1
     = [61064, 18155, 53764, 64198, 48246, 14886, 18203, 35931, 42846, 19342, 52977,
        26974]"
  by (simp only: fresh_cipher_new example_cipher_init sum.case example_first_call
      sample_values(3) keystream_sample_spec fst_conv simp_thms)

text \<open>
  Claim C10. A call of \<^verbatim>\<open>generate_keystream(n)\<close> leaves the instance as it was (modulus,
  level, truncation parameter, master key, round-key generator with its nonce), and the same
  call made again right after it returns the same result.
\<close>

theorem generate_keystream_frame:
  "fst (snd (generate_keystream H c n static)) = c
   \<and> fst (generate_keystream H (fst (snd (generate_keystream H c n static))) n
            (snd (snd (generate_keystream H c n static))))
     = fst (generate_keystream H c n static)"
  by (simp add: generate_keystream_instance generate_keystream_again)

theorem generate_keystream_frame_witness:
  "fst (snd (generate_keystream shake128_sample example_cipher 2 None)) = example_cipher
   \<and> fst (generate_keystream shake128_sample
            (fst (snd (generate_keystream shake128_sample example_cipher 2 None))) 2
            (snd (snd (generate_keystream shake128_sample example_cipher 2 None))))
     = fst (generate_keystream shake128_sample example_cipher 2 None)"
  by (rule generate_keystream_frame)

end
